theory Spec2Isabelle
  imports Main
begin

unbundle bit_operations_syntax

section \<open>Values of the host language\<close>

text \<open>
  A \<^verbatim>\<open>jl_value_t*\<close> is a pointer to a tagged object, or \<^verbatim>\<open>NULL\<close>.  The constructors
  below are the runtime type tags that \<^verbatim>\<open>interpreter.c\<close> tests for; objects with
  identity (datatypes, lambda infos, everything else) are addresses.
\<close>

type_synonym sym = string
type_synonym addr = nat
type_synonym jl_module = nat

datatype val =
    Null
  | SSAValue int
  | Slot int
  | GlobalRef jl_module sym
  | QuoteNode val
  | Sym sym
  | Expr sym "val list"
  | GotoNode int
  | LineNode int
  | NewvarNode val
  | Long int
  | JBool bool
  | Nothing
  | Str string
  | SVec "val list"
  | Tuple "val list"
  | Array "val list"
  | TypeVar sym bool
  | DataType addr
  | LambdaInfo addr
  | ErrorException string
  | UndefVarError val
  | TypeError string string val val
  | Obj addr

abbreviation jl_true :: val where "jl_true \<equiv> JBool True"
abbreviation jl_false :: val where "jl_false \<equiv> JBool False"
abbreviation jl_nothing :: val where "jl_nothing \<equiv> Nothing"
abbreviation jl_emptysvec :: val where "jl_emptysvec \<equiv> SVec []"

fun jl_is_svec :: "val \<Rightarrow> bool" where
  "jl_is_svec (SVec xs) = True"
| "jl_is_svec v = False"

fun jl_is_typevar :: "val \<Rightarrow> bool" where
  "jl_is_typevar (TypeVar n b) = True"
| "jl_is_typevar v = False"

fun jl_is_lambda_info :: "val \<Rightarrow> bool" where
  "jl_is_lambda_info (LambdaInfo a) = True"
| "jl_is_lambda_info v = False"

text \<open>C integer conversions: \<^verbatim>\<open>long\<close> to \<^verbatim>\<open>int\<close> (two's complement, 32 bits) and
  a signed value to \<^verbatim>\<open>size_t\<close> (64 bits).\<close>

definition to_int32 :: "int \<Rightarrow> int" where
  "to_int32 z = (z + 2 ^ 31) mod 2 ^ 32 - 2 ^ 31"

definition size_t_of :: "int \<Rightarrow> nat" where
  "size_t_of z = nat (z mod 2 ^ 64)"

section \<open>Expression heads\<close>

text \<open>Modelled from the spec: the interned head symbols are declared outside
  \<^verbatim>\<open>interpreter.c\<close>; their spellings are the ones section 6 of the specification lists.\<close>

named_theorems sym_defs

definition call_sym :: sym where [sym_defs]: "call_sym = ''call''"
definition invoke_sym :: sym where [sym_defs]: "invoke_sym = ''invoke''"
definition new_sym :: sym where [sym_defs]: "new_sym = ''new''"
definition static_parameter_sym :: sym where [sym_defs]: "static_parameter_sym = ''static_parameter''"
definition inert_sym :: sym where [sym_defs]: "inert_sym = ''inert''"
definition copyast_sym :: sym where [sym_defs]: "copyast_sym = ''copyast''"
definition static_typeof_sym :: sym where [sym_defs]: "static_typeof_sym = ''static_typeof''"
definition exc_sym :: sym where [sym_defs]: "exc_sym = ''the_exception''"
definition method_sym :: sym where [sym_defs]: "method_sym = ''method''"
definition const_sym :: sym where [sym_defs]: "const_sym = ''const''"
definition global_sym :: sym where [sym_defs]: "global_sym = ''global''"
definition abstracttype_sym :: sym where [sym_defs]: "abstracttype_sym = ''abstract_type''"
definition bitstype_sym :: sym where [sym_defs]: "bitstype_sym = ''bits_type''"
definition compositetype_sym :: sym where [sym_defs]: "compositetype_sym = ''composite_type''"
definition module_sym :: sym where [sym_defs]: "module_sym = ''module''"
definition thunk_sym :: sym where [sym_defs]: "thunk_sym = ''thunk''"
definition error_sym :: sym where [sym_defs]: "error_sym = ''error''"
definition jl_incomplete_sym :: sym where [sym_defs]: "jl_incomplete_sym = ''incomplete''"
definition boundscheck_sym :: sym where [sym_defs]: "boundscheck_sym = ''boundscheck''"
definition inbounds_sym :: sym where [sym_defs]: "inbounds_sym = ''inbounds''"
definition fastmath_sym :: sym where [sym_defs]: "fastmath_sym = ''fastmath''"
definition simdloop_sym :: sym where [sym_defs]: "simdloop_sym = ''simdloop''"
definition meta_sym :: sym where [sym_defs]: "meta_sym = ''meta''"
definition type_goto_sym :: sym where [sym_defs]: "type_goto_sym = ''type_goto''"
definition return_sym :: sym where [sym_defs]: "return_sym = ''return''"
definition assign_sym :: sym where [sym_defs]: "assign_sym = ''=''"
definition goto_ifnot_sym :: sym where [sym_defs]: "goto_ifnot_sym = ''goto_ifnot''"
definition line_sym :: sym where [sym_defs]: "line_sym = ''line''"
definition enter_sym :: sym where [sym_defs]: "enter_sym = ''enter''"
definition leave_sym :: sym where [sym_defs]: "leave_sym = ''leave''"

section \<open>Outcomes\<close>

text \<open>
  A C function of the interpreter either returns a value, or leaves by a throw
  (\<^verbatim>\<open>longjmp\<close> to the innermost handler; the exception itself is the global
  \<^verbatim>\<open>jl_exception_in_transit\<close>, so \<open>Threw\<close> carries only the state), or leaves the
  language altogether: a failed \<^verbatim>\<open>assert\<close>, a \<^verbatim>\<open>NULL\<close> dereference or a read outside an
  array.  The last outcome is \<open>Abort\<close>; no handler catches it and no state survives it.
\<close>

datatype ('a, 'w) res = Ret 'a 'w | Threw 'w | Abort

fun bind_res :: "('a, 'w) res \<Rightarrow> ('a \<Rightarrow> 'w \<Rightarrow> ('b, 'w) res) \<Rightarrow> ('b, 'w) res" where
  "bind_res (Ret a w) f = f a w"
| "bind_res (Threw w) f = Threw w"
| "bind_res Abort f = Abort"

section \<open>Runtime state\<close>

record jl_binding =
  b_name :: sym
  b_value :: val
  b_constp :: bool

record jl_typename =
  tn_name :: sym
  tn_names :: val

record jl_datatype =
  dt_name :: addr
  dt_super :: val
  dt_parameters :: val
  dt_types :: val
  dt_instance :: val
  dt_size :: int
  dt_abstract :: bool
  dt_mutabl :: bool
  dt_ninitialized :: int

text \<open>
  The process-wide cells the interpreter reads and writes, the stores of the objects it
  dereferences (bindings, datatypes, type names, each by address), and the rest of the
  runtime's state, which only the collaborators see.
\<close>

record 'x world =
  bindings :: "addr \<Rightarrow> jl_binding"
  dtypes :: "addr \<Rightarrow> jl_datatype"
  typenames :: "addr \<Rightarrow> jl_typename"
  jl_current_module :: jl_module
  task_current_module :: jl_module
  inside_typedef :: int
  jl_exception_in_transit :: val
  jl_lineno :: int
  runtime_state :: 'x

definition set_binding_value :: "addr \<Rightarrow> val \<Rightarrow> 'x world \<Rightarrow> 'x world" where
  "set_binding_value b v w = w\<lparr>bindings := (bindings w)(b := (bindings w b)\<lparr>b_value := v\<rparr>)\<rparr>"

definition set_dt_super :: "addr \<Rightarrow> val \<Rightarrow> 'x world \<Rightarrow> 'x world" where
  "set_dt_super dt v w = w\<lparr>dtypes := (dtypes w)(dt := (dtypes w dt)\<lparr>dt_super := v\<rparr>)\<rparr>"

definition set_dt_types :: "addr \<Rightarrow> val \<Rightarrow> 'x world \<Rightarrow> 'x world" where
  "set_dt_types dt v w = w\<lparr>dtypes := (dtypes w)(dt := (dtypes w dt)\<lparr>dt_types := v\<rparr>)\<rparr>"

definition set_dt_instance :: "addr \<Rightarrow> val \<Rightarrow> 'x world \<Rightarrow> 'x world" where
  "set_dt_instance dt v w = w\<lparr>dtypes := (dtypes w)(dt := (dtypes w dt)\<lparr>dt_instance := v\<rparr>)\<rparr>"

subsection \<open>Throw primitives\<close>

text \<open>Modelled from the spec: the throw and error primitives are collaborators
  (section 1).  A throw stores the exception in \<^verbatim>\<open>jl_exception_in_transit\<close> and unwinds;
  \<^verbatim>\<open>jl_rethrow\<close> unwinds again with the exception already in transit; \<^verbatim>\<open>jl_error\<close>
  throws an error carrying the message, \<^verbatim>\<open>jl_undefined_var_error\<close> an undefined-variable
  error naming the variable, \<^verbatim>\<open>jl_type_error_rt\<close> a type error.\<close>

definition jl_throw :: "val \<Rightarrow> 'x world \<Rightarrow> ('a, 'x world) res" where
  "jl_throw e w = Threw (w\<lparr>jl_exception_in_transit := e\<rparr>)"

definition jl_rethrow :: "'x world \<Rightarrow> ('a, 'x world) res" where
  "jl_rethrow w = Threw w"

definition jl_error :: "string \<Rightarrow> 'x world \<Rightarrow> ('a, 'x world) res" where
  "jl_error str w = jl_throw (ErrorException str) w"

definition jl_undefined_var_error :: "val \<Rightarrow> 'x world \<Rightarrow> ('a, 'x world) res" where
  "jl_undefined_var_error var w = jl_throw (UndefVarError var) w"

definition jl_type_error_rt :: "string \<Rightarrow> string \<Rightarrow> val \<Rightarrow> val \<Rightarrow> 'x world \<Rightarrow> ('a, 'x world) res" where
  "jl_type_error_rt fname ctx ty got w = jl_throw (TypeError fname ctx ty got) w"

text \<open>Modelled from the spec: \<^verbatim>\<open>jl_f_tuple\<close> builds the tuple of the values it is given.\<close>

definition jl_f_tuple :: "val list \<Rightarrow> val" where
  "jl_f_tuple xs = Tuple xs"

subsection \<open>Collaborators\<close>

text \<open>
  Functions, macros and constants that \<^verbatim>\<open>interpreter.c\<close> calls and does not define.
  They are parameters of the model: every theorem holds for every choice of them.
  The ones that can run code or fail return an outcome.
\<close>

record 'x runtime =
  jl_apply_generic :: "val list \<Rightarrow> 'x world \<Rightarrow> (val, 'x world) res"
  jl_call_method_internal :: "val \<Rightarrow> val list \<Rightarrow> 'x world \<Rightarrow> (val, 'x world) res"
  jl_in_inference :: "'x world \<Rightarrow> val \<Rightarrow> bool"
  jl_get_global :: "jl_module \<Rightarrow> sym \<Rightarrow> 'x world \<Rightarrow> (val, 'x world) res"
  jl_get_binding_wr :: "jl_module \<Rightarrow> sym \<Rightarrow> 'x world \<Rightarrow> (addr, 'x world) res"
  jl_get_binding_for_method_def :: "jl_module \<Rightarrow> sym \<Rightarrow> 'x world \<Rightarrow> (addr, 'x world) res"
  jl_generic_function_def :: "sym \<Rightarrow> addr \<Rightarrow> jl_module \<Rightarrow> 'x world \<Rightarrow> (val, 'x world) res"
  jl_method_def :: "val \<Rightarrow> val \<Rightarrow> val \<Rightarrow> 'x world \<Rightarrow> (unit, 'x world) res"
  jl_declare_constant :: "addr \<Rightarrow> 'x world \<Rightarrow> (unit, 'x world) res"
  jl_checked_assignment :: "addr \<Rightarrow> val \<Rightarrow> 'x world \<Rightarrow> (unit, 'x world) res"
  jl_new_abstracttype :: "val \<Rightarrow> val \<Rightarrow> val \<Rightarrow> 'x world \<Rightarrow> (addr, 'x world) res"
  jl_new_bitstype :: "val \<Rightarrow> val \<Rightarrow> val \<Rightarrow> int \<Rightarrow> 'x world \<Rightarrow> (addr, 'x world) res"
  jl_new_datatype :: "val \<Rightarrow> val \<Rightarrow> val \<Rightarrow> val \<Rightarrow> val \<Rightarrow> int \<Rightarrow> int \<Rightarrow> int \<Rightarrow> 'x world \<Rightarrow> (addr, 'x world) res"
  jl_reinstantiate_inner_types :: "addr \<Rightarrow> 'x world \<Rightarrow> (unit, 'x world) res"
  jl_reset_instantiate_inner_types :: "addr \<Rightarrow> 'x world \<Rightarrow> 'x world"
  jl_compute_field_offsets :: "addr \<Rightarrow> 'x world \<Rightarrow> (unit, 'x world) res"
  jl_is_datatype_make_singleton :: "'x world \<Rightarrow> addr \<Rightarrow> bool"
  newstruct :: "addr \<Rightarrow> 'x world \<Rightarrow> (val, 'x world) res"
  jl_is_structtype :: "'x world \<Rightarrow> val \<Rightarrow> bool"
  jl_new_struct_uninit :: "val \<Rightarrow> 'x world \<Rightarrow> (val, 'x world) res"
  jl_set_nth_field :: "val \<Rightarrow> nat \<Rightarrow> val \<Rightarrow> 'x world \<Rightarrow> (unit, 'x world) res"
  jl_copy_ast :: "val \<Rightarrow> 'x world \<Rightarrow> (val, 'x world) res"
  jl_eval_module_expr :: "val \<Rightarrow> 'x world \<Rightarrow> (val, 'x world) res"
  jl_toplevel_eval :: "val \<Rightarrow> 'x world \<Rightarrow> (val, 'x world) res"
  jl_is_toplevel_only_expr :: "val \<Rightarrow> bool"
  jl_egal :: "'x world \<Rightarrow> val \<Rightarrow> val \<Rightarrow> bool"
  jl_subtype :: "'x world \<Rightarrow> val \<Rightarrow> val \<Rightarrow> bool"
  jl_is_type :: "val \<Rightarrow> bool"
  jl_any_type :: val
  jl_bool_type :: val
  jl_type_type :: val
  jl_vararg_type :: val
  jl_builtin_type :: val
  jl_tuple_typename :: addr

section \<open>The interpreter\<close>

record jl_method =
  m_module :: jl_module

record jl_lambda_info =
  li_code :: "val list"
  li_slotflags :: "nat list"
  li_slotnames :: "val list"
  li_ssavaluetypes :: val
  li_nargs :: nat
  li_isva :: bool
  li_sparam_vals :: val
  li_def :: "jl_method option"

text \<open>The struct \<^verbatim>\<open>interpreter_state\<close>; \<^verbatim>\<open>lam\<close> and \<^verbatim>\<open>locals\<close> may be \<^verbatim>\<open>NULL\<close>
  (\<open>None\<close>), \<^verbatim>\<open>sparam_vals\<close> may be \<^verbatim>\<open>NULL\<close> (\<open>Null\<close>).  An absent local is \<open>Null\<close>.\<close>

record interpreter_state =
  s_lam :: "jl_lambda_info option"
  s_locals :: "val list option"
  s_sparam_vals :: val

subsection \<open>Helpers of the evaluator\<close>

definition jl_eval_global_var :: "'x runtime \<Rightarrow> jl_module \<Rightarrow> sym \<Rightarrow> 'x world \<Rightarrow> (val, 'x world) res" where
  "jl_eval_global_var rt m e w =
     bind_res (jl_get_global rt m e w)
       (\<lambda>v w1. if v = Null then jl_undefined_var_error (Sym e) w1 else Ret v w1)"

text \<open>\<^verbatim>\<open>equiv_type(dta, dtb)\<close>.  The caller passes the fresh datatype as \<open>dta\<close> and the
  binding's old value, cast, as \<open>dtb\<close>: the first conjunct, equality of the two type
  tags, holds exactly when the old value is a datatype object too.\<close>

definition equiv_type :: "'x runtime \<Rightarrow> 'x world \<Rightarrow> addr \<Rightarrow> val \<Rightarrow> bool" where
  "equiv_type rt w dta dtb =
     (case dtb of
        DataType b \<Rightarrow>
          dt_parameters (dtypes w dta) = jl_emptysvec \<and>
          tn_name (typenames w (dt_name (dtypes w dta))) = tn_name (typenames w (dt_name (dtypes w b))) \<and>
          jl_egal rt w (dt_types (dtypes w dta)) (dt_types (dtypes w b)) \<and>
          dt_abstract (dtypes w dta) = dt_abstract (dtypes w b) \<and>
          dt_mutabl (dtypes w dta) = dt_mutabl (dtypes w b) \<and>
          dt_size (dtypes w dta) = dt_size (dtypes w b) \<and>
          dt_ninitialized (dtypes w dta) = dt_ninitialized (dtypes w b) \<and>
          jl_egal rt w (dt_super (dtypes w dta)) (dt_super (dtypes w b)) \<and>
          jl_egal rt w (tn_names (typenames w (dt_name (dtypes w dta))))
                       (tn_names (typenames w (dt_name (dtypes w b)))) \<and>
          jl_egal rt w (dt_parameters (dtypes w dta)) (dt_parameters (dtypes w b))
      | _ \<Rightarrow> False)"

fun jl_is_datatype :: "val \<Rightarrow> bool" where
  "jl_is_datatype (DataType a) = True"
| "jl_is_datatype v = False"

definition check_can_assign_type :: "addr \<Rightarrow> 'x world \<Rightarrow> (unit, 'x world) res" where
  "check_can_assign_type b w =
     (if b_constp (bindings w b) \<and> b_value (bindings w b) \<noteq> Null \<and>
         \<not> jl_is_datatype (b_value (bindings w b))
      then jl_error (''invalid redefinition of constant '' @ b_name (bindings w b)) w
      else Ret () w)"

text \<open>\<^verbatim>\<open>jl_set_datatype_super(tt, super)\<close>.  The tests after \<^verbatim>\<open>jl_is_datatype(super)\<close>
  read \<open>super\<close> as a datatype object, which C's \<^verbatim>\<open>||\<close> reaches only when it is one.\<close>

definition jl_set_datatype_super :: "'x runtime \<Rightarrow> addr \<Rightarrow> val \<Rightarrow> 'x world \<Rightarrow> (unit, 'x world) res" where
  "jl_set_datatype_super rt tt super w =
     (case super of
        Null \<Rightarrow> Abort
      | DataType sa \<Rightarrow>
          if \<not> dt_abstract (dtypes w sa) \<or>
             dt_name (dtypes w tt) = dt_name (dtypes w sa) \<or>
             jl_subtype rt w super (jl_vararg_type rt) \<or>
             dt_name (dtypes w sa) = jl_tuple_typename rt \<or>
             jl_subtype rt w super (jl_type_type rt) \<or>
             super = jl_builtin_type rt
          then jl_error (''invalid subtyping in definition of '' @
                           tn_name (typenames w (dt_name (dtypes w tt)))) w
          else Ret () (set_dt_super tt super w)
      | _ \<Rightarrow> jl_error (''invalid subtyping in definition of '' @
                         tn_name (typenames w (dt_name (dtypes w tt)))) w)"

definition jl_linfo_nslots :: "jl_lambda_info \<Rightarrow> int" where
  "jl_linfo_nslots li = int (length (li_slotflags li))"

text \<open>\<^verbatim>\<open>jl_linfo_nssavalues\<close>: a boxed long is unboxed (and returned as an \<^verbatim>\<open>int\<close>),
  anything else is read as an array; reading something that is neither is \<open>None\<close>.\<close>

definition jl_linfo_nssavalues :: "jl_lambda_info \<Rightarrow> int option" where
  "jl_linfo_nssavalues li =
     (case li_ssavaluetypes li of
        Long n \<Rightarrow> Some (to_int32 n)
      | Array xs \<Rightarrow> Some (int (length xs))
      | _ \<Rightarrow> None)"

text \<open>The module of unqualified globals:
  \<^verbatim>\<open>(lam == NULL || lam->def == NULL) ? jl_current_module : lam->def->module\<close>.\<close>

definition eval_modu :: "interpreter_state option \<Rightarrow> 'x world \<Rightarrow> jl_module" where
  "eval_modu s w =
     (case s of
        None \<Rightarrow> jl_current_module w
      | Some st \<Rightarrow>
          (case s_lam st of
             None \<Rightarrow> jl_current_module w
           | Some lam \<Rightarrow>
               (case li_def lam of None \<Rightarrow> jl_current_module w | Some d \<Rightarrow> m_module d)))"

text \<open>The loop of \<^verbatim>\<open>do_call\<close> and \<^verbatim>\<open>do_invoke\<close>: \<^verbatim>\<open>argv[i] = eval(args[i], s)\<close> for
  \<open>i\<close> from the first argument up; \<open>argv\<close> is the part of the vector filled so far.  The
  evaluator of sub-expressions, \<^verbatim>\<open>eval(_, s)\<close>, is the parameter \<open>ev\<close>.\<close>

fun eval_argv :: "(val \<Rightarrow> 'w \<Rightarrow> (val, 'w) res) \<Rightarrow> val list \<Rightarrow> val list \<Rightarrow> 'w \<Rightarrow> (val list, 'w) res" where
  "eval_argv ev [] argv w = Ret argv w"
| "eval_argv ev (a # as) argv w =
     bind_res (ev a w) (\<lambda>v w1. eval_argv ev as (argv @ [v]) w1)"

definition do_call :: "'x runtime \<Rightarrow> (val \<Rightarrow> 'x world \<Rightarrow> (val, 'x world) res) \<Rightarrow> val list \<Rightarrow> 'x world \<Rightarrow> (val, 'x world) res" where
  "do_call rt ev args w =
     bind_res (eval_argv ev args [] w) (\<lambda>argv w1. jl_apply_generic rt argv w1)"

definition do_invoke :: "'x runtime \<Rightarrow> (val \<Rightarrow> 'x world \<Rightarrow> (val, 'x world) res) \<Rightarrow> val list \<Rightarrow> 'x world \<Rightarrow> (val, 'x world) res" where
  "do_invoke rt ev args w =
     (case args of
        [] \<Rightarrow> Abort
      | meth # rest \<Rightarrow>
          bind_res (eval_argv ev rest [] w)
            (\<lambda>argv w1.
               if \<not> (jl_is_lambda_info meth \<and> \<not> jl_in_inference rt w1 meth) then Abort
               else jl_call_method_internal rt meth argv w1))"

fun new_fields :: "'x runtime \<Rightarrow> (val \<Rightarrow> 'x world \<Rightarrow> (val, 'x world) res) \<Rightarrow> val \<Rightarrow> nat \<Rightarrow> val list \<Rightarrow> 'x world \<Rightarrow> (unit, 'x world) res" where
  "new_fields rt ev v i [] w = Ret () w"
| "new_fields rt ev v i (a # as) w =
     bind_res (ev a w)
       (\<lambda>x w1. bind_res (jl_set_nth_field rt v i x w1)
          (\<lambda>u w2. new_fields rt ev v (Suc i) as w2))"

definition eval_new :: "'x runtime \<Rightarrow> (val \<Rightarrow> 'x world \<Rightarrow> (val, 'x world) res) \<Rightarrow> val list \<Rightarrow> 'x world \<Rightarrow> (val, 'x world) res" where
  "eval_new rt ev args w =
     (case args of
        [] \<Rightarrow> Abort
      | a0 # rest \<Rightarrow>
          bind_res (ev a0 w)
            (\<lambda>thetype w1.
               if \<not> jl_is_structtype rt w1 thetype then Abort
               else bind_res (jl_new_struct_uninit rt thetype w1)
                 (\<lambda>v w2. bind_res (new_fields rt ev v 0 rest w2) (\<lambda>u w3. Ret v w3))))"

definition eval_static_parameter :: "val list \<Rightarrow> interpreter_state option \<Rightarrow> 'x world \<Rightarrow> (val, 'x world) res" where
  "eval_static_parameter args s w =
     (case args of
        Long n # rest \<Rightarrow>
          if \<not> n > 0 then Abort
          else (case s of
             None \<Rightarrow> Abort
           | Some st \<Rightarrow>
               if s_sparam_vals st \<noteq> Null then
                 (case s_sparam_vals st of
                    SVec vs \<Rightarrow> if nat (n - 1) < length vs then Ret (vs ! nat (n - 1)) w else Abort
                  | _ \<Rightarrow> Abort)
               else
                 (case s_lam st of
                    None \<Rightarrow> Abort
                  | Some lam \<Rightarrow>
                      (case li_sparam_vals lam of
                         SVec vs \<Rightarrow>
                           if n \<le> int (length vs) \<and> \<not> jl_is_typevar (vs ! nat (n - 1))
                           then Ret (vs ! nat (n - 1)) w
                           else jl_error ''could not determine static parameter value'' w
                       | _ \<Rightarrow> Abort)))
      | _ \<Rightarrow> Abort)"

text \<open>The tail of the \<^verbatim>\<open>method\<close> form: \<^verbatim>\<open>atypes = eval(args[1])\<close>,
  \<^verbatim>\<open>meth = eval(args[2])\<close>, \<^verbatim>\<open>jl_method_def(atypes, meth, args[3])\<close>,
  \<^verbatim>\<open>return jl_nothing\<close>.\<close>

definition method_install :: "'x runtime \<Rightarrow> (val \<Rightarrow> 'x world \<Rightarrow> (val, 'x world) res) \<Rightarrow> val list \<Rightarrow> 'x world \<Rightarrow> (val, 'x world) res" where
  "method_install rt ev args w =
     (if length args \<le> 1 then Abort
      else bind_res (ev (args ! 1) w)
        (\<lambda>atypes w1.
           if length args \<le> 2 then Abort
           else bind_res (ev (args ! 2) w1)
             (\<lambda>meth w2.
                if length args \<le> 3 then Abort
                else bind_res (jl_method_def rt atypes meth (args ! 3) w2)
                  (\<lambda>u w3. Ret jl_nothing w3))))"

definition eval_method :: "'x runtime \<Rightarrow> (val \<Rightarrow> 'x world \<Rightarrow> (val, 'x world) res) \<Rightarrow> jl_module \<Rightarrow> val list \<Rightarrow> 'x world \<Rightarrow> (val, 'x world) res" where
  "eval_method rt ev modu args w =
     (case args of
        [] \<Rightarrow> Abort
      | fname # rest \<Rightarrow>
          (case fname of
             Null \<Rightarrow> Abort
           | Sym nm \<Rightarrow>
               bind_res (jl_get_binding_for_method_def rt modu nm w)
                 (\<lambda>b w1. bind_res (jl_generic_function_def rt nm b modu w1)
                    (\<lambda>gf w2.
                       if length args = 1 then Ret gf w2
                       else method_install rt ev args w2))
           | _ \<Rightarrow>
               if length args = 1 then Abort
               else method_install rt ev args w))"

definition eval_const :: "'x runtime \<Rightarrow> jl_module \<Rightarrow> val list \<Rightarrow> 'x world \<Rightarrow> (val, 'x world) res" where
  "eval_const rt modu args w =
     (case args of
        Sym nm # rest \<Rightarrow>
          bind_res (jl_get_binding_wr rt modu nm w)
            (\<lambda>b w1. bind_res (jl_declare_constant rt b w1) (\<lambda>u w2. Ret jl_nothing w2))
      | _ \<Rightarrow> Abort)"

fun global_bindings :: "'x runtime \<Rightarrow> jl_module \<Rightarrow> val list \<Rightarrow> 'x world \<Rightarrow> (unit, 'x world) res" where
  "global_bindings rt modu [] w = Ret () w"
| "global_bindings rt modu (Sym nm # as) w =
     bind_res (jl_get_binding_wr rt modu nm w) (\<lambda>b w1. global_bindings rt modu as w1)"
| "global_bindings rt modu (a # as) w = Abort"

definition eval_global :: "'x runtime \<Rightarrow> jl_module \<Rightarrow> val list \<Rightarrow> 'x world \<Rightarrow> (val, 'x world) res" where
  "eval_global rt modu args w =
     bind_res (global_bindings rt modu args w) (\<lambda>u w1. Ret jl_nothing w1)"

definition eval_error :: "val list \<Rightarrow> 'x world \<Rightarrow> (val, 'x world) res" where
  "eval_error args w =
     (case args of
        [] \<Rightarrow> jl_error (''malformed '' @ [CHR 0x22] @ ''error'' @ [CHR 0x22] @ '' expression'') w
      | Null # rest \<Rightarrow> Abort
      | Str str # rest \<Rightarrow> jl_error (''syntax: '' @ str) w
      | v # rest \<Rightarrow> jl_throw v w)"

subsection \<open>Type-definition forms\<close>

text \<open>
  Each of the three forms is written in three parts: what it does up to the rollback
  scope (\<open>_prologue\<close>, which ends with the binding \<open>b\<close> and the snapshot \<open>temp\<close> of its
  value), the scope itself (\<open>_scope\<close>: the temporary assignment \<^verbatim>\<open>b->value = dt\<close>, then
  \<^verbatim>\<open>JL_TRY\<close> with its body \<open>_try\<close> and \<^verbatim>\<open>JL_CATCH\<close> with its handler), and what follows
  the scope (\<open>_finish\<close>).
\<close>

text \<open>\<^verbatim>\<open>b = jl_get_binding_wr(modu, name); temp = b->value; check_can_assign_type(b);\<close>\<close>

definition typedef_binding :: "'x runtime \<Rightarrow> jl_module \<Rightarrow> sym \<Rightarrow> addr \<Rightarrow> 'x world \<Rightarrow> (addr \<times> addr \<times> val, 'x world) res" where
  "typedef_binding rt modu nm dt w =
     bind_res (jl_get_binding_wr rt modu nm w)
       (\<lambda>b w1. bind_res (check_can_assign_type b w1)
          (\<lambda>u w2. Ret (dt, b, b_value (bindings w1 b)) w2))"

text \<open>The handler of the rollback scope, the same text in the three forms:
  \<^verbatim>\<open>jl_reset_instantiate_inner_types(dt); b->value = temp; jl_rethrow();\<close>\<close>

definition typedef_catch :: "'x runtime \<Rightarrow> addr \<Rightarrow> addr \<Rightarrow> val \<Rightarrow> 'x world \<Rightarrow> (val, 'x world) res" where
  "typedef_catch rt dt b temp w =
     jl_rethrow (set_binding_value b temp (jl_reset_instantiate_inner_types rt dt w))"

text \<open>The end of the three forms:
  \<^verbatim>\<open>b->value = temp; if (temp==NULL || !equiv_type(dt, temp)) jl_checked_assignment(b, dt);
  return jl_nothing;\<close>\<close>

definition typedef_finish :: "'x runtime \<Rightarrow> addr \<Rightarrow> addr \<Rightarrow> val \<Rightarrow> 'x world \<Rightarrow> (val, 'x world) res" where
  "typedef_finish rt dt b temp w =
     (let w1 = set_binding_value b temp w in
      if temp = Null \<or> \<not> equiv_type rt w1 dt temp
      then bind_res (jl_checked_assignment rt b (DataType dt) w1) (\<lambda>u w2. Ret jl_nothing w2)
      else Ret jl_nothing w1)"

text \<open>The body of \<^verbatim>\<open>JL_TRY\<close> in the \<^verbatim>\<open>abstract_type\<close> form (supertype in
  \<^verbatim>\<open>args[2]\<close>) and in the \<^verbatim>\<open>bits_type\<close> form (supertype in \<^verbatim>\<open>args[3]\<close>).\<close>

definition supertype_try :: "'x runtime \<Rightarrow> (val \<Rightarrow> 'x world \<Rightarrow> (val, 'x world) res) \<Rightarrow> addr \<Rightarrow> val list \<Rightarrow> nat \<Rightarrow> 'x world \<Rightarrow> (unit, 'x world) res" where
  "supertype_try rt ev dt args k w =
     (let w1 = w\<lparr>inside_typedef := 1\<rparr> in
      if length args \<le> k then Abort
      else bind_res (ev (args ! k) w1)
        (\<lambda>super w2. bind_res (jl_set_datatype_super rt dt super w2)
           (\<lambda>u w3. jl_reinstantiate_inner_types rt dt w3)))"

definition supertype_scope :: "'x runtime \<Rightarrow> (val \<Rightarrow> 'x world \<Rightarrow> (val, 'x world) res) \<Rightarrow> addr \<Rightarrow> addr \<Rightarrow> val \<Rightarrow> val list \<Rightarrow> nat \<Rightarrow> 'x world \<Rightarrow> (val, 'x world) res" where
  "supertype_scope rt ev dt b temp args k w =
     (case supertype_try rt ev dt args k (set_binding_value b (DataType dt) w) of
        Ret u w1 \<Rightarrow> typedef_finish rt dt b temp w1
      | Threw w1 \<Rightarrow> typedef_catch rt dt b temp w1
      | Abort \<Rightarrow> Abort)"

definition abstracttype_prologue :: "'x runtime \<Rightarrow> (val \<Rightarrow> 'x world \<Rightarrow> (val, 'x world) res) \<Rightarrow> jl_module \<Rightarrow> val list \<Rightarrow> 'x world \<Rightarrow> (addr \<times> addr \<times> val, 'x world) res" where
  "abstracttype_prologue rt ev modu args w =
     (if inside_typedef w \<noteq> 0
      then jl_error ''cannot eval a new abstract type definition while defining another type'' w
      else if length args \<le> 1 then Abort
      else bind_res (ev (args ! 1) w)
        (\<lambda>para w1.
           if \<not> jl_is_svec para then Abort
           else (case args ! 0 of
              Sym nm \<Rightarrow>
                bind_res (jl_new_abstracttype rt (args ! 0) Null para w1)
                  (\<lambda>dt w2. typedef_binding rt modu nm dt w2)
            | _ \<Rightarrow> Abort)))"

definition eval_abstracttype :: "'x runtime \<Rightarrow> (val \<Rightarrow> 'x world \<Rightarrow> (val, 'x world) res) \<Rightarrow> jl_module \<Rightarrow> val list \<Rightarrow> 'x world \<Rightarrow> (val, 'x world) res" where
  "eval_abstracttype rt ev modu args w =
     bind_res (abstracttype_prologue rt ev modu args w)
       (\<lambda>(dt, b, temp) w1. supertype_scope rt ev dt b temp args 2 w1)"

text \<open>The \<^verbatim>\<open>bits_type\<close> form from the test of the unboxed width \<open>nb\<close> up to the scope.\<close>

definition bitstype_define :: "'x runtime \<Rightarrow> jl_module \<Rightarrow> sym \<Rightarrow> val \<Rightarrow> int \<Rightarrow> 'x world \<Rightarrow> (addr \<times> addr \<times> val, 'x world) res" where
  "bitstype_define rt modu nm para nb w =
     (if nb < 1 \<or> nb \<ge> push_bit 23 1 \<or> nb AND 7 \<noteq> 0
      then jl_error (''invalid number of bits in type '' @ nm) w
      else bind_res (jl_new_bitstype rt (Sym nm) Null para nb w)
        (\<lambda>dt w1. typedef_binding rt modu nm dt w1))"

definition bitstype_prologue :: "'x runtime \<Rightarrow> (val \<Rightarrow> 'x world \<Rightarrow> (val, 'x world) res) \<Rightarrow> jl_module \<Rightarrow> val list \<Rightarrow> 'x world \<Rightarrow> (addr \<times> addr \<times> val, 'x world) res" where
  "bitstype_prologue rt ev modu args w =
     (if inside_typedef w \<noteq> 0
      then jl_error ''cannot eval a new bits type definition while defining another type'' w
      else (case args of
         Sym nm # rest \<Rightarrow>
           if length args \<le> 1 then Abort
           else bind_res (ev (args ! 1) w)
             (\<lambda>para w1.
                if \<not> jl_is_svec para then Abort
                else if length args \<le> 2 then Abort
                else bind_res (ev (args ! 2) w1)
                  (\<lambda>vnb w2.
                     case vnb of
                       Null \<Rightarrow> Abort
                     | Long nb \<Rightarrow> bitstype_define rt modu nm para nb w2
                     | _ \<Rightarrow> jl_error (''invalid declaration of bits type '' @ nm) w2))
       | _ \<Rightarrow> Abort))"

definition eval_bitstype :: "'x runtime \<Rightarrow> (val \<Rightarrow> 'x world \<Rightarrow> (val, 'x world) res) \<Rightarrow> jl_module \<Rightarrow> val list \<Rightarrow> 'x world \<Rightarrow> (val, 'x world) res" where
  "eval_bitstype rt ev modu args w =
     bind_res (bitstype_prologue rt ev modu args w)
       (\<lambda>(dt, b, temp) w1. supertype_scope rt ev dt b temp args 3 w1)"

text \<open>The loop over \<^verbatim>\<open>dt->types\<close> in the \<^verbatim>\<open>composite_type\<close> form: the first element
  that is neither a type nor a type variable raises the type error.\<close>

fun check_field_types :: "'x runtime \<Rightarrow> sym \<Rightarrow> val list \<Rightarrow> 'x world \<Rightarrow> (unit, 'x world) res" where
  "check_field_types rt nm [] w = Ret () w"
| "check_field_types rt nm (elt # elts) w =
     (if \<not> jl_is_type rt elt \<and> \<not> jl_is_typevar elt
      then jl_type_error_rt nm ''type definition'' (jl_type_type rt) elt w
      else check_field_types rt nm elts w)"

definition compositetype_try :: "'x runtime \<Rightarrow> (val \<Rightarrow> 'x world \<Rightarrow> (val, 'x world) res) \<Rightarrow> addr \<Rightarrow> val list \<Rightarrow> 'x world \<Rightarrow> (unit, 'x world) res" where
  "compositetype_try rt ev dt args w =
     (let w1 = w\<lparr>inside_typedef := 1\<rparr> in
      if length args \<le> 3 then Abort
      else bind_res (ev (args ! 3) w1)
        (\<lambda>super w2. bind_res (jl_set_datatype_super rt dt super w2)
           (\<lambda>u w3.
              if length args \<le> 4 then Abort
              else bind_res (ev (args ! 4) w3)
                (\<lambda>types w4.
                   let w5 = set_dt_types dt types w4 in
                   case types of
                     SVec elts \<Rightarrow>
                       bind_res (check_field_types rt
                                   (tn_name (typenames w5 (dt_name (dtypes w5 dt)))) elts w5)
                         (\<lambda>u6 w6. jl_reinstantiate_inner_types rt dt w6)
                   | _ \<Rightarrow> Abort))))"

text \<open>After the rollback scope of the \<^verbatim>\<open>composite_type\<close> form:
  \<^verbatim>\<open>jl_compute_field_offsets(dt)\<close>, the singleton instance, and the common end.\<close>

definition compositetype_finish :: "'x runtime \<Rightarrow> addr \<Rightarrow> addr \<Rightarrow> val \<Rightarrow> val \<Rightarrow> 'x world \<Rightarrow> (val, 'x world) res" where
  "compositetype_finish rt dt b temp para w =
     bind_res (jl_compute_field_offsets rt dt w)
       (\<lambda>u w1.
          if para = jl_emptysvec \<and> jl_is_datatype_make_singleton rt w1 dt
          then bind_res (newstruct rt dt w1)
                 (\<lambda>inst w2. typedef_finish rt dt b temp (set_dt_instance dt inst w2))
          else typedef_finish rt dt b temp w1)"

definition compositetype_scope :: "'x runtime \<Rightarrow> (val \<Rightarrow> 'x world \<Rightarrow> (val, 'x world) res) \<Rightarrow> addr \<Rightarrow> addr \<Rightarrow> val \<Rightarrow> val \<Rightarrow> val list \<Rightarrow> 'x world \<Rightarrow> (val, 'x world) res" where
  "compositetype_scope rt ev dt b temp para args w =
     (case compositetype_try rt ev dt args (set_binding_value b (DataType dt) w) of
        Ret u w1 \<Rightarrow> compositetype_finish rt dt b temp para w1
      | Threw w1 \<Rightarrow> typedef_catch rt dt b temp w1
      | Abort \<Rightarrow> Abort)"

text \<open>The debug-build loop over \<open>para\<close> asserts that every element is a type variable
  whose \<^verbatim>\<open>bound\<close> flag is clear.\<close>

fun unbound_typevar :: "val \<Rightarrow> bool" where
  "unbound_typevar (TypeVar n bound) = (\<not> bound)"
| "unbound_typevar v = False"

definition compositetype_prologue :: "'x runtime \<Rightarrow> (val \<Rightarrow> 'x world \<Rightarrow> (val, 'x world) res) \<Rightarrow> jl_module \<Rightarrow> val list \<Rightarrow> 'x world \<Rightarrow> ((addr \<times> addr \<times> val) \<times> val, 'x world) res" where
  "compositetype_prologue rt ev modu args w =
     (if inside_typedef w \<noteq> 0
      then jl_error ''cannot eval a new data type definition while defining another type'' w
      else (case args of
         Sym nm # rest \<Rightarrow>
           if length args \<le> 1 then Abort
           else bind_res (ev (args ! 1) w)
             (\<lambda>para w1.
                case para of
                  SVec ps \<Rightarrow>
                    if length args \<le> 2 then Abort
                    else bind_res (ev (args ! 2) w1)
                      (\<lambda>fnames w2.
                         if \<not> list_all unbound_typevar ps then Abort
                         else if length args \<le> 6 then Abort
                         else (case args ! 6 of
                            Long ninit \<Rightarrow>
                              bind_res (jl_new_datatype rt (Sym nm) Null para fnames Null 0
                                          (if args ! 5 = jl_true then 1 else 0) (to_int32 ninit) w2)
                                (\<lambda>dt w3. bind_res (typedef_binding rt modu nm dt w3)
                                   (\<lambda>dbt w4. Ret (dbt, para) w4))
                          | _ \<Rightarrow> Abort))
                | _ \<Rightarrow> Abort)
       | _ \<Rightarrow> Abort))"

definition eval_compositetype :: "'x runtime \<Rightarrow> (val \<Rightarrow> 'x world \<Rightarrow> (val, 'x world) res) \<Rightarrow> jl_module \<Rightarrow> val list \<Rightarrow> 'x world \<Rightarrow> (val, 'x world) res" where
  "eval_compositetype rt ev modu args w =
     bind_res (compositetype_prologue rt ev modu args w)
       (\<lambda>((dt, b, temp), para) w1. compositetype_scope rt ev dt b temp para args w1)"

subsection \<open>Congruence rules: where the helpers apply the evaluator\<close>

lemma bind_res_cong [fundef_cong]:
  "m = m' \<Longrightarrow> (\<And>a w. m' = Ret a w \<Longrightarrow> f a w = f' a w) \<Longrightarrow> bind_res m f = bind_res m' f'"
  by (cases m') auto

lemma eval_argv_cong [fundef_cong]:
  "args = args' \<Longrightarrow> (\<And>a w. a \<in> set args' \<Longrightarrow> ev a w = ev' a w) \<Longrightarrow>
   eval_argv ev args argv w = eval_argv ev' args' argv w"
  by (induction args' arbitrary: args argv w) (auto intro!: bind_res_cong)

lemma do_call_cong [fundef_cong]:
  "args = args' \<Longrightarrow> (\<And>a w. a \<in> set args' \<Longrightarrow> ev a w = ev' a w) \<Longrightarrow>
   do_call rt ev args w = do_call rt ev' args' w"
  unfolding do_call_def by (simp cong: eval_argv_cong)

lemma do_invoke_cong [fundef_cong]:
  "args = args' \<Longrightarrow> (\<And>a w. a \<in> set args' \<Longrightarrow> ev a w = ev' a w) \<Longrightarrow>
   do_invoke rt ev args w = do_invoke rt ev' args' w"
  unfolding do_invoke_def by (auto split: list.splits intro!: arg_cong2 [of _ _ _ _ bind_res] eval_argv_cong)

lemma new_fields_cong [fundef_cong]:
  "args = args' \<Longrightarrow> (\<And>a w. a \<in> set args' \<Longrightarrow> ev a w = ev' a w) \<Longrightarrow>
   new_fields rt ev v i args w = new_fields rt ev' v i args' w"
  by (induction args' arbitrary: args i w) (auto intro!: bind_res_cong)

lemma eval_new_cong [fundef_cong]:
  "args = args' \<Longrightarrow> (\<And>a w. a \<in> set args' \<Longrightarrow> ev a w = ev' a w) \<Longrightarrow>
   eval_new rt ev args w = eval_new rt ev' args' w"
  unfolding eval_new_def
  by (auto split: list.splits intro!: bind_res_cong new_fields_cong)

lemma method_install_cong [fundef_cong]:
  "args = args' \<Longrightarrow> (\<And>a w. a \<in> set args' \<Longrightarrow> ev a w = ev' a w) \<Longrightarrow>
   method_install rt ev args w = method_install rt ev' args' w"
  unfolding method_install_def by (auto intro!: bind_res_cong)

lemma eval_method_cong [fundef_cong]:
  "args = args' \<Longrightarrow> (\<And>a w. a \<in> set args' \<Longrightarrow> ev a w = ev' a w) \<Longrightarrow>
   eval_method rt ev modu args w = eval_method rt ev' modu args' w"
  unfolding eval_method_def
  by (auto split: list.splits val.splits intro!: bind_res_cong method_install_cong)

lemma supertype_try_cong [fundef_cong]:
  "args = args' \<Longrightarrow> (\<And>a w. a \<in> set args' \<Longrightarrow> ev a w = ev' a w) \<Longrightarrow>
   supertype_try rt ev dt args k w = supertype_try rt ev' dt args' k w"
  unfolding supertype_try_def by (auto simp: Let_def intro!: bind_res_cong)

lemma supertype_scope_cong [fundef_cong]:
  assumes "args = args'" and ev: "\<And>a w. a \<in> set args' \<Longrightarrow> ev a w = ev' a w"
  shows "supertype_scope rt ev dt b temp args k w = supertype_scope rt ev' dt b temp args' k w"
proof -
  have "supertype_try rt ev dt args' k w0 = supertype_try rt ev' dt args' k w0" for w0
    by (rule supertype_try_cong [OF refl ev])
  then show ?thesis
    unfolding supertype_scope_def \<open>args = args'\<close> by simp
qed

lemma abstracttype_prologue_cong [fundef_cong]:
  "args = args' \<Longrightarrow> (\<And>a w. a \<in> set args' \<Longrightarrow> ev a w = ev' a w) \<Longrightarrow>
   abstracttype_prologue rt ev modu args w = abstracttype_prologue rt ev' modu args' w"
  unfolding abstracttype_prologue_def by auto

lemma eval_abstracttype_cong [fundef_cong]:
  assumes "args = args'" and ev: "\<And>a w. a \<in> set args' \<Longrightarrow> ev a w = ev' a w"
  shows "eval_abstracttype rt ev modu args w = eval_abstracttype rt ev' modu args' w"
proof -
  have "abstracttype_prologue rt ev modu args' w = abstracttype_prologue rt ev' modu args' w"
    by (rule abstracttype_prologue_cong [OF refl ev])
  moreover have "supertype_scope rt ev dt b temp args' k = supertype_scope rt ev' dt b temp args' k"
    for dt b temp k
    by (rule ext) (rule supertype_scope_cong [OF refl ev])
  ultimately show ?thesis
    unfolding eval_abstracttype_def \<open>args = args'\<close> by simp
qed

lemma bitstype_prologue_cong [fundef_cong]:
  "args = args' \<Longrightarrow> (\<And>a w. a \<in> set args' \<Longrightarrow> ev a w = ev' a w) \<Longrightarrow>
   bitstype_prologue rt ev modu args w = bitstype_prologue rt ev' modu args' w"
  unfolding bitstype_prologue_def
  by (auto split: list.splits val.splits intro!: bind_res_cong)

lemma eval_bitstype_cong [fundef_cong]:
  assumes "args = args'" and ev: "\<And>a w. a \<in> set args' \<Longrightarrow> ev a w = ev' a w"
  shows "eval_bitstype rt ev modu args w = eval_bitstype rt ev' modu args' w"
proof -
  have "bitstype_prologue rt ev modu args' w = bitstype_prologue rt ev' modu args' w"
    by (rule bitstype_prologue_cong [OF refl ev])
  moreover have "supertype_scope rt ev dt b temp args' k = supertype_scope rt ev' dt b temp args' k"
    for dt b temp k
    by (rule ext) (rule supertype_scope_cong [OF refl ev])
  ultimately show ?thesis
    unfolding eval_bitstype_def \<open>args = args'\<close> by simp
qed

lemma compositetype_try_cong [fundef_cong]:
  "args = args' \<Longrightarrow> (\<And>a w. a \<in> set args' \<Longrightarrow> ev a w = ev' a w) \<Longrightarrow>
   compositetype_try rt ev dt args w = compositetype_try rt ev' dt args' w"
  unfolding compositetype_try_def by (auto simp: Let_def intro!: bind_res_cong)

lemma compositetype_scope_cong [fundef_cong]:
  assumes "args = args'" and ev: "\<And>a w. a \<in> set args' \<Longrightarrow> ev a w = ev' a w"
  shows "compositetype_scope rt ev dt b temp para args w =
         compositetype_scope rt ev' dt b temp para args' w"
proof -
  have "compositetype_try rt ev dt args' w0 = compositetype_try rt ev' dt args' w0" for w0
    by (rule compositetype_try_cong [OF refl ev])
  then show ?thesis
    unfolding compositetype_scope_def \<open>args = args'\<close> by simp
qed

lemma compositetype_prologue_cong [fundef_cong]:
  "args = args' \<Longrightarrow> (\<And>a w. a \<in> set args' \<Longrightarrow> ev a w = ev' a w) \<Longrightarrow>
   compositetype_prologue rt ev modu args w = compositetype_prologue rt ev' modu args' w"
  unfolding compositetype_prologue_def
  by (auto split: list.splits val.splits intro!: bind_res_cong)

lemma eval_compositetype_cong [fundef_cong]:
  assumes "args = args'" and ev: "\<And>a w. a \<in> set args' \<Longrightarrow> ev a w = ev' a w"
  shows "eval_compositetype rt ev modu args w = eval_compositetype rt ev' modu args' w"
proof -
  have "compositetype_prologue rt ev modu args' w = compositetype_prologue rt ev' modu args' w"
    by (rule compositetype_prologue_cong [OF refl ev])
  moreover have "compositetype_scope rt ev dt b temp para args' =
                 compositetype_scope rt ev' dt b temp para args'" for dt b temp para
    by (rule ext) (rule compositetype_scope_cong [OF refl ev])
  ultimately show ?thesis
    unfolding eval_compositetype_def \<open>args = args'\<close> by simp
qed

subsection \<open>The expression evaluator\<close>

text \<open>\<^verbatim>\<open>eval(e, s)\<close>.  The frame \<open>s\<close> is only read.  The tests are made in the order of
  the source; a \<^verbatim>\<open>NULL\<close> expression is dereferenced by the first of them.\<close>

function (sequential) eval :: "'x runtime \<Rightarrow> val \<Rightarrow> interpreter_state option \<Rightarrow> 'x world \<Rightarrow> (val, 'x world) res" where
  "eval rt Null s w = Abort"
| "eval rt (SSAValue ssa_id) s w =
     (case s of
        None \<Rightarrow> Abort
      | Some st \<Rightarrow>
          (case s_lam st of
             None \<Rightarrow> Abort
           | Some lam \<Rightarrow>
               (case jl_linfo_nssavalues lam of
                  None \<Rightarrow> Abort
                | Some nssa \<Rightarrow>
                    if ssa_id \<ge> nssa \<or> ssa_id < 0 \<or> s_locals st = None
                    then jl_error ''access to invalid SSAValue'' w
                    else (case s_locals st of
                       None \<Rightarrow> Abort
                     | Some locals \<Rightarrow>
                         if nat (jl_linfo_nslots lam + ssa_id) < length locals
                         then Ret (locals ! nat (jl_linfo_nslots lam + ssa_id)) w
                         else Abort))))"
| "eval rt (Slot n) s w =
     (case s of
        None \<Rightarrow> Abort
      | Some st \<Rightarrow>
          (case s_lam st of
             None \<Rightarrow> Abort
           | Some lam \<Rightarrow>
               if n > jl_linfo_nslots lam \<or> n < 1 \<or> s_locals st = None
               then jl_error ''access to invalid slot number'' w
               else (case s_locals st of
                  None \<Rightarrow> Abort
                | Some locals \<Rightarrow>
                    if nat (n - 1) < length locals then
                      (if locals ! nat (n - 1) = Null then
                         (if nat (n - 1) < length (li_slotnames lam)
                          then jl_undefined_var_error (li_slotnames lam ! nat (n - 1)) w
                          else Abort)
                       else Ret (locals ! nat (n - 1)) w)
                    else Abort)))"
| "eval rt (GlobalRef m nm) s w =
     bind_res (jl_get_global rt m nm w)
       (\<lambda>v w1. if v = Null then jl_undefined_var_error (Sym nm) w1 else Ret v w1)"
| "eval rt (QuoteNode v) s w = Ret v w"
| "eval rt (Sym nm) s w =
     bind_res (jl_get_global rt (eval_modu s w) nm w)
       (\<lambda>v w1. if v = Null then jl_undefined_var_error (Sym nm) w1 else Ret v w1)"
| "eval rt (Expr head args) s w =
     (let modu = eval_modu s w in
      if head = call_sym then do_call rt (\<lambda>a. eval rt a s) args w
      else if head = invoke_sym then do_invoke rt (\<lambda>a. eval rt a s) args w
      else if head = new_sym then eval_new rt (\<lambda>a. eval rt a s) args w
      else if head = static_parameter_sym then eval_static_parameter args s w
      else if head = inert_sym then (case args of [] \<Rightarrow> Abort | a0 # rest \<Rightarrow> Ret a0 w)
      else if head = copyast_sym then
        (case args of [] \<Rightarrow> Abort | a0 # rest \<Rightarrow> bind_res (eval rt a0 s w) (jl_copy_ast rt))
      else if head = static_typeof_sym then Ret (jl_any_type rt) w
      else if head = exc_sym then Ret (jl_exception_in_transit w) w
      else if head = method_sym then eval_method rt (\<lambda>a. eval rt a s) modu args w
      else if head = const_sym then eval_const rt modu args w
      else if head = global_sym then eval_global rt modu args w
      else if head = abstracttype_sym then eval_abstracttype rt (\<lambda>a. eval rt a s) modu args w
      else if head = bitstype_sym then eval_bitstype rt (\<lambda>a. eval rt a s) modu args w
      else if head = compositetype_sym then eval_compositetype rt (\<lambda>a. eval rt a s) modu args w
      else if head = module_sym then jl_eval_module_expr rt (Expr head args) w
      else if head = thunk_sym then jl_toplevel_eval rt (Expr head args) w
      else if head = error_sym \<or> head = jl_incomplete_sym then eval_error args w
      else if head = boundscheck_sym \<or> head = inbounds_sym \<or> head = fastmath_sym \<or>
              head = simdloop_sym \<or> head = meta_sym \<or> head = type_goto_sym
      then Ret jl_nothing w
      else jl_error (''unsupported or misplaced expression '' @ head) w)"
| "eval rt e s w = Ret e w"
  by pat_completeness auto
termination
  by (relation "measure (\<lambda>(rt, e, s, w). size e)") (auto simp: less_Suc_eq_le size_list_estimation')

subsection \<open>The body executor\<close>

text \<open>
  \<^verbatim>\<open>eval_body\<close> writes the frame's locals and registers and removes exception handlers.
  Its state is the frame \<open>s\<close>, the chain \<open>eh\<close> of the handlers registered in the current
  task (\<^verbatim>\<open>jl_current_task->eh\<close>, the innermost first), and the runtime state.  A throw
  carries all three to the handler.

  Modelled from the spec: the handler chain is a collaborator (\<^verbatim>\<open>jl_enter_handler\<close>,
  \<^verbatim>\<open>jl_setjmp\<close>, \<^verbatim>\<open>jl_pop_handler\<close> and the transfer of a throw are not in this file).
  \<^verbatim>\<open>enter\<close> registers a handler, \<^verbatim>\<open>leave N\<close> pops \<open>N\<close> handlers without transferring
  control, and a throw transfers to the innermost handler registered.  As \<^verbatim>\<open>eval_body\<close>
  uses them, the handler of an invocation is its local \<^verbatim>\<open>__eh\<close>, and a transfer leaves
  the chain as it is, since nothing but \<^verbatim>\<open>jl_pop_handler\<close> pops a handler.

  A handler of the chain belongs to a caller of the interpreter (\<open>Caller\<close>), or it is the
  \<^verbatim>\<open>__eh\<close> of the invocation number \<open>d\<close> of \<^verbatim>\<open>eval_body\<close>: \<open>Frame d\<close> when its link
  \<^verbatim>\<open>__eh.prev\<close> is the rest of the chain, \<open>Loop d\<close> when the link is \<^verbatim>\<open>__eh\<close> itself.
\<close>

datatype handler =
    Caller
  | Frame nat
  | Loop nat

type_synonym 'x bstate = "interpreter_state option \<times> handler list \<times> 'x world"

text \<open>Whether the innermost handler is the \<^verbatim>\<open>__eh\<close> of the invocation \<open>d\<close>.\<close>

fun own_handler :: "nat \<Rightarrow> handler list \<Rightarrow> bool" where
  "own_handler d (Frame d' # eh) = (d' = d)"
| "own_handler d (Loop d' # eh) = (d' = d)"
| "own_handler d eh = False"

text \<open>\<^verbatim>\<open>jl_enter_handler(&__eh)\<close> in the invocation \<open>d\<close>:
  \<^verbatim>\<open>__eh.prev = jl_current_task->eh; jl_current_task->eh = &__eh\<close>.  When \<^verbatim>\<open>__eh\<close> is
  already the innermost handler, it becomes its own predecessor.\<close>

definition jl_enter_handler :: "nat \<Rightarrow> handler list \<Rightarrow> handler list" where
  "jl_enter_handler d eh = (if own_handler d eh then [Loop d] else Frame d # eh)"

text \<open>\<^verbatim>\<open>jl_pop_handler(n)\<close>: \<^verbatim>\<open>while (n > 0) { jl_eh_restore_state(jl_current_task->eh); n--; }\<close>,
  where restoring sets \<^verbatim>\<open>jl_current_task->eh\<close> to the predecessor of the handler, and reads
  through a null pointer (\<open>None\<close>) when no handler is registered.\<close>

fun pop_handlers :: "nat \<Rightarrow> handler list \<Rightarrow> handler list option" where
  "pop_handlers 0 eh = Some eh"
| "pop_handlers (Suc n) [] = None"
| "pop_handlers (Suc n) (Loop d # eh) = pop_handlers n (Loop d # eh)"
| "pop_handlers (Suc n) (h # eh) = pop_handlers n eh"

definition jl_pop_handler :: "int \<Rightarrow> handler list \<Rightarrow> handler list option" where
  "jl_pop_handler n eh = pop_handlers (nat n) eh"

definition in_frame :: "interpreter_state option \<Rightarrow> handler list \<Rightarrow> ('a, 'x world) res \<Rightarrow> ('a, 'x bstate) res" where
  "in_frame s eh r =
     (case r of Ret v w \<Rightarrow> Ret v (s, eh, w) | Threw w \<Rightarrow> Threw (s, eh, w) | Abort \<Rightarrow> Abort)"

text \<open>What one iteration of the loop of \<^verbatim>\<open>eval_body\<close> does: go on at an instruction
  pointer (\<^verbatim>\<open>i++\<close>, or a branch followed by \<^verbatim>\<open>continue\<close>), leave the loop by a return, a
  throw or a crash, or run the rest of the body under a new handler (\<^verbatim>\<open>enter\<close>).\<close>

datatype 'x step =
    Next "interpreter_state option" "handler list" nat "'x world"
  | Done "(val, 'x bstate) res"
  | Protect

definition next_after :: "interpreter_state option \<Rightarrow> handler list \<Rightarrow> nat \<Rightarrow> ('a, 'x world) res \<Rightarrow> 'x step" where
  "next_after s eh i r =
     (case r of
        Ret v w \<Rightarrow> Next s eh i w
      | Threw w \<Rightarrow> Done (Threw (s, eh, w))
      | Abort \<Rightarrow> Done Abort)"

text \<open>\<^verbatim>\<open>s->locals[k] = v\<close>; \<open>None\<close> when \<open>s\<close> or the array is \<^verbatim>\<open>NULL\<close> or \<open>k\<close> is outside it.\<close>

definition store_local :: "interpreter_state option \<Rightarrow> nat \<Rightarrow> val \<Rightarrow> interpreter_state option" where
  "store_local s k v =
     (case s of
        None \<Rightarrow> None
      | Some st \<Rightarrow>
          (case s_locals st of
             None \<Rightarrow> None
           | Some locals \<Rightarrow>
               if k < length locals then Some (st\<lparr>s_locals := Some (locals[k := v])\<rparr>) else None))"

text \<open>The statement \<^verbatim>\<open>(= sym rhs)\<close>; the value returned is the frame after the store.\<close>

definition stmt_assign :: "'x runtime \<Rightarrow> val list \<Rightarrow> interpreter_state option \<Rightarrow> 'x world \<Rightarrow> (interpreter_state option, 'x world) res" where
  "stmt_assign rt args s w =
     (if length args \<le> 1 then Abort
      else bind_res (eval rt (args ! 1) s w)
        (\<lambda>rhs w1.
           case args ! 0 of
             Null \<Rightarrow> Abort
           | SSAValue genid \<Rightarrow>
               (case s of
                  None \<Rightarrow> Abort
                | Some st \<Rightarrow>
                    (case s_lam st of
                       None \<Rightarrow> Abort
                     | Some lam \<Rightarrow>
                         (case jl_linfo_nssavalues lam of
                            None \<Rightarrow> Abort
                          | Some nssa \<Rightarrow>
                              if genid \<ge> nssa \<or> genid < 0
                              then jl_error ''assignment to invalid GenSym location'' w1
                              else (case store_local s (nat (jl_linfo_nslots lam + genid)) rhs of
                                 None \<Rightarrow> Abort
                               | Some st1 \<Rightarrow> Ret (Some st1) w1))))
           | Slot n \<Rightarrow>
               (case s of
                  None \<Rightarrow> Abort
                | Some st \<Rightarrow>
                    (case s_lam st of
                       None \<Rightarrow> Abort
                     | Some lam \<Rightarrow>
                         if \<not> (n \<le> jl_linfo_nslots lam \<and> n > 0) then Abort
                         else (case store_local s (nat (n - 1)) rhs of
                            None \<Rightarrow> Abort
                          | Some st1 \<Rightarrow> Ret (Some st1) w1)))
           | GlobalRef m nm \<Rightarrow>
               bind_res (jl_get_binding_wr rt m nm w1)
                 (\<lambda>b w2. bind_res (jl_checked_assignment rt b rhs w2) (\<lambda>u w3. Ret s w3))
           | Sym nm \<Rightarrow>
               bind_res (jl_get_binding_wr rt (eval_modu s w1) nm w1)
                 (\<lambda>b w2. bind_res (jl_checked_assignment rt b rhs w2) (\<lambda>u w3. Ret s w3))
           | _ \<Rightarrow> Abort))"

text \<open>The statement \<^verbatim>\<open>(leave n)\<close>: \<^verbatim>\<open>jl_pop_handler(hand_n_leave)\<close>, with
  \<^verbatim>\<open>int hand_n_leave = jl_unbox_long(jl_exprarg(stmt,0))\<close>.\<close>

definition stmt_leave :: "val list \<Rightarrow> handler list \<Rightarrow> handler list option" where
  "stmt_leave args eh =
     (case args of
        Long n # rest \<Rightarrow> jl_pop_handler (to_int32 n) eh
      | _ \<Rightarrow> None)"

fun body_stmt :: "'x runtime \<Rightarrow> val \<Rightarrow> interpreter_state option \<Rightarrow> handler list \<Rightarrow> nat \<Rightarrow> bool \<Rightarrow> 'x world \<Rightarrow> 'x step" where
  "body_stmt rt Null s eh i toplevel w = Done Abort"
| "body_stmt rt (GotoNode label) s eh i toplevel w = Next s eh (size_t_of (label - 1)) w"
| "body_stmt rt (Expr head args) s eh i toplevel w =
     (if head = return_sym then
        (case args of
           [] \<Rightarrow> Done Abort
         | ex # rest \<Rightarrow>
             if toplevel \<and> jl_is_toplevel_only_expr rt ex
             then Done (in_frame s eh (jl_toplevel_eval rt ex w))
             else Done (in_frame s eh (eval rt ex s w)))
      else if head = assign_sym then
        (case stmt_assign rt args s w of
           Ret s1 w1 \<Rightarrow> Next s1 eh (i + 1) w1
         | Threw w1 \<Rightarrow> Done (Threw (s, eh, w1))
         | Abort \<Rightarrow> Done Abort)
      else if head = goto_ifnot_sym then
        (case args of
           [] \<Rightarrow> Done Abort
         | c # rest \<Rightarrow>
             (case eval rt c s w of
                Ret cond w1 \<Rightarrow>
                  if cond = jl_false then
                    (case rest of
                       Long label # rest2 \<Rightarrow> Next s eh (size_t_of (label - 1)) w1
                     | _ \<Rightarrow> Done Abort)
                  else if cond \<noteq> jl_true then
                    Done (in_frame s eh (jl_type_error_rt ''toplevel'' ''if'' (jl_bool_type rt) cond w1))
                  else Next s eh (i + 1) w1
              | Threw w1 \<Rightarrow> Done (Threw (s, eh, w1))
              | Abort \<Rightarrow> Done Abort))
      else if head = line_sym then
        (if toplevel then
           (case args of
              Long n # rest \<Rightarrow> Next s eh (i + 1) (w\<lparr>jl_lineno := to_int32 n\<rparr>)
            | _ \<Rightarrow> Done Abort)
         else Next s eh (i + 1) w)
      else if head = enter_sym then Protect
      else if head = leave_sym then
        (case stmt_leave args eh of
           None \<Rightarrow> Done Abort
         | Some eh1 \<Rightarrow> Next s eh1 (i + 1) w)
      else if toplevel \<and> jl_is_toplevel_only_expr rt (Expr head args)
      then next_after s eh (i + 1) (jl_toplevel_eval rt (Expr head args) w)
      else next_after s eh (i + 1) (eval rt (Expr head args) s w))"
| "body_stmt rt (LineNode line) s eh i toplevel w =
     (if toplevel then Next s eh (i + 1) (w\<lparr>jl_lineno := to_int32 line\<rparr>)
      else Next s eh (i + 1) w)"
| "body_stmt rt (NewvarNode var) s eh i toplevel w =
     (case var of
        Slot n \<Rightarrow>
          (case s of
             None \<Rightarrow> Done Abort
           | Some st \<Rightarrow>
               (case s_lam st of
                  None \<Rightarrow> Done Abort
                | Some lam \<Rightarrow>
                    if \<not> (n \<le> jl_linfo_nslots lam \<and> n > 0) then Done Abort
                    else (case store_local s (nat (n - 1)) Null of
                       None \<Rightarrow> Done Abort
                     | Some st1 \<Rightarrow> Next (Some st1) eh (i + 1) w)))
      | _ \<Rightarrow> Done Abort)"
| "body_stmt rt stmt s eh i toplevel w = next_after s eh (i + 1) (eval rt stmt s w)"

text \<open>One iteration of \<^verbatim>\<open>while (1)\<close>: the test of the instruction pointer against
  the number of statements, then the statement fetched.\<close>

definition body_iteration :: "'x runtime \<Rightarrow> val list \<Rightarrow> interpreter_state option \<Rightarrow> handler list \<Rightarrow> nat \<Rightarrow> bool \<Rightarrow> 'x world \<Rightarrow> 'x step" where
  "body_iteration rt stmts s eh i toplevel w =
     (if i \<ge> length stmts
      then Done (in_frame s eh
             (jl_error ''`body` expression must terminate in `return`. Use `block` instead.'' w))
      else body_stmt rt (stmts ! i) s eh i toplevel w)"

text \<open>The local \<^verbatim>\<open>stmt\<close> after the iteration: the statement fetched, if one was.\<close>

definition fetched :: "val list \<Rightarrow> nat \<Rightarrow> val \<Rightarrow> val" where
  "fetched stmts i stmt = (if i < length stmts then stmts ! i else stmt)"

text \<open>Where an outcome \<open>r\<close> that has arrived in the invocation \<open>d\<close> goes.  A throw whose
  innermost handler is the \<^verbatim>\<open>__eh\<close> of this invocation lands on its \<^verbatim>\<open>jl_setjmp\<close>:
  \<^verbatim>\<open>i = jl_unbox_long(jl_exprarg(stmt,0))-1; continue;\<close>.  The transfer restores no local of
  the invocation, so that \<^verbatim>\<open>stmt\<close> is the statement that the invocation fetched last: its
  \<^verbatim>\<open>enter\<close> statement when it waits in the call for the rest of the body, another
  statement when it has gone on after an earlier transfer and the throw is its own.  A
  statement that is no expression with a boxed long as its first argument is read outside
  an object (\<open>Abort\<close>).  Any other outcome leaves the invocation.\<close>

datatype 'x landing =
    Resume "interpreter_state option" "handler list" nat "'x world"
  | Leave "(val, 'x bstate) res"

definition landing :: "nat \<Rightarrow> val \<Rightarrow> (val, 'x bstate) res \<Rightarrow> 'x landing" where
  "landing d stmt r =
     (case r of
        Threw (s1, eh1, w1) \<Rightarrow>
          if own_handler d eh1 then
            (case stmt of
               Expr head (Long label # rest) \<Rightarrow> Resume s1 eh1 (size_t_of (label - 1)) w1
             | _ \<Rightarrow> Leave Abort)
          else Leave r
      | _ \<Rightarrow> Leave r)"

text \<open>
  \<^verbatim>\<open>eval_body(stmts, s, start, toplevel)\<close>, as the invocation number \<open>d\<close> whose local
  \<^verbatim>\<open>stmt\<close> holds \<open>stmt\<close>.  The loop may run forever; \<open>fuel\<close> bounds the number of
  iterations and nested calls, and \<open>None\<close> means that it ran out.  The \<^verbatim>\<open>enter\<close>
  statement registers \<^verbatim>\<open>__eh\<close> and calls \<^verbatim>\<open>eval_body\<close> for the rest of the body (its
  parameter \<^verbatim>\<open>start\<close> is an \<^verbatim>\<open>int\<close>, converted back to \<^verbatim>\<open>size_t\<close>), whose value it
  returns.  A throw, of this invocation or of one that it called, that finds \<^verbatim>\<open>__eh\<close>
  innermost continues the loop at the label.
\<close>

fun eval_body :: "nat \<Rightarrow> 'x runtime \<Rightarrow> val list \<Rightarrow> interpreter_state option \<Rightarrow> handler list \<Rightarrow> nat \<Rightarrow> val \<Rightarrow> nat \<Rightarrow> bool \<Rightarrow> 'x world \<Rightarrow> (val, 'x bstate) res option" where
  "eval_body 0 rt stmts s eh d stmt i toplevel w = None"
| "eval_body (Suc fuel) rt stmts s eh d stmt i toplevel w =
     (case body_iteration rt stmts s eh i toplevel w of
        Next s1 eh1 i1 w1 \<Rightarrow>
          eval_body fuel rt stmts s1 eh1 d (fetched stmts i stmt) i1 toplevel w1
      | Done r \<Rightarrow>
          (case landing d (fetched stmts i stmt) r of
             Resume s1 eh1 i1 w1 \<Rightarrow>
               eval_body fuel rt stmts s1 eh1 d (fetched stmts i stmt) i1 toplevel w1
           | Leave r1 \<Rightarrow> Some r1)
      | Protect \<Rightarrow>
          (case eval_body fuel rt stmts s (jl_enter_handler d eh) (Suc d) Null
                  (size_t_of (to_int32 (int (i + 1)))) toplevel w of
             None \<Rightarrow> None
           | Some r \<Rightarrow>
               (case landing d (fetched stmts i stmt) r of
                  Resume s1 eh1 i1 w1 \<Rightarrow>
                    eval_body fuel rt stmts s1 eh1 d (fetched stmts i stmt) i1 toplevel w1
                | Leave r1 \<Rightarrow> Some r1)))"

subsection \<open>Entry points\<close>

definition jl_interpret_toplevel_expr :: "'x runtime \<Rightarrow> val \<Rightarrow> 'x world \<Rightarrow> (val, 'x world) res" where
  "jl_interpret_toplevel_expr rt e w = eval rt e None w"

definition jl_interpret_toplevel_expr_in :: "'x runtime \<Rightarrow> jl_module \<Rightarrow> val \<Rightarrow> jl_lambda_info option \<Rightarrow> 'x world \<Rightarrow> (val, 'x world) res" where
  "jl_interpret_toplevel_expr_in rt m e lam w =
     (let last_m = jl_current_module w;
          task_last_m = task_current_module w;
          s = \<lparr>s_lam = lam, s_locals = None, s_sparam_vals = Null\<rparr>
      in case eval rt e (Some s) (w\<lparr>jl_current_module := m, task_current_module := m\<rparr>) of
           Threw w1 \<Rightarrow> jl_rethrow (w1\<lparr>jl_current_module := last_m, task_current_module := task_last_m\<rparr>)
         | Abort \<Rightarrow> Abort
         | Ret v w1 \<Rightarrow>
             if v = Null then Abort
             else Ret v (w1\<lparr>jl_current_module := last_m, task_current_module := task_last_m\<rparr>))"

text \<open>The entry points call \<^verbatim>\<open>eval_body\<close> as the invocation 0, which has fetched no
  statement yet, in a task in which their callers have registered \<open>nh\<close> handlers, and hand
  the value or the throw to their caller.\<close>

definition out_of_frame :: "('a, 'x bstate) res option \<Rightarrow> ('a, 'x world) res option" where
  "out_of_frame r =
     (case r of
        None \<Rightarrow> None
      | Some (Ret v (s, eh, w)) \<Rightarrow> Some (Ret v w)
      | Some (Threw (s, eh, w)) \<Rightarrow> Some (Threw w)
      | Some Abort \<Rightarrow> Some Abort)"

definition jl_toplevel_eval_body :: "nat \<Rightarrow> 'x runtime \<Rightarrow> val list \<Rightarrow> nat \<Rightarrow> 'x world \<Rightarrow> (val, 'x world) res option" where
  "jl_toplevel_eval_body fuel rt stmts nh w =
     out_of_frame (eval_body fuel rt stmts None (replicate nh Caller) 0 Null 0 True w)"

text \<open>The loop of \<^verbatim>\<open>jl_interpret_call\<close> that fills the locals, from formal \<open>i\<close> on:
  \<^verbatim>\<open>for(i=0; i < lam->nargs; i++)\<close>.  \<open>None\<close> when it reads outside \<open>args\<close> or writes
  outside \<open>locals\<close>.\<close>

function call_locals :: "jl_lambda_info \<Rightarrow> val list \<Rightarrow> nat \<Rightarrow> val list \<Rightarrow> val list option" where
  "call_locals lam args i locals =
     (if i < li_nargs lam then
        (if li_isva lam \<and> i = li_nargs lam - 1 then
           (if i \<le> length args \<and> i < length locals
            then call_locals lam args (i + 1) (locals[i := jl_f_tuple (drop i args)])
            else None)
         else
           (if i < length args \<and> i < length locals
            then call_locals lam args (i + 1) (locals[i := args ! i])
            else None))
      else Some locals)"
  by pat_completeness auto
termination
  by (relation "measure (\<lambda>(lam, args, i, locals). li_nargs lam - i)") auto

declare call_locals.simps [simp del]

definition jl_interpret_call :: "nat \<Rightarrow> 'x runtime \<Rightarrow> jl_lambda_info \<Rightarrow> val list \<Rightarrow> val \<Rightarrow> nat \<Rightarrow> 'x world \<Rightarrow> (val, 'x world) res option" where
  "jl_interpret_call fuel rt lam args sparam_vals nh w =
     (case jl_linfo_nssavalues lam of
        None \<Rightarrow> Some Abort
      | Some nssa \<Rightarrow>
          if jl_linfo_nslots lam + nssa < 0 then Some Abort
          else (case call_locals lam args 0 (replicate (nat (jl_linfo_nslots lam + nssa)) Null) of
             None \<Rightarrow> Some Abort
           | Some locals \<Rightarrow>
               out_of_frame
                 (eval_body fuel rt (li_code lam)
                    (Some \<lparr>s_lam = Some lam, s_locals = Some locals, s_sparam_vals = sparam_vals\<rparr>)
                    (replicate nh Caller) 0 Null 0 (li_nargs lam = 0) w)))"

definition jl_interpret_toplevel_thunk :: "nat \<Rightarrow> 'x runtime \<Rightarrow> jl_lambda_info \<Rightarrow> nat \<Rightarrow> 'x world \<Rightarrow> (val, 'x world) res option" where
  "jl_interpret_toplevel_thunk fuel rt lam nh w = jl_interpret_call fuel rt lam [] Null nh w"

section \<open>Notions of the specification\<close>

text \<open>
  ``Evaluated strictly left to right'': the evaluator \<open>ev\<close> takes the list \<open>args\<close> from
  the state \<open>w\<close> to the values \<open>vs\<close> and the state \<open>w'\<close> when the first argument is
  evaluated in \<open>w\<close>, and each further argument in the state the one before it left.
\<close>

fun evaluated_in_order :: "(val \<Rightarrow> 'w \<Rightarrow> (val, 'w) res) \<Rightarrow> val list \<Rightarrow> 'w \<Rightarrow> val list \<Rightarrow> 'w \<Rightarrow> bool" where
  "evaluated_in_order ev [] w vs w' = (vs = [] \<and> w' = w)"
| "evaluated_in_order ev (a # as) w vs w' =
     (case ev a w of
        Ret v w1 \<Rightarrow> (case vs of [] \<Rightarrow> False | v' # vs' \<Rightarrow> v' = v \<and> evaluated_in_order ev as w1 vs' w')
      | _ \<Rightarrow> False)"

text \<open>
  The equivalence of section 4.1.3, in the specification's words: the new datatype \<open>new\<close>
  and the old value \<open>old\<close> have the same runtime type-of (\<open>old\<close> is a datatype too); the
  parameter sequence is empty; the type-name symbols are equal; the field-type sequences
  are structurally equal; the \<open>abstract\<close> and \<open>mutable\<close> flags, the size and
  \<open>ninitialized\<close> are equal; the supertypes and the field-name sequences are
  structurally equal; and so are the (empty) parameter sequences.  Structural equality is
  the collaborator \<^verbatim>\<open>jl_egal\<close>.
\<close>

definition equivalent_datatypes :: "'x runtime \<Rightarrow> 'x world \<Rightarrow> addr \<Rightarrow> val \<Rightarrow> bool" where
  "equivalent_datatypes rt w new old =
     (jl_is_datatype old \<and>
      (let n = dtypes w new;
           p = dtypes w (case old of DataType a \<Rightarrow> a | _ \<Rightarrow> new);
           n_name = typenames w (dt_name n);
           p_name = typenames w (dt_name p)
       in dt_parameters n = SVec [] \<and>
          tn_name n_name = tn_name p_name \<and>
          jl_egal rt w (dt_types n) (dt_types p) \<and>
          dt_abstract n = dt_abstract p \<and> dt_mutabl n = dt_mutabl p \<and>
          dt_size n = dt_size p \<and>
          dt_ninitialized n = dt_ninitialized p \<and>
          jl_egal rt w (dt_super n) (dt_super p) \<and>
          jl_egal rt w (tn_names n_name) (tn_names p_name) \<and>
          jl_egal rt w (dt_parameters n) (dt_parameters p)))"

text \<open>The value that a call with the actual arguments \<open>args\<close> gives the formal with index
  \<open>j\<close>: the actual at the same index, or, for the last formal of a variadic lambda info,
  the tuple of the actuals from that index on.\<close>

definition formal_value :: "jl_lambda_info \<Rightarrow> val list \<Rightarrow> nat \<Rightarrow> val" where
  "formal_value lam args j =
     (if li_isva lam \<and> j = li_nargs lam - 1 then jl_f_tuple (drop j args) else args ! j)"

text \<open>``If it returns, then \<open>Q\<close> holds of the value and the state it returns.''\<close>

definition returns_only :: "('a, 'w) res \<Rightarrow> ('a \<Rightarrow> 'w \<Rightarrow> bool) \<Rightarrow> bool" where
  "returns_only r Q = (case r of Ret x w \<Rightarrow> Q x w | Threw w \<Rightarrow> True | Abort \<Rightarrow> True)"

section \<open>A small runtime for examples\<close>

text \<open>
  Concrete collaborators, used to run the interpreter on examples.  The runtime's own
  state is a log: \<^verbatim>\<open>jl_apply_generic\<close> returns the tuple of its arguments and appends
  it to the log, and a type constructor allocates the datatype at the address given by
  the length of the log and appends it.  The binding of \<open>nm\<close> in module \<open>m\<close> lives at
  address \<open>100 * m + length nm\<close>; types are equal when they are the same object.
\<close>

definition ex_binding :: "jl_module \<Rightarrow> sym \<Rightarrow> val list world \<Rightarrow> (addr, val list world) res" where
  "ex_binding m nm w =
     Ret (100 * m + length nm)
       (w\<lparr>bindings := (bindings w)
            (100 * m + length nm := (bindings w (100 * m + length nm))\<lparr>b_name := nm\<rparr>)\<rparr>)"

definition ex_new_type :: "val \<Rightarrow> val \<Rightarrow> val \<Rightarrow> bool \<Rightarrow> bool \<Rightarrow> int \<Rightarrow> int \<Rightarrow> val list world \<Rightarrow> (addr, val list world) res" where
  "ex_new_type name super para abstract mutabl sz ninit w =
     Ret (length (runtime_state w))
       (w\<lparr>dtypes := (dtypes w)
            (length (runtime_state w) :=
               \<lparr>dt_name = length (runtime_state w), dt_super = super, dt_parameters = para,
                dt_types = SVec [], dt_instance = Null, dt_size = sz, dt_abstract = abstract,
                dt_mutabl = mutabl, dt_ninitialized = ninit\<rparr>),
          typenames := (typenames w)
            (length (runtime_state w) :=
               \<lparr>tn_name = (case name of Sym nm \<Rightarrow> nm | _ \<Rightarrow> []), tn_names = SVec []\<rparr>),
          runtime_state := runtime_state w @ [DataType (length (runtime_state w))]\<rparr>)"

definition ex_rt :: "val list runtime" where
  "ex_rt =
     \<lparr>jl_apply_generic = (\<lambda>argv w. Ret (Tuple argv) (w\<lparr>runtime_state := runtime_state w @ [Tuple argv]\<rparr>)),
      jl_call_method_internal = (\<lambda>meth argv w. Ret (Tuple argv) w),
      jl_in_inference = (\<lambda>w meth. False),
      jl_get_global = (\<lambda>m nm w. Ret (b_value (bindings w (100 * m + length nm))) w),
      jl_get_binding_wr = ex_binding,
      jl_get_binding_for_method_def = ex_binding,
      jl_generic_function_def = (\<lambda>nm b m w. Ret (Obj b) (set_binding_value b (Obj b) w)),
      jl_method_def = (\<lambda>atypes meth extra w. Ret () w),
      jl_declare_constant = (\<lambda>b w. Ret () (w\<lparr>bindings := (bindings w)(b := (bindings w b)\<lparr>b_constp := True\<rparr>)\<rparr>)),
      jl_checked_assignment = (\<lambda>b v w. Ret () (set_binding_value b v w)),
      jl_new_abstracttype = (\<lambda>name super para. ex_new_type name super para True False 0 0),
      jl_new_bitstype = (\<lambda>name super para nb. ex_new_type name super para False False (nb div 8) 0),
      jl_new_datatype = (\<lambda>name super para fnames ftypes abstract mutabl ninit.
                           ex_new_type name super para (abstract \<noteq> 0) (mutabl \<noteq> 0) 0 ninit),
      jl_reinstantiate_inner_types = (\<lambda>dt w. Ret () (w\<lparr>inside_typedef := 0\<rparr>)),
      jl_reset_instantiate_inner_types = (\<lambda>dt w. w\<lparr>inside_typedef := 0\<rparr>),
      jl_compute_field_offsets = (\<lambda>dt w. Ret () w),
      jl_is_datatype_make_singleton = (\<lambda>w dt. False),
      newstruct = (\<lambda>dt w. Ret (Obj dt) w),
      jl_is_structtype = (\<lambda>w v. jl_is_datatype v),
      jl_new_struct_uninit = (\<lambda>ty w. Ret (Tuple []) w),
      jl_set_nth_field = (\<lambda>v i x w. Ret () w),
      jl_copy_ast = (\<lambda>v w. Ret v w),
      jl_eval_module_expr = (\<lambda>e w. Ret Nothing w),
      jl_toplevel_eval = (\<lambda>e w. Ret Nothing w),
      jl_is_toplevel_only_expr = (\<lambda>e. False),
      jl_egal = (\<lambda>w a b. a = b),
      jl_subtype = (\<lambda>w a b. a = b),
      jl_is_type = jl_is_datatype,
      jl_any_type = DataType 1001,
      jl_bool_type = DataType 1002,
      jl_type_type = DataType 1003,
      jl_vararg_type = DataType 1004,
      jl_builtin_type = DataType 1005,
      jl_tuple_typename = 1006\<rparr>"

text \<open>An initial state: no binding has a value, except \<open>x\<close> of module 5, which is 42; the
  object at address 1001 is an abstract type; the current module is 1, the task's is 2.\<close>

definition ex_world :: "val list world" where
  "ex_world =
     \<lparr>bindings = (\<lambda>a. \<lparr>b_name = [], b_value = (if a = 501 then Long 42 else Null), b_constp = False\<rparr>),
      dtypes = (\<lambda>a. \<lparr>dt_name = a, dt_super = Null, dt_parameters = SVec [], dt_types = SVec [],
                     dt_instance = Null, dt_size = 0, dt_abstract = (a = 1001), dt_mutabl = False,
                     dt_ninitialized = 0\<rparr>),
      typenames = (\<lambda>a. \<lparr>tn_name = [], tn_names = SVec []\<rparr>),
      jl_current_module = 1,
      task_current_module = 2,
      inside_typedef = 0,
      jl_exception_in_transit = Null,
      jl_lineno = 0,
      runtime_state = []\<rparr>"

text \<open>The object that the example constructors allocate first, at address 0, and the
  state of module 5 once a type named \<open>x\<close> has been allocated there with the fields \<open>d\<close>
  while the binding \<open>x\<close> still holds 42.\<close>

definition ex_type :: "bool \<Rightarrow> int \<Rightarrow> jl_datatype" where
  "ex_type abstract sz =
     \<lparr>dt_name = 0, dt_super = Null, dt_parameters = SVec [], dt_types = SVec [],
      dt_instance = Null, dt_size = sz, dt_abstract = abstract, dt_mutabl = False,
      dt_ninitialized = 0\<rparr>"

definition ex_declared :: "jl_datatype \<Rightarrow> val list world" where
  "ex_declared d =
     ex_world\<lparr>jl_current_module := 5,
              bindings := (bindings ex_world)
                (501 := \<lparr>b_name = ''x'', b_value = Long 42, b_constp = False\<rparr>),
              dtypes := (dtypes ex_world)(0 := d),
              typenames := (typenames ex_world)(0 := \<lparr>tn_name = ''x'', tn_names = SVec []\<rparr>),
              runtime_state := [DataType 0]\<rparr>"

text \<open>The state after \<^verbatim>\<open>abstract A <: Any\<close> has been evaluated in the initial state: the
  binding \<open>A\<close> of module 1 holds the abstract type allocated at address 0.\<close>

definition ex_reload :: "val list world" where
  "ex_reload =
     ex_world\<lparr>bindings := (bindings ex_world)
                (101 := \<lparr>b_name = ''A'', b_value = DataType 0, b_constp = False\<rparr>),
              dtypes := (dtypes ex_world)((0::nat) := (ex_type True 0)\<lparr>dt_super := DataType 1001\<rparr>),
              typenames := (typenames ex_world)((0::nat) := \<lparr>tn_name = ''A'', tn_names = SVec []\<rparr>),
              runtime_state := [DataType 0]\<rparr>"

text \<open>The state once a second type named \<open>A\<close> has been allocated, at address 1 with the
  fields \<open>d\<close>, while the binding \<open>A\<close> still holds the first one.\<close>

definition ex_reloaded :: "jl_datatype \<Rightarrow> val list world" where
  "ex_reloaded d =
     ex_reload\<lparr>dtypes := (dtypes ex_reload)(1 := d),
               typenames := (typenames ex_reload)(1 := \<lparr>tn_name = ''A'', tn_names = SVec []\<rparr>),
               runtime_state := [DataType 0, DataType 1]\<rparr>"

text \<open>Two variadic lambda infos whose bodies pass a line node and return the variadic
  formal: one with the formals \<open>f, xs...\<close> and a local \<open>y\<close>, one with the only formal
  \<open>xs...\<close>.\<close>

definition ex_lam_va :: jl_lambda_info where
  "ex_lam_va =
     \<lparr>li_code = [LineNode 7, Expr return_sym [Slot 2]],
      li_slotflags = [0, 0, 0],
      li_slotnames = [Sym ''f'', Sym ''xs'', Sym ''y''],
      li_ssavaluetypes = Long 0,
      li_nargs = 2,
      li_isva = True,
      li_sparam_vals = SVec [],
      li_def = None\<rparr>"

definition ex_lam_va1 :: jl_lambda_info where
  "ex_lam_va1 =
     \<lparr>li_code = [LineNode 7, Expr return_sym [Slot 1]],
      li_slotflags = [0],
      li_slotnames = [Sym ''xs''],
      li_ssavaluetypes = Long 0,
      li_nargs = 1,
      li_isva = True,
      li_sparam_vals = SVec [],
      li_def = None\<rparr>"

section \<open>Properties\<close>

subsection \<open>Unfolding\<close>

lemmas ex_defs = ex_rt_def ex_world_def ex_binding_def ex_new_type_def ex_type_def ex_declared_def
  ex_reload_def ex_reloaded_def ex_lam_va_def ex_lam_va1_def

lemmas interp_defs =
  jl_throw_def jl_rethrow_def jl_error_def jl_undefined_var_error_def jl_type_error_rt_def
  jl_f_tuple_def set_binding_value_def set_dt_super_def set_dt_types_def set_dt_instance_def
  jl_eval_global_var_def equiv_type_def check_can_assign_type_def jl_set_datatype_super_def
  jl_linfo_nslots_def jl_linfo_nssavalues_def eval_modu_def do_call_def do_invoke_def
  eval_new_def eval_static_parameter_def method_install_def eval_method_def eval_const_def
  eval_global_def eval_error_def typedef_binding_def typedef_catch_def typedef_finish_def
  supertype_try_def supertype_scope_def abstracttype_prologue_def eval_abstracttype_def
  bitstype_define_def bitstype_prologue_def eval_bitstype_def compositetype_try_def
  compositetype_finish_def compositetype_scope_def compositetype_prologue_def
  eval_compositetype_def in_frame_def next_after_def store_local_def stmt_assign_def
  stmt_leave_def jl_pop_handler_def jl_enter_handler_def body_iteration_def fetched_def landing_def
  to_int32_def size_t_of_def

lemma and_7_dvd_8: "(nb AND 7 \<noteq> 0) = (\<not> 8 dvd (nb::int))"
proof -
  have "nb AND 7 = nb AND mask 3" by (simp add: mask_eq_exp_minus_1)
  also have "\<dots> = nb mod 8" by (simp add: take_bit_eq_mod flip: take_bit_eq_mask)
  finally show ?thesis by (simp add: dvd_eq_mod_eq_0)
qed

lemma eval_Expr_bitstype:
  "eval rt (Expr bitstype_sym args) s w = eval_bitstype rt (\<lambda>a. eval rt a s) (eval_modu s w) args w"
  by (simp add: sym_defs)

subsection \<open>Width of a bits type\<close>

text \<open>
  Claim C8.  In a \<^verbatim>\<open>bits_type\<close> expression whose parameter sequence has been evaluated
  and whose bit-width argument has evaluated to the integer \<open>nb\<close>, the definition fails
  with ``invalid number of bits in type \<open>name\<close>'' when \<open>nb\<close> is not positive, or is
  \<open>2^23\<close> or more, or is not a multiple of 8; in every other case the constructor
  \<^verbatim>\<open>jl_new_bitstype\<close> is invoked with that width, and the form goes on with the binding
  and the rollback scope.
\<close>

theorem bitstype_width_validated:
  assumes "inside_typedef w = 0"
    and "args = Sym nm # rest"
    and "2 < length args"
    and "eval rt (args ! 1) s w = Ret para w1"
    and "jl_is_svec para"
    and "eval rt (args ! 2) s w1 = Ret (Long nb) w2"
  shows "eval rt (Expr bitstype_sym args) s w =
     (if \<not> 0 < nb \<or> 2 ^ 23 \<le> nb \<or> \<not> 8 dvd nb
      then jl_error (''invalid number of bits in type '' @ nm) w2
      else bind_res (jl_new_bitstype rt (Sym nm) Null para nb w2)
             (\<lambda>dt w3. bind_res (typedef_binding rt (eval_modu s w) nm dt w3)
                (\<lambda>(dt, b, temp) w4.
                   supertype_scope rt (\<lambda>a. eval rt a s) dt b temp args 3 w4)))"
proof -
  have "bitstype_prologue rt (\<lambda>a. eval rt a s) (eval_modu s w) args w =
        bitstype_define rt (eval_modu s w) nm para nb w2"
    using assms unfolding bitstype_prologue_def by auto
  then have "eval rt (Expr bitstype_sym args) s w =
        bind_res (bitstype_define rt (eval_modu s w) nm para nb w2)
          (\<lambda>(dt, b, temp) w4. supertype_scope rt (\<lambda>a. eval rt a s) dt b temp args 3 w4)"
    unfolding eval_Expr_bitstype eval_bitstype_def by simp
  also have "\<dots> = (if \<not> 0 < nb \<or> 2 ^ 23 \<le> nb \<or> \<not> 8 dvd nb
      then jl_error (''invalid number of bits in type '' @ nm) w2
      else bind_res (jl_new_bitstype rt (Sym nm) Null para nb w2)
             (\<lambda>dt w3. bind_res (typedef_binding rt (eval_modu s w) nm dt w3)
                (\<lambda>(dt, b, temp) w4.
                   supertype_scope rt (\<lambda>a. eval rt a s) dt b temp args 3 w4)))"
    unfolding bitstype_define_def and_7_dvd_8
    by (cases "jl_new_bitstype rt (Sym nm) Null para nb w2")
       (simp_all add: not_less jl_error_def jl_throw_def)
  finally show ?thesis .
qed

theorem bitstype_width_validated_witness:
  "eval ex_rt (Expr bitstype_sym [Sym ''I'', SVec [], Long 12, DataType 1001]) None ex_world =
     Threw (ex_world\<lparr>jl_exception_in_transit :=
                       ErrorException ''invalid number of bits in type I''\<rparr>) \<and>
   eval ex_rt (Expr bitstype_sym [Sym ''I'', SVec [], Long 16, DataType 1001]) None ex_world =
     Ret jl_nothing
       (ex_world\<lparr>bindings := (bindings ex_world)
                    (101 := \<lparr>b_name = ''I'', b_value = DataType 0, b_constp = False\<rparr>),
                  dtypes := (dtypes ex_world)
                    (0 := \<lparr>dt_name = 0, dt_super = DataType 1001, dt_parameters = SVec [],
                           dt_types = SVec [], dt_instance = Null, dt_size = 2,
                           dt_abstract = False, dt_mutabl = False, dt_ninitialized = 0\<rparr>),
                  typenames := (typenames ex_world)
                    (0 := \<lparr>tn_name = ''I'', tn_names = SVec []\<rparr>),
                  runtime_state := [DataType 0]\<rparr>)"
  using bitstype_width_validated [of ex_world "[Sym ''I'', SVec [], Long 12, DataType 1001]" "''I''"
          "[SVec [], Long 12, DataType 1001]" ex_rt None "SVec []" ex_world 12 ex_world]
        bitstype_width_validated [of ex_world "[Sym ''I'', SVec [], Long 16, DataType 1001]" "''I''"
          "[SVec [], Long 16, DataType 1001]" ex_rt None "SVec []" ex_world 16 ex_world]
  by (simp add: interp_defs ex_defs)

subsection \<open>Module restoration\<close>

text \<open>
  Claim C5.  \<^verbatim>\<open>jl_interpret_toplevel_expr_in(m, e, lam)\<close> evaluates \<open>e\<close> with the
  process-current and the task-current module both set to \<open>m\<close>.  When the evaluation
  returns (a value other than \<^verbatim>\<open>NULL\<close>) the call returns that value, and when it throws
  the call throws again with the same state, the exception in transit included; on both
  paths the two module cells are first set back to what they were before the call.  So
  whenever the call returns or throws, both modules equal their values before the call.
\<close>

theorem interpret_toplevel_expr_in_restores_modules:
  "(\<forall>v w1. eval rt e (Some \<lparr>s_lam = lam, s_locals = None, s_sparam_vals = Null\<rparr>)
              (w\<lparr>jl_current_module := m, task_current_module := m\<rparr>) = Ret v w1 \<longrightarrow> v \<noteq> Null \<longrightarrow>
      jl_interpret_toplevel_expr_in rt m e lam w =
        Ret v (w1\<lparr>jl_current_module := jl_current_module w,
                  task_current_module := task_current_module w\<rparr>)) \<and>
   (\<forall>w1. eval rt e (Some \<lparr>s_lam = lam, s_locals = None, s_sparam_vals = Null\<rparr>)
              (w\<lparr>jl_current_module := m, task_current_module := m\<rparr>) = Threw w1 \<longrightarrow>
      jl_interpret_toplevel_expr_in rt m e lam w =
        Threw (w1\<lparr>jl_current_module := jl_current_module w,
                   task_current_module := task_current_module w\<rparr>)) \<and>
   (\<forall>v w'. jl_interpret_toplevel_expr_in rt m e lam w = Ret v w' \<longrightarrow>
      jl_current_module w' = jl_current_module w \<and>
      task_current_module w' = task_current_module w) \<and>
   (\<forall>w'. jl_interpret_toplevel_expr_in rt m e lam w = Threw w' \<longrightarrow>
      jl_current_module w' = jl_current_module w \<and>
      task_current_module w' = task_current_module w)"
  unfolding jl_interpret_toplevel_expr_in_def jl_rethrow_def Let_def
  by (cases "eval rt e (Some \<lparr>s_lam = lam, s_locals = None, s_sparam_vals = Null\<rparr>)
              (w\<lparr>jl_current_module := m, task_current_module := m\<rparr>)")
     (auto split: if_splits)

theorem interpret_toplevel_expr_in_restores_modules_witness:
  "jl_current_module ex_world = 1 \<and> task_current_module ex_world = 2 \<and>
   jl_interpret_toplevel_expr_in ex_rt 5 (Sym ''x'') None ex_world = Ret (Long 42) ex_world \<and>
   jl_interpret_toplevel_expr_in ex_rt 5 (Sym ''yy'') None ex_world =
     Threw (ex_world\<lparr>jl_exception_in_transit := UndefVarError (Sym ''yy'')\<rparr>) \<and>
   eval ex_rt (Sym ''x'') (Some \<lparr>s_lam = None, s_locals = None, s_sparam_vals = Null\<rparr>) ex_world =
     Threw (ex_world\<lparr>jl_exception_in_transit := UndefVarError (Sym ''x'')\<rparr>)"
  using interpret_toplevel_expr_in_restores_modules [where rt = ex_rt and e = "Sym ''x''" and lam = None and w = ex_world and m = 5]
        interpret_toplevel_expr_in_restores_modules [where rt = ex_rt and e = "Sym ''yy''" and lam = None and w = ex_world and m = 5]
  by (simp add: interp_defs ex_defs)

subsection \<open>References without a lambda info\<close>

text \<open>
  Claim C3 (the code departs from it).  The claim has an SSA or slot reference that is
  evaluated with no frame raise ``access to invalid SSAValue'' or ``access to invalid
  slot number''.  The source tests \<^verbatim>\<open>s->locals == NULL\<close> for that, but only after it has
  computed \<^verbatim>\<open>jl_linfo_nssavalues(lam)\<close> (or \<^verbatim>\<open>jl_linfo_nslots(lam)\<close>), which
  dereferences \<^verbatim>\<open>lam\<close>; with no frame, or a frame without a lambda info, \<^verbatim>\<open>lam\<close> is
  \<^verbatim>\<open>NULL\<close>.  On such a reference both entry points that evaluate a bare expression
  therefore read through a null pointer (the outcome \<open>Abort\<close>) instead of raising the
  error.
\<close>

theorem reference_without_lambda_info_aborts:
  "jl_interpret_toplevel_expr rt (SSAValue i) w = Abort \<and>
   jl_interpret_toplevel_expr rt (Slot n) w = Abort \<and>
   jl_interpret_toplevel_expr_in rt m (SSAValue i) None w = Abort \<and>
   jl_interpret_toplevel_expr_in rt m (Slot n) None w = Abort"
  by (simp add: jl_interpret_toplevel_expr_def jl_interpret_toplevel_expr_in_def)

text \<open>With a lambda info in the frame the references behave as the claim says: the error
  when the index is out of range or the frame has no locals, the undefined-variable error
  on an absent slot, the local otherwise.\<close>

lemma ssavalue_reference_in_frame:
  assumes "s_lam st = Some lam" and "jl_linfo_nssavalues lam = Some nssa"
  shows "nssa \<le> i \<or> i < 0 \<or> s_locals st = None \<Longrightarrow>
           eval rt (SSAValue i) (Some st) w = Threw (w\<lparr>jl_exception_in_transit :=
             ErrorException ''access to invalid SSAValue''\<rparr>)"
    and "0 \<le> i \<Longrightarrow> i < nssa \<Longrightarrow> s_locals st = Some locals \<Longrightarrow>
           nat (jl_linfo_nslots lam + i) < length locals \<Longrightarrow>
           eval rt (SSAValue i) (Some st) w = Ret (locals ! nat (jl_linfo_nslots lam + i)) w"
  using assms by (auto simp: jl_error_def jl_throw_def)

lemma slot_reference_in_frame:
  assumes "s_lam st = Some lam"
  shows "jl_linfo_nslots lam < n \<or> n < 1 \<or> s_locals st = None \<Longrightarrow>
           eval rt (Slot n) (Some st) w = Threw (w\<lparr>jl_exception_in_transit :=
             ErrorException ''access to invalid slot number''\<rparr>)"
    and "1 \<le> n \<Longrightarrow> n \<le> jl_linfo_nslots lam \<Longrightarrow> s_locals st = Some locals \<Longrightarrow>
           length locals \<ge> nat (jl_linfo_nslots lam) \<Longrightarrow>
           length (li_slotnames lam) = nat (jl_linfo_nslots lam) \<Longrightarrow>
           eval rt (Slot n) (Some st) w =
             (if locals ! nat (n - 1) = Null
              then Threw (w\<lparr>jl_exception_in_transit := UndefVarError (li_slotnames lam ! nat (n - 1))\<rparr>)
              else Ret (locals ! nat (n - 1)) w)"
  using assms
  by (auto simp: jl_error_def jl_throw_def jl_undefined_var_error_def jl_linfo_nslots_def)

subsection \<open>The loop of the body executor\<close>

lemma body_iteration_past_end:
  "length stmts \<le> i \<Longrightarrow>
   body_iteration rt stmts s eh i toplevel w =
     Done (Threw (s, eh, w\<lparr>jl_exception_in_transit := ErrorException
       ''`body` expression must terminate in `return`. Use `block` instead.''\<rparr>))"
  by (simp add: body_iteration_def in_frame_def jl_error_def jl_throw_def)

lemma body_iteration_fetch:
  "i < length stmts \<Longrightarrow>
   body_iteration rt stmts s eh i toplevel w = body_stmt rt (stmts ! i) s eh i toplevel w"
  by (simp add: body_iteration_def)

lemma landing_elsewhere:
  "\<not> own_handler d eh \<Longrightarrow> landing d stmt (Threw (s, eh, w)) = Leave (Threw (s, eh, w))"
  by (simp add: landing_def)

lemma landing_own:
  "own_handler d eh \<Longrightarrow>
   landing d (Expr head (Long label # rest)) (Threw (s, eh, w)) =
     Resume s eh (size_t_of (label - 1)) w"
  by (simp add: landing_def)

lemma eval_body_past_end:
  "length stmts \<le> i \<Longrightarrow> \<not> own_handler d eh \<Longrightarrow>
   eval_body (Suc fuel) rt stmts s eh d stmt i toplevel w =
     Some (Threw (s, eh, w\<lparr>jl_exception_in_transit := ErrorException
       ''`body` expression must terminate in `return`. Use `block` instead.''\<rparr>))"
  by (simp add: body_iteration_past_end landing_elsewhere)

lemma eval_body_next:
  "i < length stmts \<Longrightarrow> body_stmt rt (stmts ! i) s eh i toplevel w = Next s1 eh1 i1 w1 \<Longrightarrow>
   eval_body (Suc fuel) rt stmts s eh d stmt i toplevel w =
     eval_body fuel rt stmts s1 eh1 d (stmts ! i) i1 toplevel w1"
  by (simp add: body_iteration_fetch fetched_def)

lemma eval_body_thrown:
  "i < length stmts \<Longrightarrow> body_stmt rt (stmts ! i) s eh i toplevel w = Done (Threw (s1, eh1, w1)) \<Longrightarrow>
   \<not> own_handler d eh1 \<Longrightarrow>
   eval_body (Suc fuel) rt stmts s eh d stmt i toplevel w = Some (Threw (s1, eh1, w1))"
  by (simp add: body_iteration_fetch landing_elsewhere)

lemma eval_body_caught:
  "i < length stmts \<Longrightarrow> stmts ! i = Expr enter_sym (Long label # rest) \<Longrightarrow>
   eval_body fuel rt stmts s (jl_enter_handler d eh) (Suc d) Null
     (size_t_of (to_int32 (int (i + 1)))) toplevel w = Some (Threw (s1, eh1, w1)) \<Longrightarrow>
   own_handler d eh1 \<Longrightarrow>
   eval_body (Suc fuel) rt stmts s eh d stmt i toplevel w =
     eval_body fuel rt stmts s1 eh1 d (Expr enter_sym (Long label # rest))
       (size_t_of (label - 1)) toplevel w1"
  by (simp add: body_iteration_fetch fetched_def landing_own sym_defs)

text \<open>An invocation whose handler is innermost and whose \<^verbatim>\<open>stmt\<close> carries a label at or
  past the end of the body, once its instruction pointer is past the end: it raises the
  error, lands on its own handler, which sends it past the end again, and so on.\<close>

lemma eval_body_no_return:
  "own_handler d eh \<Longrightarrow> length stmts \<le> size_t_of (label - 1) \<Longrightarrow> length stmts \<le> i \<Longrightarrow>
   eval_body fuel rt stmts s eh d (Expr head (Long label # rest)) i toplevel w = None"
proof (induction fuel arbitrary: i w)
  case 0
  show ?case by simp
next
  case (Suc fuel)
  have "eval_body (Suc fuel) rt stmts s eh d (Expr head (Long label # rest)) i toplevel w =
        eval_body fuel rt stmts s eh d (Expr head (Long label # rest)) (size_t_of (label - 1)) toplevel
          (w\<lparr>jl_exception_in_transit := ErrorException
             ''`body` expression must terminate in `return`. Use `block` instead.''\<rparr>)"
    using Suc.prems by (simp add: body_iteration_past_end landing_own fetched_def)
  also have "\<dots> = None"
    using Suc.prems by (intro Suc.IH) simp_all
  finally show ?case .
qed

lemma body_stmt_goto_ifnot:
  "eval rt c s w = Ret cond w1 \<Longrightarrow>
   body_stmt rt (Expr goto_ifnot_sym (c # Long label # rest)) s eh i toplevel w =
     (if cond = jl_false then Next s eh (size_t_of (label - 1)) w1
      else if cond = jl_true then Next s eh (i + 1) w1
      else Done (Threw (s, eh, w1\<lparr>jl_exception_in_transit :=
                  TypeError ''toplevel'' ''if'' (jl_bool_type rt) cond\<rparr>)))"
  by (simp add: sym_defs in_frame_def jl_type_error_rt_def jl_throw_def)

lemma size_t_of_minus_one: "size_t_of (0 - 1) = 2 ^ 64 - 1"
  by (simp add: size_t_of_def)

lemma label_past_end:
  "label = 0 \<and> length stmts < 2 ^ 64 \<or> length stmts \<le> size_t_of (label - 1) \<Longrightarrow>
   length stmts \<le> size_t_of (label - 1)"
  using size_t_of_minus_one by auto

text \<open>More fuel does not change a result, so that an invocation has at most one.\<close>

lemma eval_body_more_fuel:
  "eval_body f rt stmts s eh d stmt i toplevel w = Some r \<Longrightarrow>
   eval_body (Suc f) rt stmts s eh d stmt i toplevel w = Some r"
proof (induction f arbitrary: s eh d stmt i w r)
  case 0
  then show ?case by simp
next
  case (Suc f)
  show ?case
  proof (cases "body_iteration rt stmts s eh i toplevel w")
    case (Next s1 eh1 i1 w1)
    with Suc.prems have "eval_body f rt stmts s1 eh1 d (fetched stmts i stmt) i1 toplevel w1 = Some r"
      by simp
    then have "eval_body (Suc f) rt stmts s1 eh1 d (fetched stmts i stmt) i1 toplevel w1 = Some r"
      by (rule Suc.IH)
    with Next show ?thesis
      by (subst eval_body.simps) (simp del: eval_body.simps)
  next
    case (Done r0)
    show ?thesis
    proof (cases "landing d (fetched stmts i stmt) r0")
      case (Resume s1 eh1 i1 w1)
      with Done Suc.prems have "eval_body f rt stmts s1 eh1 d (fetched stmts i stmt) i1 toplevel w1 = Some r"
        by simp
      then have "eval_body (Suc f) rt stmts s1 eh1 d (fetched stmts i stmt) i1 toplevel w1 = Some r"
        by (rule Suc.IH)
      with Done Resume show ?thesis
        by (subst eval_body.simps) (simp del: eval_body.simps)
    next
      case (Leave r1)
      with Done Suc.prems have "r1 = r"
        by simp
      with Done Leave show ?thesis
        by (subst eval_body.simps) (simp del: eval_body.simps)
    qed
  next
    case Protect
    let ?inner = "\<lambda>f. eval_body f rt stmts s (jl_enter_handler d eh) (Suc d) Null
                   (size_t_of (to_int32 (int (i + 1)))) toplevel w"
    from Protect Suc.prems obtain r0 where inner: "?inner f = Some r0"
      by (cases "?inner f") simp_all
    then have inner': "?inner (Suc f) = Some r0"
      by (rule Suc.IH)
    show ?thesis
    proof (cases "landing d (fetched stmts i stmt) r0")
      case (Resume s1 eh1 i1 w1)
      with Protect inner Suc.prems
      have "eval_body f rt stmts s1 eh1 d (fetched stmts i stmt) i1 toplevel w1 = Some r"
        by simp
      then have "eval_body (Suc f) rt stmts s1 eh1 d (fetched stmts i stmt) i1 toplevel w1 = Some r"
        by (rule Suc.IH)
      with Protect Resume inner' show ?thesis
        by (subst eval_body.simps) (simp del: eval_body.simps)
    next
      case (Leave r1)
      with Protect inner Suc.prems have "r1 = r"
        by simp
      with Protect Leave inner' show ?thesis
        by (subst eval_body.simps) (simp del: eval_body.simps)
    qed
  qed
qed

lemma eval_body_fuel_le:
  "eval_body f rt stmts s eh d stmt i toplevel w = Some r \<Longrightarrow> f \<le> f' \<Longrightarrow>
   eval_body f' rt stmts s eh d stmt i toplevel w = Some r"
proof (induction f' )
  case 0
  then show ?case by simp
next
  case (Suc f')
  show ?case
  proof (cases "f = Suc f'")
    case True
    with Suc.prems show ?thesis by simp
  next
    case False
    with Suc.prems have "f \<le> f'" by simp
    with Suc.prems have "eval_body f' rt stmts s eh d stmt i toplevel w = Some r"
      by (intro Suc.IH)
    then show ?thesis by (rule eval_body_more_fuel)
  qed
qed

lemma eval_body_one_result:
  assumes "eval_body f rt stmts s eh d stmt i toplevel w = Some r"
    and "eval_body f' rt stmts s eh d stmt i toplevel w = Some r'"
  shows "r' = r"
proof (cases "f \<le> f'")
  case True
  with assms(1) have "eval_body f' rt stmts s eh d stmt i toplevel w = Some r"
    by (rule eval_body_fuel_le)
  with assms(2) show ?thesis by simp
next
  case False
  then have "f' \<le> f" by simp
  with assms(2) have "eval_body f rt stmts s eh d stmt i toplevel w = Some r'"
    by (rule eval_body_fuel_le)
  with assms(1) show ?thesis by simp
qed

text \<open>If the protected region of an \<^verbatim>\<open>enter\<close> whose label is past the end throws to the
  handler, no amount of fuel makes the invocation return.\<close>

lemma eval_body_caught_never_returns:
  assumes "i < length stmts" and "stmts ! i = Expr enter_sym (Long label # rest)"
    and "eval_body fuel rt stmts s (jl_enter_handler d eh) (Suc d) Null
           (size_t_of (to_int32 (int (i + 1)))) toplevel w = Some (Threw (s1, eh1, w1))"
    and "own_handler d eh1"
    and "length stmts \<le> size_t_of (label - 1)"
  shows "eval_body n rt stmts s eh d stmt i toplevel w = None"
proof (cases n)
  case 0
  then show ?thesis by simp
next
  case (Suc m)
  let ?inner = "eval_body m rt stmts s (jl_enter_handler d eh) (Suc d) Null
                   (size_t_of (to_int32 (int (i + 1)))) toplevel w"
  show ?thesis
  proof (cases ?inner)
    case None
    with assms(1,2) show ?thesis
      unfolding Suc by (simp add: body_iteration_fetch sym_defs)
  next
    case (Some r)
    with assms(3) have "r = Threw (s1, eh1, w1)"
      by (rule eval_body_one_result)
    with Some assms(1,2,4)
    have "eval_body (Suc m) rt stmts s eh d stmt i toplevel w =
          eval_body m rt stmts s1 eh1 d (Expr enter_sym (Long label # rest))
            (size_t_of (label - 1)) toplevel w1"
      by (intro eval_body_caught) simp_all
    also have "\<dots> = None"
      using assms(4,5) by (intro eval_body_no_return) simp_all
    finally show ?thesis
      unfolding Suc .
  qed
qed

text \<open>
  Claim C7.  Whenever the instruction pointer is at or past the number of statements, the
  iteration of \<^verbatim>\<open>eval_body\<close> raises the error that a body must terminate in \<^verbatim>\<open>return\<close>,
  and fetches no statement (a fetch outside the array would be \<open>Abort\<close>).  The message of
  the code is ``\<^verbatim>\<open>`body` expression must terminate in `return`. Use `block` instead.\<close>'';
  the specification quotes it without the quotation marks around \<^verbatim>\<open>body\<close> and
  \<^verbatim>\<open>return\<close> and without its second sentence.  The instruction pointer is past the end
  after a \<^verbatim>\<open>goto\<close>, after a \<^verbatim>\<open>goto_ifnot\<close> whose condition is false, and after a
  transfer to the handler of an \<^verbatim>\<open>enter\<close>, when the label is 0 (then \<^verbatim>\<open>label - 1\<close> wraps
  to the largest \<^verbatim>\<open>size_t\<close>) or beyond the end of the body.  The error is thrown like any
  other: when the handler of the invocation is not the innermost one, the invocation ends
  with it; after the transfer to the handler of an \<^verbatim>\<open>enter\<close>, that handler is still the
  innermost, so that the error comes back to it, and the invocation raises it again and
  again and never returns.
\<close>

theorem eval_body_must_end_in_return:
  "(length stmts \<le> i \<longrightarrow>
      body_iteration rt stmts s eh i toplevel w =
        Done (Threw (s, eh, w\<lparr>jl_exception_in_transit := ErrorException
          ''`body` expression must terminate in `return`. Use `block` instead.''\<rparr>)) \<and>
      (\<not> own_handler d eh \<longrightarrow>
         eval_body (Suc fuel) rt stmts s eh d stmt i toplevel w =
           Some (Threw (s, eh, w\<lparr>jl_exception_in_transit := ErrorException
             ''`body` expression must terminate in `return`. Use `block` instead.''\<rparr>)))) \<and>
   (i < length stmts \<and> stmts ! i = GotoNode label \<and>
    (label = 0 \<and> length stmts < 2 ^ 64 \<or> length stmts \<le> size_t_of (label - 1)) \<longrightarrow>
      length stmts \<le> size_t_of (label - 1) \<and>
      eval_body (Suc (Suc fuel)) rt stmts s eh d stmt i toplevel w =
        eval_body (Suc fuel) rt stmts s eh d (GotoNode label) (size_t_of (label - 1)) toplevel w \<and>
      (\<not> own_handler d eh \<longrightarrow>
         eval_body (Suc (Suc fuel)) rt stmts s eh d stmt i toplevel w =
           Some (Threw (s, eh, w\<lparr>jl_exception_in_transit := ErrorException
             ''`body` expression must terminate in `return`. Use `block` instead.''\<rparr>)))) \<and>
   (i < length stmts \<and> stmts ! i = Expr goto_ifnot_sym (c # Long label # rest) \<and>
    eval rt c s w = Ret jl_false w1 \<and>
    (label = 0 \<and> length stmts < 2 ^ 64 \<or> length stmts \<le> size_t_of (label - 1)) \<longrightarrow>
      length stmts \<le> size_t_of (label - 1) \<and>
      eval_body (Suc (Suc fuel)) rt stmts s eh d stmt i toplevel w =
        eval_body (Suc fuel) rt stmts s eh d (Expr goto_ifnot_sym (c # Long label # rest))
          (size_t_of (label - 1)) toplevel w1 \<and>
      (\<not> own_handler d eh \<longrightarrow>
         eval_body (Suc (Suc fuel)) rt stmts s eh d stmt i toplevel w =
           Some (Threw (s, eh, w1\<lparr>jl_exception_in_transit := ErrorException
             ''`body` expression must terminate in `return`. Use `block` instead.''\<rparr>)))) \<and>
   (i < length stmts \<and> stmts ! i = Expr enter_sym (Long label # rest) \<and>
    eval_body fuel rt stmts s (jl_enter_handler d eh) (Suc d) Null
      (size_t_of (to_int32 (int (i + 1)))) toplevel w = Some (Threw (s1, eh1, w1)) \<and>
    own_handler d eh1 \<and>
    (label = 0 \<and> length stmts < 2 ^ 64 \<or> length stmts \<le> size_t_of (label - 1)) \<longrightarrow>
      length stmts \<le> size_t_of (label - 1) \<and>
      eval_body (Suc fuel) rt stmts s eh d stmt i toplevel w =
        eval_body fuel rt stmts s1 eh1 d (Expr enter_sym (Long label # rest))
          (size_t_of (label - 1)) toplevel w1 \<and>
      body_iteration rt stmts s1 eh1 (size_t_of (label - 1)) toplevel w1 =
        Done (Threw (s1, eh1, w1\<lparr>jl_exception_in_transit := ErrorException
          ''`body` expression must terminate in `return`. Use `block` instead.''\<rparr>)) \<and>
      eval_body n rt stmts s1 eh1 d (Expr enter_sym (Long label # rest))
        (size_t_of (label - 1)) toplevel w1 = None \<and>
      eval_body m rt stmts s eh d stmt i toplevel w = None)"
proof (intro conjI impI)
  assume "length stmts \<le> i"
  then show "body_iteration rt stmts s eh i toplevel w =
        Done (Threw (s, eh, w\<lparr>jl_exception_in_transit := ErrorException
          ''`body` expression must terminate in `return`. Use `block` instead.''\<rparr>))"
    by (rule body_iteration_past_end)
next
  assume "length stmts \<le> i" "\<not> own_handler d eh"
  then show "eval_body (Suc fuel) rt stmts s eh d stmt i toplevel w =
           Some (Threw (s, eh, w\<lparr>jl_exception_in_transit := ErrorException
             ''`body` expression must terminate in `return`. Use `block` instead.''\<rparr>))"
    by (rule eval_body_past_end)
next
  assume a: "i < length stmts \<and> stmts ! i = GotoNode label \<and>
    (label = 0 \<and> length stmts < 2 ^ 64 \<or> length stmts \<le> size_t_of (label - 1))"
  then show past: "length stmts \<le> size_t_of (label - 1)"
    by (simp add: label_past_end)
  from a have "body_stmt rt (stmts ! i) s eh i toplevel w = Next s eh (size_t_of (label - 1)) w"
    by simp
  with a show step: "eval_body (Suc (Suc fuel)) rt stmts s eh d stmt i toplevel w =
        eval_body (Suc fuel) rt stmts s eh d (GotoNode label) (size_t_of (label - 1)) toplevel w"
    using eval_body_next [of i stmts rt s eh toplevel w s eh "size_t_of (label - 1)" w "Suc fuel" d stmt]
    by simp
  show "eval_body (Suc (Suc fuel)) rt stmts s eh d stmt i toplevel w =
           Some (Threw (s, eh, w\<lparr>jl_exception_in_transit := ErrorException
             ''`body` expression must terminate in `return`. Use `block` instead.''\<rparr>))"
    if "\<not> own_handler d eh"
    unfolding step using past that by (rule eval_body_past_end)
next
  assume a: "i < length stmts \<and> stmts ! i = Expr goto_ifnot_sym (c # Long label # rest) \<and>
    eval rt c s w = Ret jl_false w1 \<and>
    (label = 0 \<and> length stmts < 2 ^ 64 \<or> length stmts \<le> size_t_of (label - 1))"
  then show past: "length stmts \<le> size_t_of (label - 1)"
    by (simp add: label_past_end)
  from a have "body_stmt rt (stmts ! i) s eh i toplevel w = Next s eh (size_t_of (label - 1)) w1"
    by (simp add: body_stmt_goto_ifnot del: body_stmt.simps)
  with a show step: "eval_body (Suc (Suc fuel)) rt stmts s eh d stmt i toplevel w =
        eval_body (Suc fuel) rt stmts s eh d (Expr goto_ifnot_sym (c # Long label # rest))
          (size_t_of (label - 1)) toplevel w1"
    using eval_body_next [of i stmts rt s eh toplevel w s eh "size_t_of (label - 1)" w1 "Suc fuel" d stmt]
    by simp
  show "eval_body (Suc (Suc fuel)) rt stmts s eh d stmt i toplevel w =
           Some (Threw (s, eh, w1\<lparr>jl_exception_in_transit := ErrorException
             ''`body` expression must terminate in `return`. Use `block` instead.''\<rparr>))"
    if "\<not> own_handler d eh"
    unfolding step using past that by (rule eval_body_past_end)
next
  assume a: "i < length stmts \<and> stmts ! i = Expr enter_sym (Long label # rest) \<and>
    eval_body fuel rt stmts s (jl_enter_handler d eh) (Suc d) Null
      (size_t_of (to_int32 (int (i + 1)))) toplevel w = Some (Threw (s1, eh1, w1)) \<and>
    own_handler d eh1 \<and>
    (label = 0 \<and> length stmts < 2 ^ 64 \<or> length stmts \<le> size_t_of (label - 1))"
  then show past: "length stmts \<le> size_t_of (label - 1)"
    by (simp add: label_past_end)
  from a show step: "eval_body (Suc fuel) rt stmts s eh d stmt i toplevel w =
        eval_body fuel rt stmts s1 eh1 d (Expr enter_sym (Long label # rest))
          (size_t_of (label - 1)) toplevel w1"
    by (intro eval_body_caught) simp_all
  from past show "body_iteration rt stmts s1 eh1 (size_t_of (label - 1)) toplevel w1 =
        Done (Threw (s1, eh1, w1\<lparr>jl_exception_in_transit := ErrorException
          ''`body` expression must terminate in `return`. Use `block` instead.''\<rparr>))"
    by (rule body_iteration_past_end)
  from a past show "eval_body n rt stmts s1 eh1 d (Expr enter_sym (Long label # rest))
        (size_t_of (label - 1)) toplevel w1 = None"
    by (intro eval_body_no_return) simp_all
  from a have "i < length stmts" "stmts ! i = Expr enter_sym (Long label # rest)"
    "eval_body fuel rt stmts s (jl_enter_handler d eh) (Suc d) Null
      (size_t_of (to_int32 (int (i + 1)))) toplevel w = Some (Threw (s1, eh1, w1))"
    "own_handler d eh1"
    by blast+
  then show "eval_body m rt stmts s eh d stmt i toplevel w = None"
    using past by (rule eval_body_caught_never_returns)
qed

theorem eval_body_must_end_in_return_witness:
  "eval_body (Suc 0) ex_rt [] None [Caller] 0 Null 0 True ex_world =
     Some (Threw (None, [Caller], ex_world\<lparr>jl_exception_in_transit := ErrorException
       ''`body` expression must terminate in `return`. Use `block` instead.''\<rparr>)) \<and>
   eval_body (Suc (Suc 0)) ex_rt [GotoNode 0] None [Caller] 0 Null 0 True ex_world =
     Some (Threw (None, [Caller], ex_world\<lparr>jl_exception_in_transit := ErrorException
       ''`body` expression must terminate in `return`. Use `block` instead.''\<rparr>)) \<and>
   eval_body (Suc (Suc 0)) ex_rt [Expr goto_ifnot_sym [jl_false, Long 5]] None [Caller] 0 Null 0
       True ex_world =
     Some (Threw (None, [Caller], ex_world\<lparr>jl_exception_in_transit := ErrorException
       ''`body` expression must terminate in `return`. Use `block` instead.''\<rparr>)) \<and>
   eval_body (Suc (Suc 0)) ex_rt [Expr enter_sym [Long 0], Expr error_sym [Long 13]] None
       (jl_enter_handler 0 [Caller]) (Suc 0) Null (size_t_of (to_int32 (int (0 + 1)))) True ex_world =
     Some (Threw (None, [Frame 0, Caller], ex_world\<lparr>jl_exception_in_transit := Long 13\<rparr>)) \<and>
   own_handler 0 [Frame 0, Caller] \<and>
   body_iteration ex_rt [Expr enter_sym [Long 0], Expr error_sym [Long 13]] None [Frame 0, Caller]
       (size_t_of (0 - 1)) True (ex_world\<lparr>jl_exception_in_transit := Long 13\<rparr>) =
     Done (Threw (None, [Frame 0, Caller], ex_world\<lparr>jl_exception_in_transit := ErrorException
       ''`body` expression must terminate in `return`. Use `block` instead.''\<rparr>)) \<and>
   eval_body (Suc (Suc (Suc (Suc 0)))) ex_rt [Expr enter_sym [Long 0], Expr error_sym [Long 13]] None
       [Frame 0, Caller] 0 (Expr enter_sym [Long 0]) (size_t_of (0 - 1)) True
       (ex_world\<lparr>jl_exception_in_transit := Long 13\<rparr>) = None \<and>
   eval_body (Suc (Suc (Suc 0))) ex_rt [Expr enter_sym [Long 0], Expr error_sym [Long 13]] None
       [Caller] 0 Null 0 True ex_world = None"
proof -
  let ?body = "[Expr enter_sym [Long 0], Expr error_sym [Long 13]]"
  let ?w13 = "ex_world\<lparr>jl_exception_in_transit := Long 13\<rparr>"
  have own: "\<not> own_handler 0 [Caller]" "own_handler 0 [Frame 0, Caller]"
    by simp_all
  have ha: "length ([] :: val list) \<le> 0"
    by simp
  note A = eval_body_must_end_in_return [where stmts = "[]" and i = 0 and fuel = 0 and rt = ex_rt
      and s = None and eh = "[Caller]" and d = 0 and stmt = Null and toplevel = True and w = ex_world]
  have a: "eval_body (Suc 0) ex_rt [] None [Caller] 0 Null 0 True ex_world =
     Some (Threw (None, [Caller], ex_world\<lparr>jl_exception_in_transit := ErrorException
       ''`body` expression must terminate in `return`. Use `block` instead.''\<rparr>))"
    using A own(1) ha by blast
  have hb: "0 < length [GotoNode 0]" "[GotoNode 0] ! 0 = GotoNode 0" "length [GotoNode 0] < 2 ^ 64"
    by simp_all
  note B = eval_body_must_end_in_return [where stmts = "[GotoNode 0]" and i = 0 and fuel = 0
      and rt = ex_rt and s = None and eh = "[Caller]" and d = 0 and stmt = Null and toplevel = True
      and w = ex_world and label = 0]
  have b: "eval_body (Suc (Suc 0)) ex_rt [GotoNode 0] None [Caller] 0 Null 0 True ex_world =
     Some (Threw (None, [Caller], ex_world\<lparr>jl_exception_in_transit := ErrorException
       ''`body` expression must terminate in `return`. Use `block` instead.''\<rparr>))"
    using B own(1) hb by blast
  have hc: "0 < length [Expr goto_ifnot_sym [jl_false, Long 5]]"
    "[Expr goto_ifnot_sym [jl_false, Long 5]] ! 0 = Expr goto_ifnot_sym [jl_false, Long 5]"
    "eval ex_rt jl_false None ex_world = Ret jl_false ex_world"
    "length [Expr goto_ifnot_sym [jl_false, Long 5]] \<le> size_t_of (5 - 1)"
    by (simp_all add: size_t_of_def)
  note C = eval_body_must_end_in_return [where stmts = "[Expr goto_ifnot_sym [jl_false, Long 5]]"
      and i = 0 and fuel = 0 and rt = ex_rt and s = None and eh = "[Caller]" and d = 0
      and stmt = Null and toplevel = True and w = ex_world and label = 5 and c = jl_false
      and rest = "[]" and ?w1.0 = ex_world]
  have c: "eval_body (Suc (Suc 0)) ex_rt [Expr goto_ifnot_sym [jl_false, Long 5]] None [Caller] 0 Null 0
       True ex_world =
     Some (Threw (None, [Caller], ex_world\<lparr>jl_exception_in_transit := ErrorException
       ''`body` expression must terminate in `return`. Use `block` instead.''\<rparr>))"
    using C own(1) hc by blast
  have hd: "0 < length ?body" "?body ! 0 = Expr enter_sym [Long 0]" "length ?body < 2 ^ 64"
    by simp_all
  have inner: "eval_body (Suc (Suc 0)) ex_rt ?body None
       (jl_enter_handler 0 [Caller]) (Suc 0) Null (size_t_of (to_int32 (int (0 + 1)))) True ex_world =
     Some (Threw (None, [Frame 0, Caller], ?w13))"
    by (simp add: interp_defs ex_defs sym_defs)
  note D = eval_body_must_end_in_return [where stmts = ?body
      and i = 0 and fuel = "Suc (Suc 0)" and rt = ex_rt and s = None and eh = "[Caller]" and d = 0
      and stmt = Null and toplevel = True and w = ex_world and label = 0 and rest = "[]"
      and ?s1.0 = None and ?eh1.0 = "[Frame 0, Caller]" and ?w1.0 = ?w13
      and n = "Suc (Suc (Suc (Suc 0)))" and m = "Suc (Suc (Suc 0))"]
  have "body_iteration ex_rt ?body None [Frame 0, Caller] (size_t_of (0 - 1)) True ?w13 =
     Done (Threw (None, [Frame 0, Caller], ?w13\<lparr>jl_exception_in_transit := ErrorException
       ''`body` expression must terminate in `return`. Use `block` instead.''\<rparr>))"
    using D inner own(2) hd by blast
  then have d1: "body_iteration ex_rt ?body None [Frame 0, Caller] (size_t_of (0 - 1)) True ?w13 =
     Done (Threw (None, [Frame 0, Caller], ex_world\<lparr>jl_exception_in_transit := ErrorException
       ''`body` expression must terminate in `return`. Use `block` instead.''\<rparr>))"
    by simp
  have d2: "eval_body (Suc (Suc (Suc (Suc 0)))) ex_rt ?body None [Frame 0, Caller] 0 (Expr enter_sym [Long 0])
       (size_t_of (0 - 1)) True ?w13 = None"
    using D inner own(2) hd by blast
  have d3: "eval_body (Suc (Suc (Suc 0))) ex_rt ?body None [Caller] 0 Null 0 True ex_world = None"
    using D inner own(2) hd by blast
  show ?thesis
    using a b c inner own(2) d1 d2 d3 by (intro conjI)
qed

text \<open>Two runs in a task whose callers have registered one handler.  The protected
  statement of an \<^verbatim>\<open>enter\<close> throws 13: the invocation that entered goes on at the label,
  pops its handler and returns the exception in transit.  A \<^verbatim>\<open>leave\<close> in an invocation
  that has registered no handler pops the handler of the caller, and the loop goes on.\<close>

lemma eval_body_handler_examples:
  "eval_body (Suc (Suc (Suc (Suc 0)))) ex_rt
     [Expr enter_sym [Long 4], Expr error_sym [Long 13], Expr return_sym [Long 1],
      Expr leave_sym [Long 1], Expr return_sym [Expr exc_sym []]]
     None [Caller] 0 Null 0 False ex_world =
     Some (Ret (Long 13) (None, [Caller], ex_world\<lparr>jl_exception_in_transit := Long 13\<rparr>))"
  "eval_body (Suc (Suc 0)) ex_rt [Expr leave_sym [Long 1], Expr return_sym [Long 5]]
     None [Caller] 0 Null 0 False ex_world = Some (Ret (Long 5) (None, [], ex_world))"
  by (simp_all add: interp_defs ex_defs sym_defs)

lemma body_stmt_goto_ifnot_through:
  "eval rt c s w = Ret cond w1 \<Longrightarrow> cond \<noteq> jl_false \<Longrightarrow>
   body_stmt rt (Expr goto_ifnot_sym (c # rest)) s eh i toplevel w =
     (if cond = jl_true then Next s eh (i + 1) w1
      else Done (Threw (s, eh, w1\<lparr>jl_exception_in_transit :=
                  TypeError ''toplevel'' ''if'' (jl_bool_type rt) cond\<rparr>)))"
  by (simp add: sym_defs in_frame_def jl_type_error_rt_def jl_throw_def)

lemma size_t_of_label: "1 \<le> label \<Longrightarrow> label \<le> 2 ^ 64 \<Longrightarrow> size_t_of (label - 1) = nat label - 1"
  by (simp add: size_t_of_def nat_diff_distrib)

text \<open>
  Claim C4.  A \<^verbatim>\<open>goto_ifnot\<close> statement executed by \<^verbatim>\<open>eval_body\<close>, whose condition
  has evaluated to \<open>cond\<close>: if \<open>cond\<close> is the false constant the loop goes on at
  instruction pointer \<^verbatim>\<open>label - 1\<close>; if it is the true constant the loop goes on at the
  next statement; for any other value the iteration raises a type error demanding a
  boolean, with which the invocation ends when its handler is not the innermost one.
\<close>

theorem goto_ifnot_branches:
  assumes "i < length stmts"
    and "stmts ! i = Expr goto_ifnot_sym (c # rest)"
    and "eval rt c s w = Ret cond w1"
  shows "(cond = jl_false \<longrightarrow> (\<forall>label rest2. rest = Long label # rest2 \<longrightarrow>
            eval_body (Suc fuel) rt stmts s eh d stmt i toplevel w =
              eval_body fuel rt stmts s eh d (stmts ! i) (size_t_of (label - 1)) toplevel w1 \<and>
            (1 \<le> label \<and> label \<le> 2 ^ 64 \<longrightarrow> size_t_of (label - 1) = nat label - 1))) \<and>
         (cond = jl_true \<longrightarrow>
            eval_body (Suc fuel) rt stmts s eh d stmt i toplevel w =
              eval_body fuel rt stmts s eh d (stmts ! i) (i + 1) toplevel w1) \<and>
         (cond \<noteq> jl_false \<and> cond \<noteq> jl_true \<longrightarrow>
            body_iteration rt stmts s eh i toplevel w =
              Done (Threw (s, eh, w1\<lparr>jl_exception_in_transit :=
                      TypeError ''toplevel'' ''if'' (jl_bool_type rt) cond\<rparr>)) \<and>
            (\<not> own_handler d eh \<longrightarrow>
               eval_body (Suc fuel) rt stmts s eh d stmt i toplevel w =
                 Some (Threw (s, eh, w1\<lparr>jl_exception_in_transit :=
                         TypeError ''toplevel'' ''if'' (jl_bool_type rt) cond\<rparr>))))"
proof (intro conjI impI allI)
  fix label rest2
  assume "cond = jl_false" "rest = Long label # rest2"
  then have "body_stmt rt (stmts ! i) s eh i toplevel w = Next s eh (size_t_of (label - 1)) w1"
    using assms by (simp add: body_stmt_goto_ifnot del: body_stmt.simps)
  with assms(1) show "eval_body (Suc fuel) rt stmts s eh d stmt i toplevel w =
      eval_body fuel rt stmts s eh d (stmts ! i) (size_t_of (label - 1)) toplevel w1"
    by (rule eval_body_next)
next
  fix label :: int
  assume "1 \<le> label \<and> label \<le> 2 ^ 64"
  then show "size_t_of (label - 1) = nat label - 1"
    by (simp add: size_t_of_label)
next
  assume "cond = jl_true"
  then have "body_stmt rt (stmts ! i) s eh i toplevel w = Next s eh (i + 1) w1"
    using assms by (simp add: body_stmt_goto_ifnot_through del: body_stmt.simps)
  with assms(1) show "eval_body (Suc fuel) rt stmts s eh d stmt i toplevel w =
      eval_body fuel rt stmts s eh d (stmts ! i) (i + 1) toplevel w1"
    by (rule eval_body_next)
next
  assume other: "cond \<noteq> jl_false \<and> cond \<noteq> jl_true"
  then have raised: "body_stmt rt (stmts ! i) s eh i toplevel w =
      Done (Threw (s, eh, w1\<lparr>jl_exception_in_transit :=
              TypeError ''toplevel'' ''if'' (jl_bool_type rt) cond\<rparr>))"
    using assms by (simp add: body_stmt_goto_ifnot_through del: body_stmt.simps)
  with assms(1) show "body_iteration rt stmts s eh i toplevel w =
      Done (Threw (s, eh, w1\<lparr>jl_exception_in_transit :=
              TypeError ''toplevel'' ''if'' (jl_bool_type rt) cond\<rparr>))"
    by (simp add: body_iteration_fetch del: body_stmt.simps)
  show "eval_body (Suc fuel) rt stmts s eh d stmt i toplevel w =
      Some (Threw (s, eh, w1\<lparr>jl_exception_in_transit :=
              TypeError ''toplevel'' ''if'' (jl_bool_type rt) cond\<rparr>))"
    if "\<not> own_handler d eh"
    using assms(1) raised that by (rule eval_body_thrown)
qed

theorem goto_ifnot_branches_witness:
  "eval_body (Suc (Suc 0)) ex_rt
     [Expr goto_ifnot_sym [jl_false, Long 3], Expr return_sym [Long 10], Expr return_sym [Long 20]]
     None [Caller] 0 Null 0 False ex_world = Some (Ret (Long 20) (None, [Caller], ex_world)) \<and>
   eval_body (Suc (Suc 0)) ex_rt
     [Expr goto_ifnot_sym [jl_true, Long 3], Expr return_sym [Long 10], Expr return_sym [Long 20]]
     None [Caller] 0 Null 0 False ex_world = Some (Ret (Long 10) (None, [Caller], ex_world)) \<and>
   body_iteration ex_rt
     [Expr goto_ifnot_sym [Long 0, Long 3], Expr return_sym [Long 10], Expr return_sym [Long 20]]
     None [Caller] 0 False ex_world =
       Done (Threw (None, [Caller], ex_world\<lparr>jl_exception_in_transit :=
               TypeError ''toplevel'' ''if'' (DataType 1002) (Long 0)\<rparr>)) \<and>
   eval_body (Suc (Suc 0)) ex_rt
     [Expr goto_ifnot_sym [Long 0, Long 3], Expr return_sym [Long 10], Expr return_sym [Long 20]]
     None [Caller] 0 Null 0 False ex_world =
       Some (Threw (None, [Caller], ex_world\<lparr>jl_exception_in_transit :=
               TypeError ''toplevel'' ''if'' (DataType 1002) (Long 0)\<rparr>))"
  using goto_ifnot_branches [where i = 0 and fuel = "Suc 0" and rt = ex_rt and s = None
          and eh = "[Caller]" and d = 0 and stmt = Null
          and toplevel = False and w = ex_world and c = jl_false and cond = jl_false
          and ?w1.0 = ex_world and rest = "[Long 3]"
          and stmts = "[Expr goto_ifnot_sym [jl_false, Long 3], Expr return_sym [Long 10], Expr return_sym [Long 20]]"]
        goto_ifnot_branches [where i = 0 and fuel = "Suc 0" and rt = ex_rt and s = None
          and eh = "[Caller]" and d = 0 and stmt = Null
          and toplevel = False and w = ex_world and c = jl_true and cond = jl_true
          and ?w1.0 = ex_world and rest = "[Long 3]"
          and stmts = "[Expr goto_ifnot_sym [jl_true, Long 3], Expr return_sym [Long 10], Expr return_sym [Long 20]]"]
        goto_ifnot_branches [where i = 0 and fuel = "Suc 0" and rt = ex_rt and s = None
          and eh = "[Caller]" and d = 0 and stmt = Null
          and toplevel = False and w = ex_world and c = "Long 0" and cond = "Long 0"
          and ?w1.0 = ex_world and rest = "[Long 3]"
          and stmts = "[Expr goto_ifnot_sym [Long 0, Long 3], Expr return_sym [Long 10], Expr return_sym [Long 20]]"]
  by (simp add: interp_defs ex_defs sym_defs)

subsection \<open>Order of evaluation in a call\<close>

lemma eval_Expr_call:
  "eval rt (Expr call_sym args) s w = do_call rt (\<lambda>a. eval rt a s) args w"
  by (simp add: sym_defs)

lemma eval_argv_in_order:
  "evaluated_in_order ev args w vs w' \<Longrightarrow> eval_argv ev args argv w = Ret (argv @ vs) w'"
proof (induction args arbitrary: w vs argv)
  case Nil
  then show ?case by simp
next
  case (Cons a as)
  then show ?case
    by (cases "ev a w"; cases vs) auto
qed

lemma eval_argv_append:
  "eval_argv ev (xs @ ys) argv w =
     bind_res (eval_argv ev xs argv w) (\<lambda>argv1 w1. eval_argv ev ys argv1 w1)"
proof (induction xs arbitrary: argv w)
  case Nil
  then show ?case by simp
next
  case (Cons a xs)
  then show ?case by (cases "ev a w") simp_all
qed

lemma eval_argv_stops:
  assumes "i < length args"
    and "evaluated_in_order ev (take i args) w vs w1"
    and "ev (args ! i) w1 = Threw w2"
  shows "eval_argv ev args [] w = Threw w2"
proof -
  have "args = take i args @ args ! i # drop (Suc i) args"
    using assms(1) by (simp add: id_take_nth_drop)
  then have "eval_argv ev args [] w =
      bind_res (eval_argv ev (take i args) [] w)
        (\<lambda>argv1 w1. eval_argv ev (args ! i # drop (Suc i) args) argv1 w1)"
    using eval_argv_append [of ev "take i args" "args ! i # drop (Suc i) args" "[]" w] by simp
  also have "\<dots> = Threw w2"
    using eval_argv_in_order [OF assms(2), of "[]"] assms(3) by simp
  finally show ?thesis .
qed

text \<open>
  Claim C9.  In a \<^verbatim>\<open>call\<close> expression the arguments are evaluated strictly left to
  right, each in the state the one before it left, into the argument vector, and generic
  dispatch is invoked on that vector in the state the last argument left.  When an
  argument throws, the arguments after it are not evaluated and dispatch is not invoked.
\<close>

theorem call_arguments_left_to_right:
  "(evaluated_in_order (\<lambda>a. eval rt a s) args w vs w' \<longrightarrow>
      eval rt (Expr call_sym args) s w = jl_apply_generic rt vs w') \<and>
   (i < length args \<and> evaluated_in_order (\<lambda>a. eval rt a s) (take i args) w vs w1 \<and>
    eval rt (args ! i) s w1 = Threw w2 \<longrightarrow>
      eval rt (Expr call_sym args) s w = Threw w2)"
  unfolding eval_Expr_call do_call_def
  using eval_argv_in_order [of "\<lambda>a. eval rt a s" args w vs w' "[]"]
        eval_argv_stops [of i args "\<lambda>a. eval rt a s" w vs w1 w2]
  by auto

theorem call_arguments_left_to_right_witness:
  "evaluated_in_order (\<lambda>a. eval ex_rt a None)
     [Expr call_sym [Long 1], Expr call_sym [Long 2]] ex_world
     [Tuple [Long 1], Tuple [Long 2]]
     (ex_world\<lparr>runtime_state := [Tuple [Long 1], Tuple [Long 2]]\<rparr>) \<and>
   eval ex_rt (Expr call_sym [Expr call_sym [Long 1], Expr call_sym [Long 2]]) None ex_world =
     Ret (Tuple [Tuple [Long 1], Tuple [Long 2]])
       (ex_world\<lparr>runtime_state :=
          [Tuple [Long 1], Tuple [Long 2], Tuple [Tuple [Long 1], Tuple [Long 2]]]\<rparr>) \<and>
   evaluated_in_order (\<lambda>a. eval ex_rt a None)
     (take 1 [Expr call_sym [Long 1], Expr error_sym [Long 7], Expr call_sym [Long 2]]) ex_world
     [Tuple [Long 1]] (ex_world\<lparr>runtime_state := [Tuple [Long 1]]\<rparr>) \<and>
   eval ex_rt (Expr call_sym [Expr call_sym [Long 1], Expr error_sym [Long 7], Expr call_sym [Long 2]])
     None ex_world =
     Threw (ex_world\<lparr>jl_exception_in_transit := Long 7, runtime_state := [Tuple [Long 1]]\<rparr>)"
  using call_arguments_left_to_right [where rt = ex_rt and s = None and w = ex_world
          and args = "[Expr call_sym [Long 1], Expr call_sym [Long 2]]"
          and vs = "[Tuple [Long 1], Tuple [Long 2]]"
          and w' = "ex_world\<lparr>runtime_state := [Tuple [Long 1], Tuple [Long 2]]\<rparr>"]
        call_arguments_left_to_right [where rt = ex_rt and s = None and w = ex_world
          and args = "[Expr call_sym [Long 1], Expr error_sym [Long 7], Expr call_sym [Long 2]]"
          and i = 1 and vs = "[Tuple [Long 1]]"
          and ?w1.0 = "ex_world\<lparr>runtime_state := [Tuple [Long 1]]\<rparr>"
          and ?w2.0 = "ex_world\<lparr>jl_exception_in_transit := Long 7, runtime_state := [Tuple [Long 1]]\<rparr>"]
  by (simp add: interp_defs ex_defs sym_defs)

subsection \<open>Definition forms return nothing\<close>

lemma bind_res_Ret_iff:
  "bind_res m f = Ret v w \<longleftrightarrow> (\<exists>a w0. m = Ret a w0 \<and> f a w0 = Ret v w)"
  by (cases m) auto

lemma typedef_finish_nothing: "typedef_finish rt dt b temp w = Ret v w' \<Longrightarrow> v = jl_nothing"
  by (auto simp: typedef_finish_def Let_def bind_res_Ret_iff split: if_splits)

lemma supertype_scope_nothing:
  "supertype_scope rt ev dt b temp args k w = Ret v w' \<Longrightarrow> v = jl_nothing"
  by (auto simp: supertype_scope_def typedef_catch_def jl_rethrow_def
           split: res.splits dest: typedef_finish_nothing)

lemma compositetype_finish_nothing:
  "compositetype_finish rt dt b temp para w = Ret v w' \<Longrightarrow> v = jl_nothing"
  by (auto simp: compositetype_finish_def bind_res_Ret_iff
           split: if_splits dest: typedef_finish_nothing)

lemma compositetype_scope_nothing:
  "compositetype_scope rt ev dt b temp para args w = Ret v w' \<Longrightarrow> v = jl_nothing"
  by (auto simp: compositetype_scope_def typedef_catch_def jl_rethrow_def
           split: res.splits dest: compositetype_finish_nothing)

lemma eval_abstracttype_nothing:
  "eval_abstracttype rt ev modu args w = Ret v w' \<Longrightarrow> v = jl_nothing"
  by (auto simp: eval_abstracttype_def bind_res_Ret_iff dest: supertype_scope_nothing)

lemma eval_bitstype_nothing:
  "eval_bitstype rt ev modu args w = Ret v w' \<Longrightarrow> v = jl_nothing"
  by (auto simp: eval_bitstype_def bind_res_Ret_iff dest: supertype_scope_nothing)

lemma eval_compositetype_nothing:
  "eval_compositetype rt ev modu args w = Ret v w' \<Longrightarrow> v = jl_nothing"
  by (auto simp: eval_compositetype_def bind_res_Ret_iff dest: compositetype_scope_nothing)

lemma eval_const_nothing: "eval_const rt modu args w = Ret v w' \<Longrightarrow> v = jl_nothing"
  by (auto simp: eval_const_def bind_res_Ret_iff split: list.splits val.splits)

lemma eval_global_nothing: "eval_global rt modu args w = Ret v w' \<Longrightarrow> v = jl_nothing"
  by (auto simp: eval_global_def bind_res_Ret_iff)

lemma method_install_nothing: "method_install rt ev args w = Ret v w' \<Longrightarrow> v = jl_nothing"
  by (auto simp: method_install_def bind_res_Ret_iff split: if_splits)

lemma eval_method_nothing:
  "eval_method rt ev modu args w = Ret v w' \<Longrightarrow> length args \<noteq> 1 \<Longrightarrow> v = jl_nothing"
  by (auto simp: eval_method_def bind_res_Ret_iff
           split: list.splits val.splits if_splits dest: method_install_nothing)

text \<open>
  Claim C10.  A successful evaluation of a \<^verbatim>\<open>const\<close>, \<^verbatim>\<open>global\<close>, \<^verbatim>\<open>abstract_type\<close>,
  \<^verbatim>\<open>bits_type\<close> or \<^verbatim>\<open>composite_type\<close> expression, or of a \<^verbatim>\<open>method\<close> expression with
  four arguments, returns the unit value \<^verbatim>\<open>jl_nothing\<close>.
\<close>

theorem definition_forms_return_nothing:
  assumes "eval rt (Expr head args) s w = Ret v w'"
    and "head \<in> {const_sym, global_sym, abstracttype_sym, bitstype_sym, compositetype_sym} \<or>
         head = method_sym \<and> length args = 4"
  shows "v = jl_nothing"
proof -
  consider "head = const_sym" | "head = global_sym" | "head = abstracttype_sym"
    | "head = bitstype_sym" | "head = compositetype_sym" | "head = method_sym" "length args = 4"
    using assms(2) by auto
  then show ?thesis
  proof cases
    case 1
    with assms(1) show ?thesis by (auto simp: sym_defs dest: eval_const_nothing)
  next
    case 2
    with assms(1) show ?thesis by (auto simp: sym_defs dest: eval_global_nothing)
  next
    case 3
    with assms(1) show ?thesis by (auto simp: sym_defs dest: eval_abstracttype_nothing)
  next
    case 4
    with assms(1) show ?thesis by (auto simp: sym_defs dest: eval_bitstype_nothing)
  next
    case 5
    with assms(1) show ?thesis by (auto simp: sym_defs dest: eval_compositetype_nothing)
  next
    case 6
    with assms(1) show ?thesis by (auto simp: sym_defs dest: eval_method_nothing)
  qed
qed

theorem definition_forms_return_nothing_witness:
  "eval ex_rt (Expr const_sym [Sym ''c'']) None ex_world =
     Ret jl_nothing
       (ex_world\<lparr>bindings := (bindings ex_world)
          (101 := \<lparr>b_name = ''c'', b_value = Null, b_constp = True\<rparr>)\<rparr>) \<and>
   eval ex_rt (Expr global_sym [Sym ''g'', Sym ''hh'']) None ex_world =
     Ret jl_nothing
       (ex_world\<lparr>bindings := (bindings ex_world)
          (101 := \<lparr>b_name = ''g'', b_value = Null, b_constp = False\<rparr>,
           102 := \<lparr>b_name = ''hh'', b_value = Null, b_constp = False\<rparr>)\<rparr>) \<and>
   eval ex_rt (Expr method_sym [Sym ''f'', SVec [], LambdaInfo 3, Nothing]) None ex_world =
     Ret jl_nothing
       (ex_world\<lparr>bindings := (bindings ex_world)
          (101 := \<lparr>b_name = ''f'', b_value = Obj 101, b_constp = False\<rparr>)\<rparr>) \<and>
   length [Sym ''f'', SVec [], LambdaInfo 3, Nothing] = 4 \<and>
   eval ex_rt (Expr abstracttype_sym [Sym ''A'', SVec [], DataType 1001]) None ex_world =
     Ret jl_nothing
       (ex_world\<lparr>bindings := (bindings ex_world)
                    (101 := \<lparr>b_name = ''A'', b_value = DataType 0, b_constp = False\<rparr>),
                  dtypes := (dtypes ex_world)
                    (0 := \<lparr>dt_name = 0, dt_super = DataType 1001, dt_parameters = SVec [],
                           dt_types = SVec [], dt_instance = Null, dt_size = 0,
                           dt_abstract = True, dt_mutabl = False, dt_ninitialized = 0\<rparr>),
                  typenames := (typenames ex_world)
                    (0 := \<lparr>tn_name = ''A'', tn_names = SVec []\<rparr>),
                  runtime_state := [DataType 0]\<rparr>)"
  using definition_forms_return_nothing [where rt = ex_rt and head = const_sym
          and args = "[Sym ''c'']" and s = None and w = ex_world and v = jl_nothing
          and w' = "ex_world\<lparr>bindings := (bindings ex_world)
                      (101 := \<lparr>b_name = ''c'', b_value = Null, b_constp = True\<rparr>)\<rparr>"]
        definition_forms_return_nothing [where rt = ex_rt and head = global_sym
          and args = "[Sym ''g'', Sym ''hh'']" and s = None and w = ex_world and v = jl_nothing
          and w' = "ex_world\<lparr>bindings := (bindings ex_world)
                      (101 := \<lparr>b_name = ''g'', b_value = Null, b_constp = False\<rparr>,
                       102 := \<lparr>b_name = ''hh'', b_value = Null, b_constp = False\<rparr>)\<rparr>"]
        definition_forms_return_nothing [where rt = ex_rt and head = method_sym
          and args = "[Sym ''f'', SVec [], LambdaInfo 3, Nothing]" and s = None and w = ex_world
          and v = jl_nothing
          and w' = "ex_world\<lparr>bindings := (bindings ex_world)
                      (101 := \<lparr>b_name = ''f'', b_value = Obj 101, b_constp = False\<rparr>)\<rparr>"]
  by (simp add: interp_defs ex_defs sym_defs)


subsection \<open>Atomicity of a type definition\<close>

lemma check_can_assign_type_Ret: "check_can_assign_type b w = Ret u w' \<Longrightarrow> w' = w"
  by (auto simp: check_can_assign_type_def jl_error_def jl_throw_def split: if_splits)

lemma returns_only_simps [simp]:
  "returns_only (Ret x w) Q = Q x w"
  "returns_only (Threw w) Q"
  "returns_only Abort Q"
  by (simp_all add: returns_only_def)

lemma returns_only_throw [simp]:
  "returns_only (jl_throw e w) Q"
  "returns_only (jl_error msg w) Q"
  by (simp_all add: jl_error_def jl_throw_def)

lemma bind_res_throw [simp]:
  "bind_res (jl_throw e w) f = jl_throw e w"
  "bind_res (jl_error msg w) f = jl_error msg w"
  by (simp_all add: jl_error_def jl_throw_def)

lemma returns_only_bind:
  "(\<And>a w1. returns_only (f a w1) Q) \<Longrightarrow> returns_only (bind_res m f) Q"
  by (cases m) simp_all

lemma bind_check_can_assign_type:
  "bind_res (check_can_assign_type b w) f =
     (if b_constp (bindings w b) \<and> b_value (bindings w b) \<noteq> Null \<and>
         \<not> jl_is_datatype (b_value (bindings w b))
      then jl_error (''invalid redefinition of constant '' @ b_name (bindings w b)) w
      else f () w)"
  by (simp add: check_can_assign_type_def jl_error_def jl_throw_def)

lemma typedef_binding_snapshot:
  "returns_only (typedef_binding rt modu nm dt w) (\<lambda>(dt, b, temp) w0. temp = b_value (bindings w0 b))"
  unfolding typedef_binding_def bind_check_can_assign_type
  by (auto intro!: returns_only_bind)

lemma typedef_binding_snapshot_para:
  "returns_only (bind_res (typedef_binding rt modu nm dt w) (\<lambda>dbt w4. Ret (dbt, para) w4))
     (\<lambda>((dt, b, temp), para) w0. temp = b_value (bindings w0 b))"
  unfolding typedef_binding_def bind_check_can_assign_type
  by (cases "jl_get_binding_wr rt modu nm w") auto

lemma abstracttype_prologue_snapshot:
  "returns_only (abstracttype_prologue rt ev modu args w)
     (\<lambda>(dt, b, temp) w0. temp = b_value (bindings w0 b))"
  unfolding abstracttype_prologue_def
  by (auto intro!: returns_only_bind typedef_binding_snapshot split: val.split)

lemma bitstype_prologue_snapshot:
  "returns_only (bitstype_prologue rt ev modu args w)
     (\<lambda>(dt, b, temp) w0. temp = b_value (bindings w0 b))"
  unfolding bitstype_prologue_def bitstype_define_def
  by (auto intro!: returns_only_bind typedef_binding_snapshot split: val.split list.split)

lemma compositetype_prologue_snapshot:
  "returns_only (compositetype_prologue rt ev modu args w)
     (\<lambda>((dt, b, temp), para) w0. temp = b_value (bindings w0 b))"
  unfolding compositetype_prologue_def
  by (auto intro!: returns_only_bind typedef_binding_snapshot_para split: val.split list.split)

lemma abstracttype_prologue_temp:
  "abstracttype_prologue rt ev modu args w = Ret (dt, b, temp) w0 \<Longrightarrow> temp = b_value (bindings w0 b)"
  using abstracttype_prologue_snapshot [of rt ev modu args w] by simp

lemma bitstype_prologue_temp:
  "bitstype_prologue rt ev modu args w = Ret (dt, b, temp) w0 \<Longrightarrow> temp = b_value (bindings w0 b)"
  using bitstype_prologue_snapshot [of rt ev modu args w] by simp

lemma compositetype_prologue_temp:
  "compositetype_prologue rt ev modu args w = Ret ((dt, b, temp), para) w0 \<Longrightarrow>
   temp = b_value (bindings w0 b)"
  using compositetype_prologue_snapshot [of rt ev modu args w] by simp

lemma eval_Expr_abstracttype:
  "eval rt (Expr abstracttype_sym args) s w =
     eval_abstracttype rt (\<lambda>a. eval rt a s) (eval_modu s w) args w"
  by (simp add: sym_defs)

lemma eval_Expr_compositetype:
  "eval rt (Expr compositetype_sym args) s w =
     eval_compositetype rt (\<lambda>a. eval rt a s) (eval_modu s w) args w"
  by (simp add: sym_defs)

lemma restored_binding:
  "b_value (bindings (set_binding_value b temp w) b) = temp"
  "jl_exception_in_transit (set_binding_value b temp w) = jl_exception_in_transit w"
  by (simp_all add: set_binding_value_def)

text \<open>
  Claim C1.  Typedef atomicity.  Suppose that the prologue of an \<^verbatim>\<open>abstract_type\<close>,
  \<^verbatim>\<open>bits_type\<close> or \<^verbatim>\<open>composite_type\<close> expression has allocated the datatype \<open>dt\<close>, found
  the binding \<open>b\<close> and saved its value in \<open>temp\<close>, and that the protected part (the
  evaluation and installation of the supertype, the evaluation and check of the field
  types, the reinstantiation of the inner types) fails in the state \<open>w1\<close>.  Then \<open>temp\<close> is
  the value that the binding had when the attempt began, the expression throws, the state
  it throws in is \<open>w1\<close> after \<^verbatim>\<open>jl_reset_instantiate_inner_types\<close> on \<open>dt\<close> and with the
  binding set back to \<open>temp\<close>, so the binding holds its value of before the attempt, and
  the exception in transit is the one of the failure as the reset left it.
\<close>

theorem typedef_failure_rolls_back:
  "(abstracttype_prologue rt (\<lambda>a. eval rt a s) (eval_modu s w) args w = Ret (dt, b, temp) w0 \<and>
    supertype_try rt (\<lambda>a. eval rt a s) dt args 2 (set_binding_value b (DataType dt) w0) = Threw w1 \<longrightarrow>
      temp = b_value (bindings w0 b) \<and>
      eval rt (Expr abstracttype_sym args) s w =
        Threw (set_binding_value b temp (jl_reset_instantiate_inner_types rt dt w1)) \<and>
      b_value (bindings (set_binding_value b temp (jl_reset_instantiate_inner_types rt dt w1)) b) =
        b_value (bindings w0 b) \<and>
      jl_exception_in_transit (set_binding_value b temp (jl_reset_instantiate_inner_types rt dt w1)) =
        jl_exception_in_transit (jl_reset_instantiate_inner_types rt dt w1)) \<and>
   (bitstype_prologue rt (\<lambda>a. eval rt a s) (eval_modu s w) args w = Ret (dt, b, temp) w0 \<and>
    supertype_try rt (\<lambda>a. eval rt a s) dt args 3 (set_binding_value b (DataType dt) w0) = Threw w1 \<longrightarrow>
      temp = b_value (bindings w0 b) \<and>
      eval rt (Expr bitstype_sym args) s w =
        Threw (set_binding_value b temp (jl_reset_instantiate_inner_types rt dt w1)) \<and>
      b_value (bindings (set_binding_value b temp (jl_reset_instantiate_inner_types rt dt w1)) b) =
        b_value (bindings w0 b) \<and>
      jl_exception_in_transit (set_binding_value b temp (jl_reset_instantiate_inner_types rt dt w1)) =
        jl_exception_in_transit (jl_reset_instantiate_inner_types rt dt w1)) \<and>
   (compositetype_prologue rt (\<lambda>a. eval rt a s) (eval_modu s w) args w = Ret ((dt, b, temp), para) w0 \<and>
    compositetype_try rt (\<lambda>a. eval rt a s) dt args (set_binding_value b (DataType dt) w0) = Threw w1 \<longrightarrow>
      temp = b_value (bindings w0 b) \<and>
      eval rt (Expr compositetype_sym args) s w =
        Threw (set_binding_value b temp (jl_reset_instantiate_inner_types rt dt w1)) \<and>
      b_value (bindings (set_binding_value b temp (jl_reset_instantiate_inner_types rt dt w1)) b) =
        b_value (bindings w0 b) \<and>
      jl_exception_in_transit (set_binding_value b temp (jl_reset_instantiate_inner_types rt dt w1)) =
        jl_exception_in_transit (jl_reset_instantiate_inner_types rt dt w1))"
proof (intro conjI impI; elim conjE)
  assume p: "abstracttype_prologue rt (\<lambda>a. eval rt a s) (eval_modu s w) args w = Ret (dt, b, temp) w0"
    and t: "supertype_try rt (\<lambda>a. eval rt a s) dt args 2 (set_binding_value b (DataType dt) w0) = Threw w1"
  show "eval rt (Expr abstracttype_sym args) s w =
        Threw (set_binding_value b temp (jl_reset_instantiate_inner_types rt dt w1))"
    unfolding eval_Expr_abstracttype eval_abstracttype_def p
    by (simp add: supertype_scope_def t typedef_catch_def jl_rethrow_def)
  show "temp = b_value (bindings w0 b)"
    using p by (rule abstracttype_prologue_temp)
  then show "b_value (bindings (set_binding_value b temp (jl_reset_instantiate_inner_types rt dt w1)) b) =
        b_value (bindings w0 b)"
    by (simp add: restored_binding)
next
  assume p: "bitstype_prologue rt (\<lambda>a. eval rt a s) (eval_modu s w) args w = Ret (dt, b, temp) w0"
    and t: "supertype_try rt (\<lambda>a. eval rt a s) dt args 3 (set_binding_value b (DataType dt) w0) = Threw w1"
  show "eval rt (Expr bitstype_sym args) s w =
        Threw (set_binding_value b temp (jl_reset_instantiate_inner_types rt dt w1))"
    unfolding eval_Expr_bitstype eval_bitstype_def p
    by (simp add: supertype_scope_def t typedef_catch_def jl_rethrow_def)
  show "temp = b_value (bindings w0 b)"
    using p by (rule bitstype_prologue_temp)
  then show "b_value (bindings (set_binding_value b temp (jl_reset_instantiate_inner_types rt dt w1)) b) =
        b_value (bindings w0 b)"
    by (simp add: restored_binding)
next
  assume p: "compositetype_prologue rt (\<lambda>a. eval rt a s) (eval_modu s w) args w = Ret ((dt, b, temp), para) w0"
    and t: "compositetype_try rt (\<lambda>a. eval rt a s) dt args (set_binding_value b (DataType dt) w0) = Threw w1"
  show "eval rt (Expr compositetype_sym args) s w =
        Threw (set_binding_value b temp (jl_reset_instantiate_inner_types rt dt w1))"
    unfolding eval_Expr_compositetype eval_compositetype_def p
    by (simp add: compositetype_scope_def t typedef_catch_def jl_rethrow_def)
  show "temp = b_value (bindings w0 b)"
    using p by (rule compositetype_prologue_temp)
  then show "b_value (bindings (set_binding_value b temp (jl_reset_instantiate_inner_types rt dt w1)) b) =
        b_value (bindings w0 b)"
    by (simp add: restored_binding)
qed (simp_all add: restored_binding)


theorem typedef_failure_rolls_back_witness:
  "b_value (bindings (ex_world\<lparr>jl_current_module := 5\<rparr>) 501) = Long 42 \<and>
   abstracttype_prologue ex_rt (\<lambda>a. eval ex_rt a None) 5 [Sym ''x'', SVec [], Long 5]
     (ex_world\<lparr>jl_current_module := 5\<rparr>) =
     Ret (0, 501, Long 42) (ex_declared (ex_type True 0)) \<and>
   supertype_try ex_rt (\<lambda>a. eval ex_rt a None) 0 [Sym ''x'', SVec [], Long 5] 2
     (set_binding_value 501 (DataType 0) (ex_declared (ex_type True 0))) =
     Threw ((set_binding_value 501 (DataType 0) (ex_declared (ex_type True 0)))
              \<lparr>inside_typedef := 1, jl_exception_in_transit :=
                 ErrorException ''invalid subtyping in definition of x''\<rparr>) \<and>
   bitstype_prologue ex_rt (\<lambda>a. eval ex_rt a None) 5 [Sym ''x'', SVec [], Long 16, Long 5]
     (ex_world\<lparr>jl_current_module := 5\<rparr>) =
     Ret (0, 501, Long 42) (ex_declared (ex_type False 2)) \<and>
   supertype_try ex_rt (\<lambda>a. eval ex_rt a None) 0 [Sym ''x'', SVec [], Long 16, Long 5] 3
     (set_binding_value 501 (DataType 0) (ex_declared (ex_type False 2))) =
     Threw ((set_binding_value 501 (DataType 0) (ex_declared (ex_type False 2)))
              \<lparr>inside_typedef := 1, jl_exception_in_transit :=
                 ErrorException ''invalid subtyping in definition of x''\<rparr>) \<and>
   compositetype_prologue ex_rt (\<lambda>a. eval ex_rt a None) 5
     [Sym ''x'', SVec [], SVec [], DataType 1001, SVec [Long 1], jl_false, Long 0]
     (ex_world\<lparr>jl_current_module := 5\<rparr>) =
     Ret ((0, 501, Long 42), SVec []) (ex_declared (ex_type False 0)) \<and>
   compositetype_try ex_rt (\<lambda>a. eval ex_rt a None) 0
     [Sym ''x'', SVec [], SVec [], DataType 1001, SVec [Long 1], jl_false, Long 0]
     (set_binding_value 501 (DataType 0) (ex_declared (ex_type False 0))) =
     Threw ((set_binding_value 501 (DataType 0)
               (ex_declared ((ex_type False 0)\<lparr>dt_super := DataType 1001,
                                                dt_types := SVec [Long 1]\<rparr>)))
              \<lparr>inside_typedef := 1, jl_exception_in_transit :=
                 TypeError ''x'' ''type definition'' (DataType 1003) (Long 1)\<rparr>) \<and>
   eval ex_rt (Expr abstracttype_sym [Sym ''x'', SVec [], Long 5]) None
     (ex_world\<lparr>jl_current_module := 5\<rparr>) =
     Threw ((ex_declared (ex_type True 0))\<lparr>jl_exception_in_transit :=
              ErrorException ''invalid subtyping in definition of x''\<rparr>) \<and>
   eval ex_rt (Expr bitstype_sym [Sym ''x'', SVec [], Long 16, Long 5]) None
     (ex_world\<lparr>jl_current_module := 5\<rparr>) =
     Threw ((ex_declared (ex_type False 2))\<lparr>jl_exception_in_transit :=
              ErrorException ''invalid subtyping in definition of x''\<rparr>) \<and>
   eval ex_rt (Expr compositetype_sym
       [Sym ''x'', SVec [], SVec [], DataType 1001, SVec [Long 1], jl_false, Long 0]) None
     (ex_world\<lparr>jl_current_module := 5\<rparr>) =
     Threw ((ex_declared ((ex_type False 0)\<lparr>dt_super := DataType 1001, dt_types := SVec [Long 1]\<rparr>))
              \<lparr>jl_exception_in_transit :=
                 TypeError ''x'' ''type definition'' (DataType 1003) (Long 1)\<rparr>) \<and>
   b_value (bindings (ex_declared (ex_type True 0)) 501) = Long 42 \<and>
   b_value (bindings (ex_declared (ex_type False 2)) 501) = Long 42 \<and>
   b_value (bindings (ex_declared
      ((ex_type False 0)\<lparr>dt_super := DataType 1001, dt_types := SVec [Long 1]\<rparr>)) 501) = Long 42"
  using typedef_failure_rolls_back [where rt = ex_rt and s = None
          and w = "ex_world\<lparr>jl_current_module := 5\<rparr>"
          and args = "[Sym ''x'', SVec [], Long 5]"
          and dt = 0 and b = 501 and temp = "Long 42"
          and ?w0.0 = "ex_declared (ex_type True 0)"
          and ?w1.0 = "(set_binding_value 501 (DataType 0) (ex_declared (ex_type True 0)))
                         \<lparr>inside_typedef := 1, jl_exception_in_transit :=
                            ErrorException ''invalid subtyping in definition of x''\<rparr>"]
        typedef_failure_rolls_back [where rt = ex_rt and s = None
          and w = "ex_world\<lparr>jl_current_module := 5\<rparr>"
          and args = "[Sym ''x'', SVec [], Long 16, Long 5]"
          and dt = 0 and b = 501 and temp = "Long 42"
          and ?w0.0 = "ex_declared (ex_type False 2)"
          and ?w1.0 = "(set_binding_value 501 (DataType 0) (ex_declared (ex_type False 2)))
                         \<lparr>inside_typedef := 1, jl_exception_in_transit :=
                            ErrorException ''invalid subtyping in definition of x''\<rparr>"]
        typedef_failure_rolls_back [where rt = ex_rt and s = None
          and w = "ex_world\<lparr>jl_current_module := 5\<rparr>"
          and args = "[Sym ''x'', SVec [], SVec [], DataType 1001, SVec [Long 1], jl_false, Long 0]"
          and dt = 0 and b = 501 and temp = "Long 42" and para = "SVec []"
          and ?w0.0 = "ex_declared (ex_type False 0)"
          and ?w1.0 = "(set_binding_value 501 (DataType 0)
                          (ex_declared ((ex_type False 0)\<lparr>dt_super := DataType 1001,
                                                           dt_types := SVec [Long 1]\<rparr>)))
                         \<lparr>inside_typedef := 1, jl_exception_in_transit :=
                            TypeError ''x'' ''type definition'' (DataType 1003) (Long 1)\<rparr>"]
  by (simp add: interp_defs ex_defs sym_defs)


subsection \<open>Reloading an equivalent type\<close>

lemma equiv_type_is_spec: "equiv_type rt w dt temp = equivalent_datatypes rt w dt temp"
  by (cases temp) (simp_all add: equiv_type_def equivalent_datatypes_def Let_def)

text \<open>
  Claim C6.  Idempotent type reload.  The test \<^verbatim>\<open>equiv_type\<close> of the code is the
  equivalence of the specification.  When the protected part of a type definition has
  succeeded, the expression ends as \<open>typedef_finish\<close> does (for a composite type, after the
  field offsets and, for a singleton, the instance): the binding is set back to the
  previous value \<open>temp\<close>; if \<open>temp\<close> is present and the new datatype is equivalent to it,
  nothing more happens, the expression returns nothing and the binding holds the old
  type, with no checked assignment; if \<open>temp\<close> is absent or not equivalent, the expression
  is the checked assignment of the new type to the binding.
\<close>

theorem idempotent_type_reload:
  "equiv_type rt wx dt temp = equivalent_datatypes rt wx dt temp \<and>
   (temp \<noteq> Null \<and> equivalent_datatypes rt (set_binding_value b temp wx) dt temp \<longrightarrow>
      typedef_finish rt dt b temp wx = Ret jl_nothing (set_binding_value b temp wx) \<and>
      b_value (bindings (set_binding_value b temp wx) b) = temp) \<and>
   (temp = Null \<or> \<not> equivalent_datatypes rt (set_binding_value b temp wx) dt temp \<longrightarrow>
      typedef_finish rt dt b temp wx =
        bind_res (jl_checked_assignment rt b (DataType dt) (set_binding_value b temp wx))
          (\<lambda>u w2. Ret jl_nothing w2)) \<and>
   (abstracttype_prologue rt (\<lambda>a. eval rt a s) (eval_modu s w) args w = Ret (dt, b, temp) w0 \<and>
    supertype_try rt (\<lambda>a. eval rt a s) dt args 2 (set_binding_value b (DataType dt) w0) = Ret u wx \<longrightarrow>
      temp = b_value (bindings w0 b) \<and>
      eval rt (Expr abstracttype_sym args) s w = typedef_finish rt dt b temp wx) \<and>
   (bitstype_prologue rt (\<lambda>a. eval rt a s) (eval_modu s w) args w = Ret (dt, b, temp) w0 \<and>
    supertype_try rt (\<lambda>a. eval rt a s) dt args 3 (set_binding_value b (DataType dt) w0) = Ret u wx \<longrightarrow>
      temp = b_value (bindings w0 b) \<and>
      eval rt (Expr bitstype_sym args) s w = typedef_finish rt dt b temp wx) \<and>
   (compositetype_prologue rt (\<lambda>a. eval rt a s) (eval_modu s w) args w = Ret ((dt, b, temp), para) w0 \<and>
    compositetype_try rt (\<lambda>a. eval rt a s) dt args (set_binding_value b (DataType dt) w0) = Ret u w1 \<and>
    jl_compute_field_offsets rt dt w1 = Ret u2 w2 \<longrightarrow>
      temp = b_value (bindings w0 b) \<and>
      (para = jl_emptysvec \<and> jl_is_datatype_make_singleton rt w2 dt \<longrightarrow>
         (\<forall>inst w3. newstruct rt dt w2 = Ret inst w3 \<longrightarrow>
            eval rt (Expr compositetype_sym args) s w =
              typedef_finish rt dt b temp (set_dt_instance dt inst w3))) \<and>
      (\<not> (para = jl_emptysvec \<and> jl_is_datatype_make_singleton rt w2 dt) \<longrightarrow>
         eval rt (Expr compositetype_sym args) s w = typedef_finish rt dt b temp w2))"
proof (intro conjI impI; (elim conjE)?)
  show "equiv_type rt wx dt temp = equivalent_datatypes rt wx dt temp"
    by (rule equiv_type_is_spec)
next
  assume "temp \<noteq> Null" "equivalent_datatypes rt (set_binding_value b temp wx) dt temp"
  then show "typedef_finish rt dt b temp wx = Ret jl_nothing (set_binding_value b temp wx)"
    by (simp add: typedef_finish_def equiv_type_is_spec)
next
  show "b_value (bindings (set_binding_value b temp wx) b) = temp"
    by (simp add: restored_binding)
next
  assume "temp = Null \<or> \<not> equivalent_datatypes rt (set_binding_value b temp wx) dt temp"
  then show "typedef_finish rt dt b temp wx =
        bind_res (jl_checked_assignment rt b (DataType dt) (set_binding_value b temp wx))
          (\<lambda>u w2. Ret jl_nothing w2)"
    by (auto simp: typedef_finish_def equiv_type_is_spec)
next
  assume p: "abstracttype_prologue rt (\<lambda>a. eval rt a s) (eval_modu s w) args w = Ret (dt, b, temp) w0"
    and t: "supertype_try rt (\<lambda>a. eval rt a s) dt args 2 (set_binding_value b (DataType dt) w0) = Ret u wx"
  show "temp = b_value (bindings w0 b)"
    using p by (rule abstracttype_prologue_temp)
  show "eval rt (Expr abstracttype_sym args) s w = typedef_finish rt dt b temp wx"
    unfolding eval_Expr_abstracttype eval_abstracttype_def p
    by (simp add: supertype_scope_def t)
next
  assume p: "bitstype_prologue rt (\<lambda>a. eval rt a s) (eval_modu s w) args w = Ret (dt, b, temp) w0"
    and t: "supertype_try rt (\<lambda>a. eval rt a s) dt args 3 (set_binding_value b (DataType dt) w0) = Ret u wx"
  show "temp = b_value (bindings w0 b)"
    using p by (rule bitstype_prologue_temp)
  show "eval rt (Expr bitstype_sym args) s w = typedef_finish rt dt b temp wx"
    unfolding eval_Expr_bitstype eval_bitstype_def p
    by (simp add: supertype_scope_def t)
next
  assume p: "compositetype_prologue rt (\<lambda>a. eval rt a s) (eval_modu s w) args w = Ret ((dt, b, temp), para) w0"
    and t: "compositetype_try rt (\<lambda>a. eval rt a s) dt args (set_binding_value b (DataType dt) w0) = Ret u w1"
    and c: "jl_compute_field_offsets rt dt w1 = Ret u2 w2"
  show "temp = b_value (bindings w0 b)"
    using p by (rule compositetype_prologue_temp)
  have e: "eval rt (Expr compositetype_sym args) s w =
        (if para = jl_emptysvec \<and> jl_is_datatype_make_singleton rt w2 dt
         then bind_res (newstruct rt dt w2)
                (\<lambda>inst w3. typedef_finish rt dt b temp (set_dt_instance dt inst w3))
         else typedef_finish rt dt b temp w2)"
    unfolding eval_Expr_compositetype eval_compositetype_def p
    by (simp add: compositetype_scope_def t compositetype_finish_def c)
  show "\<forall>inst w3. newstruct rt dt w2 = Ret inst w3 \<longrightarrow>
            eval rt (Expr compositetype_sym args) s w =
              typedef_finish rt dt b temp (set_dt_instance dt inst w3)"
    if "para = jl_emptysvec" "jl_is_datatype_make_singleton rt w2 dt"
    using that by (simp add: e del: eval.simps)
  show "eval rt (Expr compositetype_sym args) s w = typedef_finish rt dt b temp w2"
    if "\<not> (para = jl_emptysvec \<and> jl_is_datatype_make_singleton rt w2 dt)"
    using that by (auto simp add: e simp del: eval.simps)
qed


theorem idempotent_type_reload_witness:
  "b_value (bindings ex_reload 101) = DataType 0 \<and>
   abstracttype_prologue ex_rt (\<lambda>a. eval ex_rt a None) 1 [Sym ''A'', SVec [], DataType 1001] ex_reload =
     Ret (1, 101, DataType 0) (ex_reloaded ((ex_type True 0)\<lparr>dt_name := 1\<rparr>)) \<and>
   supertype_try ex_rt (\<lambda>a. eval ex_rt a None) 1 [Sym ''A'', SVec [], DataType 1001] 2
     (set_binding_value 101 (DataType 1) (ex_reloaded ((ex_type True 0)\<lparr>dt_name := 1\<rparr>))) =
     Ret () (set_binding_value 101 (DataType 1)
               (ex_reloaded ((ex_type True 0)\<lparr>dt_name := 1, dt_super := DataType 1001\<rparr>))) \<and>
   equivalent_datatypes ex_rt
     (ex_reloaded ((ex_type True 0)\<lparr>dt_name := 1, dt_super := DataType 1001\<rparr>)) 1 (DataType 0) \<and>
   eval ex_rt (Expr abstracttype_sym [Sym ''A'', SVec [], DataType 1001]) None ex_reload =
     Ret jl_nothing (ex_reloaded ((ex_type True 0)\<lparr>dt_name := 1, dt_super := DataType 1001\<rparr>)) \<and>
   b_value (bindings (ex_reloaded ((ex_type True 0)\<lparr>dt_name := 1, dt_super := DataType 1001\<rparr>)) 101) =
     DataType 0 \<and>
   bitstype_prologue ex_rt (\<lambda>a. eval ex_rt a None) 1
     [Sym ''A'', SVec [], Long 8, DataType 1001] ex_reload =
     Ret (1, 101, DataType 0) (ex_reloaded ((ex_type False 1)\<lparr>dt_name := 1\<rparr>)) \<and>
   supertype_try ex_rt (\<lambda>a. eval ex_rt a None) 1 [Sym ''A'', SVec [], Long 8, DataType 1001] 3
     (set_binding_value 101 (DataType 1) (ex_reloaded ((ex_type False 1)\<lparr>dt_name := 1\<rparr>))) =
     Ret () (set_binding_value 101 (DataType 1)
               (ex_reloaded ((ex_type False 1)\<lparr>dt_name := 1, dt_super := DataType 1001\<rparr>))) \<and>
   \<not> equivalent_datatypes ex_rt
     (ex_reloaded ((ex_type False 1)\<lparr>dt_name := 1, dt_super := DataType 1001\<rparr>)) 1 (DataType 0) \<and>
   eval ex_rt (Expr bitstype_sym [Sym ''A'', SVec [], Long 8, DataType 1001]) None ex_reload =
     Ret jl_nothing (set_binding_value 101 (DataType 1)
       (ex_reloaded ((ex_type False 1)\<lparr>dt_name := 1, dt_super := DataType 1001\<rparr>))) \<and>
   compositetype_prologue ex_rt (\<lambda>a. eval ex_rt a None) 1
     [Sym ''A'', SVec [], SVec [], DataType 1001, SVec [], jl_false, Long 0] ex_reload =
     Ret ((1, 101, DataType 0), SVec []) (ex_reloaded ((ex_type False 0)\<lparr>dt_name := 1\<rparr>)) \<and>
   compositetype_try ex_rt (\<lambda>a. eval ex_rt a None) 1
     [Sym ''A'', SVec [], SVec [], DataType 1001, SVec [], jl_false, Long 0]
     (set_binding_value 101 (DataType 1) (ex_reloaded ((ex_type False 0)\<lparr>dt_name := 1\<rparr>))) =
     Ret () (set_binding_value 101 (DataType 1)
               (ex_reloaded ((ex_type False 0)\<lparr>dt_name := 1, dt_super := DataType 1001\<rparr>))) \<and>
   eval ex_rt (Expr compositetype_sym
       [Sym ''A'', SVec [], SVec [], DataType 1001, SVec [], jl_false, Long 0]) None ex_reload =
     Ret jl_nothing (set_binding_value 101 (DataType 1)
       (ex_reloaded ((ex_type False 0)\<lparr>dt_name := 1, dt_super := DataType 1001\<rparr>))) \<and>
   eval (ex_rt\<lparr>jl_is_datatype_make_singleton := \<lambda>w dt. True\<rparr>) (Expr compositetype_sym
       [Sym ''A'', SVec [], SVec [], DataType 1001, SVec [], jl_false, Long 0]) None ex_reload =
     Ret jl_nothing (set_binding_value 101 (DataType 1)
       (ex_reloaded ((ex_type False 0)\<lparr>dt_name := 1, dt_super := DataType 1001,
                                          dt_instance := Obj 1\<rparr>)))"
proof -
  let ?abs = "[Sym ''A'', SVec [], DataType 1001]"
  let ?bits = "[Sym ''A'', SVec [], Long 8, DataType 1001]"
  let ?comp = "[Sym ''A'', SVec [], SVec [], DataType 1001, SVec [], jl_false, Long 0]"
  let ?rt1 = "ex_rt\<lparr>jl_is_datatype_make_singleton := \<lambda>w dt. True\<rparr>"
  let ?wa = "ex_reloaded ((ex_type True 0)\<lparr>dt_name := 1, dt_super := DataType 1001\<rparr>)"
  let ?wb = "ex_reloaded ((ex_type False 1)\<lparr>dt_name := 1, dt_super := DataType 1001\<rparr>)"
  let ?wc = "ex_reloaded ((ex_type False 0)\<lparr>dt_name := 1, dt_super := DataType 1001\<rparr>)"
  have old: "b_value (bindings ex_reload 101) = DataType 0"
    by (simp add: ex_defs)
  have modu: "eval_modu None ex_reload = 1"
    by (simp add: eval_modu_def ex_defs)
  have pa: "abstracttype_prologue ex_rt (\<lambda>a. eval ex_rt a None) 1 ?abs ex_reload =
      Ret (1, 101, DataType 0) (ex_reloaded ((ex_type True 0)\<lparr>dt_name := 1\<rparr>))"
    by (simp add: interp_defs ex_defs sym_defs)
  have ta: "supertype_try ex_rt (\<lambda>a. eval ex_rt a None) 1 ?abs 2
      (set_binding_value 101 (DataType 1) (ex_reloaded ((ex_type True 0)\<lparr>dt_name := 1\<rparr>))) =
      Ret () (set_binding_value 101 (DataType 1) ?wa)"
    by (simp add: interp_defs ex_defs sym_defs)
  have back_a: "set_binding_value 101 (DataType 0) (set_binding_value 101 (DataType 1) ?wa) = ?wa"
    by (simp add: interp_defs ex_defs)
  have ea: "equivalent_datatypes ex_rt ?wa 1 (DataType 0)"
    by (simp add: ex_defs equivalent_datatypes_def)
  have keep: "b_value (bindings ?wa 101) = DataType 0"
    by (simp add: ex_defs)
  note A = idempotent_type_reload [where rt = ex_rt and s = None and w = ex_reload
      and args = ?abs and dt = 1 and b = 101 and temp = "DataType 0" and u = "()"
      and ?w0.0 = "ex_reloaded ((ex_type True 0)\<lparr>dt_name := 1\<rparr>)"
      and wx = "set_binding_value 101 (DataType 1) ?wa"]
  have "eval ex_rt (Expr abstracttype_sym ?abs) None ex_reload =
      typedef_finish ex_rt 1 101 (DataType 0) (set_binding_value 101 (DataType 1) ?wa)"
    using A pa ta unfolding modu by blast
  moreover have "typedef_finish ex_rt 1 101 (DataType 0) (set_binding_value 101 (DataType 1) ?wa) =
      Ret jl_nothing ?wa"
    using A ea unfolding back_a by blast
  ultimately have ra: "eval ex_rt (Expr abstracttype_sym ?abs) None ex_reload = Ret jl_nothing ?wa"
    by (simp del: eval.simps)
  have pb: "bitstype_prologue ex_rt (\<lambda>a. eval ex_rt a None) 1 ?bits ex_reload =
      Ret (1, 101, DataType 0) (ex_reloaded ((ex_type False 1)\<lparr>dt_name := 1\<rparr>))"
    by (simp add: interp_defs ex_defs sym_defs)
  have tb: "supertype_try ex_rt (\<lambda>a. eval ex_rt a None) 1 ?bits 3
      (set_binding_value 101 (DataType 1) (ex_reloaded ((ex_type False 1)\<lparr>dt_name := 1\<rparr>))) =
      Ret () (set_binding_value 101 (DataType 1) ?wb)"
    by (simp add: interp_defs ex_defs sym_defs)
  have back_b: "set_binding_value 101 (DataType 0) (set_binding_value 101 (DataType 1) ?wb) = ?wb"
    by (simp add: interp_defs ex_defs)
  have eb: "\<not> equivalent_datatypes ex_rt ?wb 1 (DataType 0)"
    by (simp add: ex_defs equivalent_datatypes_def)
  note B = idempotent_type_reload [where rt = ex_rt and s = None and w = ex_reload
      and args = ?bits and dt = 1 and b = 101 and temp = "DataType 0" and u = "()"
      and ?w0.0 = "ex_reloaded ((ex_type False 1)\<lparr>dt_name := 1\<rparr>)"
      and wx = "set_binding_value 101 (DataType 1) ?wb"]
  have "eval ex_rt (Expr bitstype_sym ?bits) None ex_reload =
      typedef_finish ex_rt 1 101 (DataType 0) (set_binding_value 101 (DataType 1) ?wb)"
    using B pb tb unfolding modu by blast
  moreover have "typedef_finish ex_rt 1 101 (DataType 0) (set_binding_value 101 (DataType 1) ?wb) =
      bind_res (jl_checked_assignment ex_rt 101 (DataType 1) ?wb) (\<lambda>u w2. Ret jl_nothing w2)"
    using B eb unfolding back_b by blast
  moreover have "bind_res (jl_checked_assignment ex_rt 101 (DataType 1) ?wb) (\<lambda>u w2. Ret jl_nothing w2) =
      Ret jl_nothing (set_binding_value 101 (DataType 1) ?wb)"
    by (simp add: ex_rt_def)
  ultimately have rb: "eval ex_rt (Expr bitstype_sym ?bits) None ex_reload =
      Ret jl_nothing (set_binding_value 101 (DataType 1) ?wb)"
    by (simp del: eval.simps)
  have pc: "compositetype_prologue ex_rt (\<lambda>a. eval ex_rt a None) 1 ?comp ex_reload =
      Ret ((1, 101, DataType 0), SVec []) (ex_reloaded ((ex_type False 0)\<lparr>dt_name := 1\<rparr>))"
    by (simp add: interp_defs ex_defs sym_defs)
  have tc: "compositetype_try ex_rt (\<lambda>a. eval ex_rt a None) 1 ?comp
      (set_binding_value 101 (DataType 1) (ex_reloaded ((ex_type False 0)\<lparr>dt_name := 1\<rparr>))) =
      Ret () (set_binding_value 101 (DataType 1) ?wc)"
    by (simp add: interp_defs ex_defs sym_defs)
  have fin_c: "typedef_finish ex_rt 1 101 (DataType 0) (set_binding_value 101 (DataType 1) ?wc) =
      Ret jl_nothing (set_binding_value 101 (DataType 1) ?wc)"
    by (simp add: interp_defs ex_defs)
  note C = idempotent_type_reload [where rt = ex_rt and s = None and w = ex_reload
      and args = ?comp and dt = 1 and b = 101 and temp = "DataType 0" and u = "()" and ?u2.0 = "()"
      and para = "SVec []" and ?w0.0 = "ex_reloaded ((ex_type False 0)\<lparr>dt_name := 1\<rparr>)"
      and ?w1.0 = "set_binding_value 101 (DataType 1) ?wc"
      and ?w2.0 = "set_binding_value 101 (DataType 1) ?wc"]
  have "jl_compute_field_offsets ex_rt 1 (set_binding_value 101 (DataType 1) ?wc) =
      Ret () (set_binding_value 101 (DataType 1) ?wc)"
    "\<not> jl_is_datatype_make_singleton ex_rt (set_binding_value 101 (DataType 1) ?wc) 1"
    by (simp_all add: ex_rt_def)
  then have "eval ex_rt (Expr compositetype_sym ?comp) None ex_reload =
      typedef_finish ex_rt 1 101 (DataType 0) (set_binding_value 101 (DataType 1) ?wc)"
    using C pc tc unfolding modu by blast
  then have rc: "eval ex_rt (Expr compositetype_sym ?comp) None ex_reload =
      Ret jl_nothing (set_binding_value 101 (DataType 1) ?wc)"
    using fin_c by (simp del: eval.simps)
  have pd: "compositetype_prologue ?rt1 (\<lambda>a. eval ?rt1 a None) 1 ?comp ex_reload =
      Ret ((1, 101, DataType 0), SVec []) (ex_reloaded ((ex_type False 0)\<lparr>dt_name := 1\<rparr>))"
    by (simp add: interp_defs ex_defs sym_defs)
  have td: "compositetype_try ?rt1 (\<lambda>a. eval ?rt1 a None) 1 ?comp
      (set_binding_value 101 (DataType 1) (ex_reloaded ((ex_type False 0)\<lparr>dt_name := 1\<rparr>))) =
      Ret () (set_binding_value 101 (DataType 1) ?wc)"
    by (simp add: interp_defs ex_defs sym_defs)
  have fin_d: "typedef_finish ?rt1 1 101 (DataType 0)
        (set_dt_instance 1 (Obj 1) (set_binding_value 101 (DataType 1) ?wc)) =
      Ret jl_nothing (set_binding_value 101 (DataType 1)
        (ex_reloaded ((ex_type False 0)\<lparr>dt_name := 1, dt_super := DataType 1001,
                                           dt_instance := Obj 1\<rparr>)))"
    by (simp add: interp_defs ex_defs)
  note D = idempotent_type_reload [where rt = ?rt1 and s = None and w = ex_reload
      and args = ?comp and dt = 1 and b = 101 and temp = "DataType 0" and u = "()" and ?u2.0 = "()"
      and para = "SVec []" and ?w0.0 = "ex_reloaded ((ex_type False 0)\<lparr>dt_name := 1\<rparr>)"
      and ?w1.0 = "set_binding_value 101 (DataType 1) ?wc"
      and ?w2.0 = "set_binding_value 101 (DataType 1) ?wc"]
  have "jl_compute_field_offsets ?rt1 1 (set_binding_value 101 (DataType 1) ?wc) =
      Ret () (set_binding_value 101 (DataType 1) ?wc)"
    "jl_is_datatype_make_singleton ?rt1 (set_binding_value 101 (DataType 1) ?wc) 1"
    "newstruct ?rt1 1 (set_binding_value 101 (DataType 1) ?wc) =
      Ret (Obj 1) (set_binding_value 101 (DataType 1) ?wc)"
    by (simp_all add: ex_rt_def)
  then have "eval ?rt1 (Expr compositetype_sym ?comp) None ex_reload =
      typedef_finish ?rt1 1 101 (DataType 0)
        (set_dt_instance 1 (Obj 1) (set_binding_value 101 (DataType 1) ?wc))"
    using D pd td unfolding modu by blast
  then have rd: "eval ?rt1 (Expr compositetype_sym ?comp) None ex_reload =
      Ret jl_nothing (set_binding_value 101 (DataType 1)
        (ex_reloaded ((ex_type False 0)\<lparr>dt_name := 1, dt_super := DataType 1001,
                                           dt_instance := Obj 1\<rparr>)))"
    using fin_d by (simp del: eval.simps)
  show ?thesis
    using old pa ta ea ra keep pb tb eb rb pc tc rc rd by (intro conjI)
qed

subsection \<open>The frame of an interpreted call\<close>

lemma call_locals_fills:
  assumes "li_nargs lam \<le> length locals"
    and "if li_isva lam then li_nargs lam - 1 \<le> length args else li_nargs lam \<le> length args"
  shows "call_locals lam args i locals =
     Some (map (\<lambda>j. if i \<le> j \<and> j < li_nargs lam then formal_value lam args j else locals ! j)
             [0..<length locals])"
  using assms
proof (induction lam args i locals rule: call_locals.induct)
  case (1 lam args i locals)
  show ?case
  proof (cases "i < li_nargs lam")
    case False
    then have "call_locals lam args i locals = Some locals"
      by (simp add: call_locals.simps [of lam args i])
    moreover from False have
      "map (\<lambda>j. if i \<le> j \<and> j < li_nargs lam then formal_value lam args j else locals ! j)
         [0..<length locals] = locals"
      by (auto intro!: nth_equalityI)
    ultimately show ?thesis by simp
  next
    case True
    let ?v = "formal_value lam args i"
    have fits: "i < length locals"
      using True "1.prems"(1) by simp
    have enough: "if li_isva lam \<and> i = li_nargs lam - 1 then i \<le> length args else i < length args"
      using True "1.prems"(2) by (auto split: if_splits)
    have step: "call_locals lam args i locals = call_locals lam args (i + 1) (locals[i := ?v])"
      using True fits enough
      by (subst call_locals.simps) (auto simp: formal_value_def split: if_splits)
    have ih: "call_locals lam args (i + 1) (locals[i := ?v]) =
        Some (map (\<lambda>j. if i + 1 \<le> j \<and> j < li_nargs lam then formal_value lam args j
                         else locals[i := ?v] ! j) [0..<length (locals[i := ?v])])"
    proof (cases "li_isva lam \<and> i = li_nargs lam - 1")
      case va: True
      have v: "?v = jl_f_tuple (drop i args)"
        using va by (simp add: formal_value_def)
      have "i \<le> length args \<and> i < length locals"
        using va enough fits by simp
      then show ?thesis
        unfolding v using "1.IH"(1) [OF \<open>i < li_nargs lam\<close> va] "1.prems" by simp
    next
      case nva: False
      have v: "?v = args ! i"
        using nva by (auto simp add: formal_value_def)
      have "i < length args \<and> i < length locals"
        using nva enough fits by simp
      then show ?thesis
        unfolding v using "1.IH"(2) [OF \<open>i < li_nargs lam\<close> nva] "1.prems" by simp
    qed
    have "map (\<lambda>j. if i + 1 \<le> j \<and> j < li_nargs lam then formal_value lam args j
                         else locals[i := ?v] ! j) [0..<length (locals[i := ?v])] =
          map (\<lambda>j. if i \<le> j \<and> j < li_nargs lam then formal_value lam args j else locals ! j)
             [0..<length locals]"
      using True fits by (auto simp: nth_list_update)
    with step ih show ?thesis by simp
  qed
qed


lemma call_locals_fresh:
  assumes "li_nargs lam \<le> n"
    and "if li_isva lam then li_nargs lam - 1 \<le> length args else li_nargs lam \<le> length args"
  shows "call_locals lam args 0 (replicate n Null) =
     Some (map (\<lambda>j. if j < li_nargs lam then formal_value lam args j else Null) [0..<n])"
  using call_locals_fills [of lam "replicate n Null" args 0] assms by simp

text \<open>
  Claim C2, amended.  For a call whose lambda info has at most \<open>nslots + nssavalues\<close>
  formals and whose actual arguments cover them (all of them, or all but the last one for
  a variadic lambda info), \<^verbatim>\<open>jl_interpret_call\<close> runs the body from its first statement in
  a frame whose locals have the length \<open>nslots + nssavalues\<close>, hold the actual argument
  \<open>args[i]\<close> at every index \<open>i\<close> below the number \<^verbatim>\<open>lam->nargs\<close> of formals, except that the
  last formal of a variadic lambda info holds the tuple of the actual arguments from its
  index on, and are absent elsewhere; and the body runs with \<open>toplevel\<close> set iff the
  lambda info has no formal.
\<close>

theorem interpret_call_frame:
  assumes "jl_linfo_nssavalues lam = Some nssa"
    and "int (li_nargs lam) \<le> jl_linfo_nslots lam + nssa"
    and "if li_isva lam then li_nargs lam - 1 \<le> length args else li_nargs lam \<le> length args"
  shows "jl_interpret_call fuel rt lam args sparam_vals nh w =
     out_of_frame
       (eval_body fuel rt (li_code lam)
          (Some \<lparr>s_lam = Some lam,
                 s_locals = Some (map (\<lambda>j. if j < li_nargs lam then formal_value lam args j else Null)
                                    [0..<nat (jl_linfo_nslots lam + nssa)]),
                 s_sparam_vals = sparam_vals\<rparr>)
          (replicate nh Caller) 0 Null 0 (li_nargs lam = 0) w)"
proof -
  have "li_nargs lam \<le> nat (jl_linfo_nslots lam + nssa)"
    using assms(2) by simp
  then have "call_locals lam args 0 (replicate (nat (jl_linfo_nslots lam + nssa)) Null) =
     Some (map (\<lambda>j. if j < li_nargs lam then formal_value lam args j else Null)
             [0..<nat (jl_linfo_nslots lam + nssa)])"
    using assms(3) by (rule call_locals_fresh)
  moreover have "\<not> jl_linfo_nslots lam + nssa < 0"
    using assms(2) by simp
  ultimately show ?thesis
    unfolding jl_interpret_call_def using assms(1) by simp
qed

theorem interpret_call_frame_witness:
  "jl_linfo_nssavalues ex_lam_va = Some 0 \<and>
   int (li_nargs ex_lam_va) \<le> jl_linfo_nslots ex_lam_va + 0 \<and>
   li_isva ex_lam_va \<and> li_nargs ex_lam_va - 1 \<le> length [Obj 9, Long 10, Long 20] \<and>
   map (\<lambda>j. if j < li_nargs ex_lam_va then formal_value ex_lam_va [Obj 9, Long 10, Long 20] j else Null)
     [0..<nat (jl_linfo_nslots ex_lam_va + 0)] = [Obj 9, Tuple [Long 10, Long 20], Null] \<and>
   jl_interpret_call (Suc (Suc 0)) ex_rt ex_lam_va [Obj 9, Long 10, Long 20] Null 1 ex_world =
     Some (Ret (Tuple [Long 10, Long 20]) ex_world)"
  using interpret_call_frame [where lam = ex_lam_va and nssa = 0 and args = "[Obj 9, Long 10, Long 20]"
          and fuel = "Suc (Suc 0)" and rt = ex_rt and sparam_vals = Null and nh = 1 and w = ex_world]
  by (simp add: interp_defs ex_defs sym_defs formal_value_def out_of_frame_def upt_rec)

text \<open>
  The claim C2 as the specification words it, with the count of the actual arguments in
  the place of the count of the formals, fails.  A variadic lambda info with the formals
  \<open>f, xs...\<close> called with three actual arguments leaves its third local absent, although
  the index 2 is below the count of the actual arguments; and a lambda info with the only
  formal \<open>xs...\<close> called with no argument runs its body with \<open>toplevel\<close> unset (the line
  node leaves the line counter alone), whereas a body run with \<open>toplevel\<close> set, as the
  count 0 of the actual arguments would have it, sets the line counter to 7.
\<close>

theorem interpret_call_frame_counterexample:
  "call_locals ex_lam_va [Obj 9, Long 10, Long 20] 0 (replicate 3 Null) =
     Some [Obj 9, Tuple [Long 10, Long 20], Null] \<and>
   (2::nat) < length [Obj 9, Long 10, Long 20] \<and>
   [Obj 9, Tuple [Long 10, Long 20], Null] ! 2 \<noteq> [Obj 9, Long 10, Long 20] ! 2 \<and>
   jl_interpret_call (Suc (Suc 0)) ex_rt ex_lam_va1 [] Null 1 ex_world =
     Some (Ret (Tuple []) ex_world) \<and>
   out_of_frame
     (eval_body (Suc (Suc 0)) ex_rt (li_code ex_lam_va1)
        (Some \<lparr>s_lam = Some ex_lam_va1, s_locals = Some [Tuple []], s_sparam_vals = Null\<rparr>)
        [Caller] 0 Null 0 (length ([] :: val list) = 0) ex_world) =
     Some (Ret (Tuple []) (ex_world\<lparr>jl_lineno := 7\<rparr>)) \<and>
   ex_world\<lparr>jl_lineno := 7\<rparr> \<noteq> ex_world"
proof -
  have "call_locals ex_lam_va [Obj 9, Long 10, Long 20] 0 (replicate 3 Null) =
     Some [Obj 9, Tuple [Long 10, Long 20], Null]"
    by (simp add: call_locals.simps ex_lam_va_def jl_f_tuple_def numeral_3_eq_3)
  moreover have "call_locals ex_lam_va1 [] 0 (replicate (nat (jl_linfo_nslots ex_lam_va1 + 0)) Null) =
     Some [Tuple []]"
    by (simp add: call_locals.simps ex_lam_va1_def jl_f_tuple_def jl_linfo_nslots_def)
  then have "jl_interpret_call (Suc (Suc 0)) ex_rt ex_lam_va1 [] Null 1 ex_world =
     Some (Ret (Tuple []) ex_world)"
    by (simp add: jl_interpret_call_def interp_defs ex_defs sym_defs out_of_frame_def)
  moreover have "out_of_frame
     (eval_body (Suc (Suc 0)) ex_rt (li_code ex_lam_va1)
        (Some \<lparr>s_lam = Some ex_lam_va1, s_locals = Some [Tuple []], s_sparam_vals = Null\<rparr>)
        [Caller] 0 Null 0 (length ([] :: val list) = 0) ex_world) =
     Some (Ret (Tuple []) (ex_world\<lparr>jl_lineno := 7\<rparr>))"
    by (simp add: interp_defs ex_defs sym_defs out_of_frame_def)
  moreover have "ex_world\<lparr>jl_lineno := 7\<rparr> \<noteq> ex_world"
  proof
    assume "ex_world\<lparr>jl_lineno := 7\<rparr> = ex_world"
    then have "jl_lineno (ex_world\<lparr>jl_lineno := 7\<rparr>) = jl_lineno ex_world"
      by simp
    then show False
      by (simp add: ex_world_def)
  qed
  ultimately show ?thesis
    by simp
qed

end
